theory Spec2Isabelle
  imports Complex_Main
begin

section \<open>Fixed-size dense linear algebra\<close>

text \<open>
  The source works on Eigen's fixed-size types \<open>Vec3\<close>, \<open>Vec6\<close>, \<open>Mat3\<close>, \<open>Mat4\<close>,
  \<open>Mat6\<close> of doubles.  Each becomes a datatype of that size; a matrix is the tuple of
  its rows.  A \<open>double\<close> that takes part in arithmetic is a real number; the two places of
  the source where a non-finite double matters (the argument of \<open>std::acos\<close> and the
  finiteness check of the setters) are modelled explicitly further below.
\<close>

datatype vec3 = Vec3 real real real

datatype vec4 = Vec4 real real real real

datatype vec6 = Vec6 real real real real real real

datatype mat3 = Mat3 vec3 vec3 vec3

datatype mat4 = Mat4 vec4 vec4 vec4 vec4

datatype mat6 = Mat6 vec6 vec6 vec6 vec6 vec6 vec6

subsection \<open>Vectors: \<open>+\<close>, \<open>-\<close> and scalar multiples, coefficient by coefficient\<close>

instantiation vec3 :: real_vector
begin

fun plus_vec3 :: "vec3 \<Rightarrow> vec3 \<Rightarrow> vec3" where
  "plus_vec3 (Vec3 a b c) (Vec3 a' b' c') = Vec3 (a + a') (b + b') (c + c')"

fun minus_vec3 :: "vec3 \<Rightarrow> vec3 \<Rightarrow> vec3" where
  "minus_vec3 (Vec3 a b c) (Vec3 a' b' c') = Vec3 (a - a') (b - b') (c - c')"

fun uminus_vec3 :: "vec3 \<Rightarrow> vec3" where
  "uminus_vec3 (Vec3 a b c) = Vec3 (- a) (- b) (- c)"

fun scaleR_vec3 :: "real \<Rightarrow> vec3 \<Rightarrow> vec3" where
  "scaleR_vec3 k (Vec3 a b c) = Vec3 (k * a) (k * b) (k * c)"

definition zero_vec3 :: vec3 where
  "zero_vec3 = Vec3 0 0 0"

instance
proof
  fix a b c :: vec3 and r s :: real
  show "a + b + c = a + (b + c)" by (cases a; cases b; cases c) simp
  show "a + b = b + a" by (cases a; cases b) simp
  show "0 + a = a" by (cases a) (simp add: zero_vec3_def)
  show "- a + a = 0" by (cases a) (simp add: zero_vec3_def)
  show "a - b = a + - b" by (cases a; cases b) simp
  show "r *\<^sub>R (a + b) = r *\<^sub>R a + r *\<^sub>R b" by (cases a; cases b) (simp add: algebra_simps)
  show "(r + s) *\<^sub>R a = r *\<^sub>R a + s *\<^sub>R a" by (cases a) (simp add: algebra_simps)
  show "r *\<^sub>R s *\<^sub>R a = (r * s) *\<^sub>R a" by (cases a) simp
  show "1 *\<^sub>R a = a" by (cases a) simp
qed

end

instantiation vec6 :: real_vector
begin

fun plus_vec6 :: "vec6 \<Rightarrow> vec6 \<Rightarrow> vec6" where
  "plus_vec6 (Vec6 a b c d e f) (Vec6 a' b' c' d' e' f') =
     Vec6 (a + a') (b + b') (c + c') (d + d') (e + e') (f + f')"

fun minus_vec6 :: "vec6 \<Rightarrow> vec6 \<Rightarrow> vec6" where
  "minus_vec6 (Vec6 a b c d e f) (Vec6 a' b' c' d' e' f') =
     Vec6 (a - a') (b - b') (c - c') (d - d') (e - e') (f - f')"

fun uminus_vec6 :: "vec6 \<Rightarrow> vec6" where
  "uminus_vec6 (Vec6 a b c d e f) = Vec6 (- a) (- b) (- c) (- d) (- e) (- f)"

fun scaleR_vec6 :: "real \<Rightarrow> vec6 \<Rightarrow> vec6" where
  "scaleR_vec6 k (Vec6 a b c d e f) = Vec6 (k * a) (k * b) (k * c) (k * d) (k * e) (k * f)"

definition zero_vec6 :: vec6 where
  "zero_vec6 = Vec6 0 0 0 0 0 0"

instance
proof
  fix a b c :: vec6 and r s :: real
  show "a + b + c = a + (b + c)" by (cases a; cases b; cases c) simp
  show "a + b = b + a" by (cases a; cases b) simp
  show "0 + a = a" by (cases a) (simp add: zero_vec6_def)
  show "- a + a = 0" by (cases a) (simp add: zero_vec6_def)
  show "a - b = a + - b" by (cases a; cases b) simp
  show "r *\<^sub>R (a + b) = r *\<^sub>R a + r *\<^sub>R b" by (cases a; cases b) (simp add: algebra_simps)
  show "(r + s) *\<^sub>R a = r *\<^sub>R a + s *\<^sub>R a" by (cases a) (simp add: algebra_simps)
  show "r *\<^sub>R s *\<^sub>R a = (r * s) *\<^sub>R a" by (cases a) simp
  show "1 *\<^sub>R a = a" by (cases a) simp
qed

end

subsection \<open>Matrices\<close>

text \<open>
  \<open>vm3 r B\<close> is the row vector \<open>r\<close> times the matrix \<open>B\<close>, the combination of the rows
  of \<open>B\<close> with the coefficients of \<open>r\<close>; row \<open>i\<close> of a product \<open>A * B\<close> is row \<open>i\<close>
  of \<open>A\<close> times \<open>B\<close>.  \<open>dot3\<close> and \<open>mv3\<close> give the matrix-vector product.
\<close>

fun vm3 :: "vec3 \<Rightarrow> mat3 \<Rightarrow> vec3" where
  "vm3 (Vec3 a b c) (Mat3 r0 r1 r2) = a *\<^sub>R r0 + b *\<^sub>R r1 + c *\<^sub>R r2"

fun dot3 :: "vec3 \<Rightarrow> vec3 \<Rightarrow> real" where
  "dot3 (Vec3 a b c) (Vec3 a' b' c') = a * a' + b * b' + c * c'"

fun mv3 :: "mat3 \<Rightarrow> vec3 \<Rightarrow> vec3" where
  "mv3 (Mat3 r0 r1 r2) v = Vec3 (dot3 r0 v) (dot3 r1 v) (dot3 r2 v)"

fun vm6 :: "vec6 \<Rightarrow> mat6 \<Rightarrow> vec6" where
  "vm6 (Vec6 a b c d e f) (Mat6 r0 r1 r2 r3 r4 r5) =
     a *\<^sub>R r0 + b *\<^sub>R r1 + c *\<^sub>R r2 + d *\<^sub>R r3 + e *\<^sub>R r4 + f *\<^sub>R r5"

fun dot6 :: "vec6 \<Rightarrow> vec6 \<Rightarrow> real" where
  "dot6 (Vec6 a b c d e f) (Vec6 a' b' c' d' e' f') =
     a * a' + b * b' + c * c' + d * d' + e * e' + f * f'"

fun mv6 :: "mat6 \<Rightarrow> vec6 \<Rightarrow> vec6" where
  "mv6 (Mat6 r0 r1 r2 r3 r4 r5) v =
     Vec6 (dot6 r0 v) (dot6 r1 v) (dot6 r2 v) (dot6 r3 v) (dot6 r4 v) (dot6 r5 v)"

instantiation mat3 :: real_algebra_1
begin

fun plus_mat3 :: "mat3 \<Rightarrow> mat3 \<Rightarrow> mat3" where
  "plus_mat3 (Mat3 a b c) (Mat3 a' b' c') = Mat3 (a + a') (b + b') (c + c')"

fun minus_mat3 :: "mat3 \<Rightarrow> mat3 \<Rightarrow> mat3" where
  "minus_mat3 (Mat3 a b c) (Mat3 a' b' c') = Mat3 (a - a') (b - b') (c - c')"

fun uminus_mat3 :: "mat3 \<Rightarrow> mat3" where
  "uminus_mat3 (Mat3 a b c) = Mat3 (- a) (- b) (- c)"

fun scaleR_mat3 :: "real \<Rightarrow> mat3 \<Rightarrow> mat3" where
  "scaleR_mat3 k (Mat3 a b c) = Mat3 (k *\<^sub>R a) (k *\<^sub>R b) (k *\<^sub>R c)"

fun times_mat3 :: "mat3 \<Rightarrow> mat3 \<Rightarrow> mat3" where
  "times_mat3 (Mat3 a b c) B = Mat3 (vm3 a B) (vm3 b B) (vm3 c B)"

definition zero_mat3 :: mat3 where
  "zero_mat3 = Mat3 0 0 0"

definition one_mat3 :: mat3 where
  "one_mat3 = Mat3 (Vec3 1 0 0) (Vec3 0 1 0) (Vec3 0 0 1)"

instance
proof
  fix a b c :: mat3 and r s :: real
  have vm3_add: "vm3 (u + v) m = vm3 u m + vm3 v m" for u v m
    by (cases u; cases v; cases m) (simp add: algebra_simps)
  have vm3_scale: "vm3 (k *\<^sub>R u) m = k *\<^sub>R vm3 u m" for k u m
    by (cases u; cases m) (simp add: algebra_simps)
  have vm3_add_right: "vm3 u (m + n) = vm3 u m + vm3 u n" for u m n
    by (cases u; cases m; cases n) (simp add: algebra_simps)
  have vm3_scale_right: "vm3 u (k *\<^sub>R m) = k *\<^sub>R vm3 u m" for k u m
    by (cases u; cases m) (simp add: algebra_simps)
  have vm3_assoc: "vm3 (vm3 u m) n = vm3 u (m * n)" for u m n
    by (cases u; cases m) (simp add: vm3_add vm3_scale)
  show "a + b + c = a + (b + c)" by (cases a; cases b; cases c) simp
  show "a + b = b + a" by (cases a; cases b) simp
  show "0 + a = a" by (cases a) (simp add: zero_mat3_def)
  show "- a + a = 0" by (cases a) (simp add: zero_mat3_def)
  show "a - b = a + - b" by (cases a; cases b) simp
  show "r *\<^sub>R (a + b) = r *\<^sub>R a + r *\<^sub>R b" by (cases a; cases b) (simp add: algebra_simps)
  show "(r + s) *\<^sub>R a = r *\<^sub>R a + s *\<^sub>R a" by (cases a) (simp add: algebra_simps)
  show "r *\<^sub>R s *\<^sub>R a = (r * s) *\<^sub>R a" by (cases a) simp
  show "1 *\<^sub>R a = a" by (cases a) simp
  show "a * b * c = a * (b * c)" by (cases a) (simp add: vm3_assoc)
  show "1 * a = a"
    by (cases a) (simp add: one_mat3_def zero_vec3_def [symmetric])
  show "a * 1 = a"
  proof (cases a)
    case (Mat3 x y z)
    have "vm3 u 1 = u" for u
      by (cases u) (simp add: one_mat3_def)
    then show ?thesis using Mat3 by simp
  qed
  show "(a + b) * c = a * c + b * c" by (cases a; cases b) (simp add: vm3_add)
  show "a * (b + c) = a * b + a * c" by (cases a) (simp add: vm3_add_right)
  show "r *\<^sub>R a * b = r *\<^sub>R (a * b)" by (cases a) (simp add: vm3_scale)
  show "a * r *\<^sub>R b = r *\<^sub>R (a * b)" by (cases a) (simp add: vm3_scale_right)
  show "(0::mat3) \<noteq> 1" by (simp add: zero_mat3_def one_mat3_def zero_vec3_def)
qed

end

instantiation mat6 :: real_algebra_1
begin

fun plus_mat6 :: "mat6 \<Rightarrow> mat6 \<Rightarrow> mat6" where
  "plus_mat6 (Mat6 a b c d e f) (Mat6 a' b' c' d' e' f') =
     Mat6 (a + a') (b + b') (c + c') (d + d') (e + e') (f + f')"

fun minus_mat6 :: "mat6 \<Rightarrow> mat6 \<Rightarrow> mat6" where
  "minus_mat6 (Mat6 a b c d e f) (Mat6 a' b' c' d' e' f') =
     Mat6 (a - a') (b - b') (c - c') (d - d') (e - e') (f - f')"

fun uminus_mat6 :: "mat6 \<Rightarrow> mat6" where
  "uminus_mat6 (Mat6 a b c d e f) = Mat6 (- a) (- b) (- c) (- d) (- e) (- f)"

fun scaleR_mat6 :: "real \<Rightarrow> mat6 \<Rightarrow> mat6" where
  "scaleR_mat6 k (Mat6 a b c d e f) =
     Mat6 (k *\<^sub>R a) (k *\<^sub>R b) (k *\<^sub>R c) (k *\<^sub>R d) (k *\<^sub>R e) (k *\<^sub>R f)"

fun times_mat6 :: "mat6 \<Rightarrow> mat6 \<Rightarrow> mat6" where
  "times_mat6 (Mat6 a b c d e f) B =
     Mat6 (vm6 a B) (vm6 b B) (vm6 c B) (vm6 d B) (vm6 e B) (vm6 f B)"

definition zero_mat6 :: mat6 where
  "zero_mat6 = Mat6 0 0 0 0 0 0"

definition one_mat6 :: mat6 where
  "one_mat6 = Mat6 (Vec6 1 0 0 0 0 0) (Vec6 0 1 0 0 0 0) (Vec6 0 0 1 0 0 0)
                   (Vec6 0 0 0 1 0 0) (Vec6 0 0 0 0 1 0) (Vec6 0 0 0 0 0 1)"

instance
proof
  fix a b c :: mat6 and r s :: real
  have vm6_add: "vm6 (u + v) m = vm6 u m + vm6 v m" for u v m
    by (cases u; cases v; cases m) (simp add: algebra_simps)
  have vm6_scale: "vm6 (k *\<^sub>R u) m = k *\<^sub>R vm6 u m" for k u m
    by (cases u; cases m) (simp add: algebra_simps)
  have vm6_add_right: "vm6 u (m + n) = vm6 u m + vm6 u n" for u m n
    by (cases u; cases m; cases n) (simp add: algebra_simps)
  have vm6_scale_right: "vm6 u (k *\<^sub>R m) = k *\<^sub>R vm6 u m" for k u m
    by (cases u; cases m) (simp add: algebra_simps)
  have vm6_assoc: "vm6 (vm6 u m) n = vm6 u (m * n)" for u m n
    by (cases u; cases m) (simp add: vm6_add vm6_scale)
  show "a + b + c = a + (b + c)" by (cases a; cases b; cases c) simp
  show "a + b = b + a" by (cases a; cases b) simp
  show "0 + a = a" by (cases a) (simp add: zero_mat6_def)
  show "- a + a = 0" by (cases a) (simp add: zero_mat6_def)
  show "a - b = a + - b" by (cases a; cases b) simp
  show "r *\<^sub>R (a + b) = r *\<^sub>R a + r *\<^sub>R b" by (cases a; cases b) (simp add: algebra_simps)
  show "(r + s) *\<^sub>R a = r *\<^sub>R a + s *\<^sub>R a" by (cases a) (simp add: algebra_simps)
  show "r *\<^sub>R s *\<^sub>R a = (r * s) *\<^sub>R a" by (cases a) simp
  show "1 *\<^sub>R a = a" by (cases a) simp
  show "a * b * c = a * (b * c)" by (cases a) (simp add: vm6_assoc)
  show "1 * a = a"
    by (cases a) (simp add: one_mat6_def zero_vec6_def [symmetric])
  show "a * 1 = a"
  proof (cases a)
    case (Mat6 x y z u v w)
    have "vm6 q 1 = q" for q
      by (cases q) (simp add: one_mat6_def)
    then show ?thesis using Mat6 by simp
  qed
  show "(a + b) * c = a * c + b * c" by (cases a; cases b) (simp add: vm6_add)
  show "a * (b + c) = a * b + a * c" by (cases a) (simp add: vm6_add_right)
  show "r *\<^sub>R a * b = r *\<^sub>R (a * b)" by (cases a) (simp add: vm6_scale)
  show "a * r *\<^sub>R b = r *\<^sub>R (a * b)" by (cases a) (simp add: vm6_scale_right)
  show "(0::mat6) \<noteq> 1" by (simp add: zero_mat6_def one_mat6_def zero_vec6_def)
qed

end

text \<open>
  Coefficient access \<open>V(i)\<close>, \<open>M(i, j)\<close> and coefficient assignment.  Every index in
  the source is a literal inside the dimensions; outside them (where Eigen's behaviour
  is not defined) a read gives the last coefficient and a write changes nothing.
\<close>

fun coeff3 :: "vec3 \<Rightarrow> nat \<Rightarrow> real" where
  "coeff3 (Vec3 a b c) i = (if i = 0 then a else if i = 1 then b else c)"

fun row3 :: "mat3 \<Rightarrow> nat \<Rightarrow> vec3" where
  "row3 (Mat3 r0 r1 r2) i = (if i = 0 then r0 else if i = 1 then r1 else r2)"

definition coeff33 :: "mat3 \<Rightarrow> nat \<Rightarrow> nat \<Rightarrow> real" where
  "coeff33 M i j = coeff3 (row3 M i) j"

fun coeff6 :: "vec6 \<Rightarrow> nat \<Rightarrow> real" where
  "coeff6 (Vec6 a b c d e f) i =
     (if i = 0 then a else if i = 1 then b else if i = 2 then c
      else if i = 3 then d else if i = 4 then e else f)"

fun set_coeff6 :: "vec6 \<Rightarrow> nat \<Rightarrow> real \<Rightarrow> vec6" where
  "set_coeff6 (Vec6 a b c d e f) i x =
     Vec6 (if i = 0 then x else a) (if i = 1 then x else b) (if i = 2 then x else c)
          (if i = 3 then x else d) (if i = 4 then x else e) (if i = 5 then x else f)"

fun row6 :: "mat6 \<Rightarrow> nat \<Rightarrow> vec6" where
  "row6 (Mat6 r0 r1 r2 r3 r4 r5) i =
     (if i = 0 then r0 else if i = 1 then r1 else if i = 2 then r2
      else if i = 3 then r3 else if i = 4 then r4 else r5)"

fun set_row6 :: "mat6 \<Rightarrow> nat \<Rightarrow> vec6 \<Rightarrow> mat6" where
  "set_row6 (Mat6 r0 r1 r2 r3 r4 r5) i x =
     Mat6 (if i = 0 then x else r0) (if i = 1 then x else r1) (if i = 2 then x else r2)
          (if i = 3 then x else r3) (if i = 4 then x else r4) (if i = 5 then x else r5)"

definition coeff66 :: "mat6 \<Rightarrow> nat \<Rightarrow> nat \<Rightarrow> real" where
  "coeff66 M i j = coeff6 (row6 M i) j"

definition set_coeff66 :: "mat6 \<Rightarrow> nat \<Rightarrow> nat \<Rightarrow> real \<Rightarrow> mat6" where
  "set_coeff66 M i j x = set_row6 M i (set_coeff6 (row6 M i) j x)"

text \<open>
  Blocks.  \<open>head3 W\<close> and \<open>tail3 W\<close> are \<open>W.block<3, 1>(0, 0)\<close> and
  \<open>W.block<3, 1>(3, 0)\<close>; \<open>block33 M r c\<close> reads \<open>M.block<3, 3>(r, c)\<close> and
  \<open>set_block33 M r c B\<close> is the assignment \<open>M.block<3, 3>(r, c) = B\<close>, nine
  coefficient assignments.
\<close>

fun head3 :: "vec6 \<Rightarrow> vec3" where
  "head3 (Vec6 a b c d e f) = Vec3 a b c"

fun tail3 :: "vec6 \<Rightarrow> vec3" where
  "tail3 (Vec6 a b c d e f) = Vec3 d e f"

fun vec6_of_blocks :: "vec3 \<Rightarrow> vec3 \<Rightarrow> vec6" where
  "vec6_of_blocks (Vec3 a b c) (Vec3 d e f) = Vec6 a b c d e f"

definition block33 :: "mat6 \<Rightarrow> nat \<Rightarrow> nat \<Rightarrow> mat3" where
  "block33 M r c =
     Mat3 (Vec3 (coeff66 M r c) (coeff66 M r (c + 1)) (coeff66 M r (c + 2)))
          (Vec3 (coeff66 M (r + 1) c) (coeff66 M (r + 1) (c + 1)) (coeff66 M (r + 1) (c + 2)))
          (Vec3 (coeff66 M (r + 2) c) (coeff66 M (r + 2) (c + 1)) (coeff66 M (r + 2) (c + 2)))"

definition set_block33 :: "mat6 \<Rightarrow> nat \<Rightarrow> nat \<Rightarrow> mat3 \<Rightarrow> mat6" where
  "set_block33 M r c B =
     foldl (\<lambda>M (i, j). set_coeff66 M (r + i) (c + j) (coeff33 B i j)) M
       [(0, 0), (0, 1), (0, 2), (1, 0), (1, 1), (1, 2), (2, 0), (2, 1), (2, 2)]"

text \<open>The 6x6 matrix with the given four 3x3 blocks (upper left, upper right, lower left,
  lower right).\<close>

definition mat6_of_blocks :: "mat3 \<Rightarrow> mat3 \<Rightarrow> mat3 \<Rightarrow> mat3 \<Rightarrow> mat6" where
  "mat6_of_blocks A B C D =
     Mat6 (vec6_of_blocks (row3 A 0) (row3 B 0)) (vec6_of_blocks (row3 A 1) (row3 B 1))
          (vec6_of_blocks (row3 A 2) (row3 B 2)) (vec6_of_blocks (row3 C 0) (row3 D 0))
          (vec6_of_blocks (row3 C 1) (row3 D 1)) (vec6_of_blocks (row3 C 2) (row3 D 2))"

text \<open>Transpose, trace, determinant and Euclidean norm (\<open>.transpose()\<close>, \<open>.trace()\<close>,
  \<open>.determinant()\<close>, \<open>.norm()\<close>).\<close>

fun transpose3 :: "mat3 \<Rightarrow> mat3" where
  "transpose3 (Mat3 (Vec3 a b c) (Vec3 d e f) (Vec3 g h i)) =
     Mat3 (Vec3 a d g) (Vec3 b e h) (Vec3 c f i)"

fun trace3 :: "mat3 \<Rightarrow> real" where
  "trace3 (Mat3 (Vec3 a b c) (Vec3 d e f) (Vec3 g h i)) = a + e + i"

fun det3 :: "mat3 \<Rightarrow> real" where
  "det3 (Mat3 (Vec3 a b c) (Vec3 d e f) (Vec3 g h i)) =
     a * (e * i - f * h) - b * (d * i - f * g) + c * (d * h - e * g)"

definition norm3 :: "vec3 \<Rightarrow> real" where
  "norm3 v = sqrt (dot3 v v)"

definition norm6 :: "vec6 \<Rightarrow> real" where
  "norm6 v = sqrt (dot6 v v)"

text \<open>
  \<open>.inverse()\<close>.  For a 3x3 matrix Eigen divides the matrix of cofactors by the
  determinant; for a 6x6 matrix it eliminates with partial pivoting.  On a singular
  matrix the doubles it returns are not finite: the model returns \<open>None\<close>.
\<close>

fun adjugate3 :: "mat3 \<Rightarrow> mat3" where
  "adjugate3 (Mat3 (Vec3 a b c) (Vec3 d e f) (Vec3 g h i)) =
     Mat3 (Vec3 (e * i - f * h) (c * h - b * i) (b * f - c * e))
          (Vec3 (f * g - d * i) (a * i - c * g) (c * d - a * f))
          (Vec3 (d * h - e * g) (b * g - a * h) (a * e - b * d))"

definition mat3_inverse :: "mat3 \<Rightarrow> mat3 option" where
  "mat3_inverse M = (if det3 M = 0 then None else Some ((1 / det3 M) *\<^sub>R adjugate3 M))"

fun list_of_vec6 :: "vec6 \<Rightarrow> real list" where
  "list_of_vec6 (Vec6 a b c d e f) = [a, b, c, d, e, f]"

fun rows_of_mat6 :: "mat6 \<Rightarrow> real list list" where
  "rows_of_mat6 (Mat6 r0 r1 r2 r3 r4 r5) = map list_of_vec6 [r0, r1, r2, r3, r4, r5]"

definition vec6_of_list :: "real list \<Rightarrow> vec6" where
  "vec6_of_list xs = Vec6 (xs ! 0) (xs ! 1) (xs ! 2) (xs ! 3) (xs ! 4) (xs ! 5)"

definition mat6_of_rows :: "real list list \<Rightarrow> mat6" where
  "mat6_of_rows rs =
     Mat6 (vec6_of_list (rs ! 0)) (vec6_of_list (rs ! 1)) (vec6_of_list (rs ! 2))
          (vec6_of_list (rs ! 3)) (vec6_of_list (rs ! 4)) (vec6_of_list (rs ! 5))"

text \<open>One column of the elimination on the rows of \<open>[M | 1]\<close>: the pivot is the
  coefficient of largest magnitude in column \<open>c\<close> from row \<open>c\<close> down.\<close>

definition pivot_row :: "nat \<Rightarrow> real list list \<Rightarrow> nat" where
  "pivot_row c rows =
     fold (\<lambda>i p. if \<bar>rows ! i ! c\<bar> > \<bar>rows ! p ! c\<bar> then i else p) [Suc c ..< length rows] c"

definition eliminate_column :: "nat \<Rightarrow> real list list \<Rightarrow> real list list option" where
  "eliminate_column c rows =
     (let p = pivot_row c rows in
      if rows ! p ! c = 0 then None
      else
        let rows1 = (rows[c := rows ! p])[p := rows ! c];
            piv = map (\<lambda>x. x / (rows1 ! c ! c)) (rows1 ! c)
        in Some (map (\<lambda>i. if i = c then piv
                          else map2 (\<lambda>x y. x - (rows1 ! i ! c) * y) (rows1 ! i) piv)
                   [0 ..< length rows]))"

fun eliminate :: "nat \<Rightarrow> nat \<Rightarrow> real list list \<Rightarrow> real list list option" where
  "eliminate 0 c rows = Some rows"
| "eliminate (Suc k) c rows =
     (case eliminate_column c rows of None \<Rightarrow> None | Some rows' \<Rightarrow> eliminate k (Suc c) rows')"

definition mat6_inverse :: "mat6 \<Rightarrow> mat6 option" where
  "mat6_inverse M =
     (case eliminate 6 0 (map2 (@) (rows_of_mat6 M) (rows_of_mat6 1)) of
        None \<Rightarrow> None
      | Some rows \<Rightarrow> Some (mat6_of_rows (map (drop 6) rows)))"

text \<open>\<open>Mat4\<close>: the identity, and the two blocks the source reads and writes.\<close>

definition Identity4 :: mat4 where
  "Identity4 = Mat4 (Vec4 1 0 0 0) (Vec4 0 1 0 0) (Vec4 0 0 1 0) (Vec4 0 0 0 1)"

fun mat4_block33 :: "mat4 \<Rightarrow> mat3" where
  "mat4_block33 (Mat4 (Vec4 a b c d) (Vec4 e f g h) (Vec4 i j k l) r3) =
     Mat3 (Vec3 a b c) (Vec3 e f g) (Vec3 i j k)"

fun mat4_block31 :: "mat4 \<Rightarrow> vec3" where
  "mat4_block31 (Mat4 (Vec4 a b c d) (Vec4 e f g h) (Vec4 i j k l) r3) = Vec3 d h l"

fun mat4_set_block33 :: "mat4 \<Rightarrow> mat3 \<Rightarrow> mat4" where
  "mat4_set_block33 (Mat4 (Vec4 a b c d) (Vec4 e f g h) (Vec4 i j k l) r3)
       (Mat3 (Vec3 a' b' c') (Vec3 e' f' g') (Vec3 i' j' k')) =
     Mat4 (Vec4 a' b' c' d) (Vec4 e' f' g' h) (Vec4 i' j' k' l) r3"

fun mat4_set_block31 :: "mat4 \<Rightarrow> vec3 \<Rightarrow> mat4" where
  "mat4_set_block31 (Mat4 (Vec4 a b c d) (Vec4 e f g h) (Vec4 i j k l) r3) (Vec3 d' h' l') =
     Mat4 (Vec4 a b c d') (Vec4 e f g h') (Vec4 i j k l') r3"


section \<open>The transformation class\<close>

text \<open>
  A \<open>Transformation\<close> holds a 3x4 matrix of doubles: the rotation block
  \<open>block<3, 3>(0, 0)\<close> and the translation block \<open>block<3, 1>(0, 3)\<close>, the only two ways
  the source reads or writes it.  The record has these two blocks as its fields.  The
  class template's flag \<open>approximate\<close>, its constant \<open>TOL\<close> and the default tolerance of
  \<open>logMap\<close> (all three declared in a header that is not part of the sources at hand) are
  arguments of the functions that use them.  A member function that changes \<open>*this\<close>
  returns the changed object.
\<close>

record Transformation =
  rotation :: mat3
  translation :: vec3

text \<open>
  A double as such: a finite real, an infinity or a NaN.  Only the arguments of the
  setters are of this type, since only they are checked for finiteness.
\<close>

datatype double = Finite real | PosInf | NegInf | NaN

datatype dvec3 = DVec3 double double double

datatype dvec4 = DVec4 double double double double

datatype dvec6 = DVec6 double double double double double double

datatype dmat4 = DMat4 dvec4 dvec4 dvec4 dvec4

datatype error = PreconditionViolation

fun isfinite :: "double \<Rightarrow> bool" where
  "isfinite (Finite x) = True"
| "isfinite PosInf = False"
| "isfinite NegInf = False"
| "isfinite NaN = False"

fun real_of_double :: "double \<Rightarrow> real" where
  "real_of_double (Finite x) = x"
| "real_of_double PosInf = 0"
| "real_of_double NegInf = 0"
| "real_of_double NaN = 0"

fun coeffs_dvec3 :: "dvec3 \<Rightarrow> double list" where
  "coeffs_dvec3 (DVec3 a b c) = [a, b, c]"

fun coeffs_dvec4 :: "dvec4 \<Rightarrow> double list" where
  "coeffs_dvec4 (DVec4 a b c d) = [a, b, c, d]"

fun coeffs_dvec6 :: "dvec6 \<Rightarrow> double list" where
  "coeffs_dvec6 (DVec6 a b c d e f) = [a, b, c, d, e, f]"

fun coeffs_dmat4 :: "dmat4 \<Rightarrow> double list" where
  "coeffs_dmat4 (DMat4 r0 r1 r2 r3) =
     coeffs_dvec4 r0 @ coeffs_dvec4 r1 @ coeffs_dvec4 r2 @ coeffs_dvec4 r3"

fun real_vec3 :: "dvec3 \<Rightarrow> vec3" where
  "real_vec3 (DVec3 a b c) = Vec3 (real_of_double a) (real_of_double b) (real_of_double c)"

fun real_vec4 :: "dvec4 \<Rightarrow> vec4" where
  "real_vec4 (DVec4 a b c d) =
     Vec4 (real_of_double a) (real_of_double b) (real_of_double c) (real_of_double d)"

fun real_vec6 :: "dvec6 \<Rightarrow> vec6" where
  "real_vec6 (DVec6 a b c d e f) =
     Vec6 (real_of_double a) (real_of_double b) (real_of_double c)
          (real_of_double d) (real_of_double e) (real_of_double f)"

fun real_mat4 :: "dmat4 \<Rightarrow> mat4" where
  "real_mat4 (DMat4 r0 r1 r2 r3) = Mat4 (real_vec4 r0) (real_vec4 r1) (real_vec4 r2) (real_vec4 r3)"

text \<open>
  Modelled from the spec: \<open>checkMatrixFinite\<close> of \<open>wave/geometry/exception_helpers.hpp\<close>,
  which the setters call first and which is not part of the sources at hand.  The spec
  has a setter "fail fast with a precondition violation (reported to the caller as an
  explicit error/assertion)" on a "\<open>NaN\<close>/infinite matrix or vector" entry.  The argument
  is the list of the coefficients of the matrix checked.
\<close>

definition checkMatrixFinite :: "double list \<Rightarrow> error + unit" where
  "checkMatrixFinite cs = (if list_all isfinite cs then Inr () else Inl PreconditionViolation)"

text \<open>
  \<open>std::acos\<close> of the C library: outside \<open>[-1, 1]\<close> a domain error occurs and the result
  is a NaN, written \<open>None\<close>.
\<close>

definition std_acos :: "real \<Rightarrow> real option" where
  "std_acos x = (if - 1 \<le> x \<and> x \<le> 1 then Some (arccos x) else None)"

subsection \<open>Construction\<close>

definition setIdentity :: "Transformation \<Rightarrow> Transformation" where
  "setIdentity T = T\<lparr>rotation := 1, translation := 0\<rparr>"

text \<open>\<open>Eigen::AngleAxisd(a, axis)\<close> for the three unit axes, as rotation matrices; the
  product of angle-axis rotations is the product of their matrices.\<close>

definition AngleAxis_UnitX :: "real \<Rightarrow> mat3" where
  "AngleAxis_UnitX a = Mat3 (Vec3 1 0 0) (Vec3 0 (cos a) (- sin a)) (Vec3 0 (sin a) (cos a))"

definition AngleAxis_UnitY :: "real \<Rightarrow> mat3" where
  "AngleAxis_UnitY a = Mat3 (Vec3 (cos a) 0 (sin a)) (Vec3 0 1 0) (Vec3 (- sin a) 0 (cos a))"

definition AngleAxis_UnitZ :: "real \<Rightarrow> mat3" where
  "AngleAxis_UnitZ a = Mat3 (Vec3 (cos a) (- sin a) 0) (Vec3 (sin a) (cos a) 0) (Vec3 0 0 1)"

definition setFromEulerXYZ :: "dvec3 \<Rightarrow> dvec3 \<Rightarrow> Transformation \<Rightarrow> error + Transformation" where
  "setFromEulerXYZ eulers translation' T =
     (case checkMatrixFinite (coeffs_dvec3 eulers) of
        Inl e \<Rightarrow> Inl e
      | Inr _ \<Rightarrow>
         (case checkMatrixFinite (coeffs_dvec3 translation') of
            Inl e \<Rightarrow> Inl e
          | Inr _ \<Rightarrow>
             let e = real_vec3 eulers;
                 rotation_matrix =
                   AngleAxis_UnitZ (coeff3 e 2) * AngleAxis_UnitY (coeff3 e 1) * AngleAxis_UnitX (coeff3 e 0)
             in Inr (T\<lparr>rotation := rotation_matrix, translation := real_vec3 translation'\<rparr>)))"

definition setFromMatrix :: "dmat4 \<Rightarrow> Transformation \<Rightarrow> error + Transformation" where
  "setFromMatrix input_matrix T =
     (case checkMatrixFinite (coeffs_dmat4 input_matrix) of
        Inl e \<Rightarrow> Inl e
      | Inr _ \<Rightarrow>
         let m = real_mat4 input_matrix
         in Inr (T\<lparr>rotation := mat4_block33 m, translation := mat4_block31 m\<rparr>))"

subsection \<open>Skew operators\<close>

definition skewSymmetric3 :: "vec3 \<Rightarrow> mat3" where
  "skewSymmetric3 V =
     Mat3 (Vec3 0 (- coeff3 V 2) (coeff3 V 1))
          (Vec3 (coeff3 V 2) 0 (- coeff3 V 0))
          (Vec3 (- coeff3 V 1) (coeff3 V 0) 0)"

definition skewSymmetric6 :: "vec6 \<Rightarrow> mat6" where
  "skewSymmetric6 W =
     (let retval = 0;
          retval = set_block33 retval 0 0 (skewSymmetric3 (head3 W));
          retval = set_block33 retval 3 3 (skewSymmetric3 (head3 W));
          retval = set_block33 retval 3 0 (skewSymmetric3 (tail3 W))
      in retval)"

text \<open>\<open>Adjoint\<close> writes its result into the reference \<open>retval\<close>: it clears it and assigns
  eighteen coefficients one by one.\<close>

definition Adjoint :: "vec6 \<Rightarrow> mat6 \<Rightarrow> mat6" where
  "Adjoint twist retval =
     foldl (\<lambda>M (i, j, x). set_coeff66 M i j x) 0
       [(0, 1, - coeff6 twist 2), (0, 2, coeff6 twist 1), (1, 0, coeff6 twist 2),
        (1, 2, - coeff6 twist 0), (2, 0, - coeff6 twist 1), (2, 1, coeff6 twist 0),
        (3, 4, - coeff6 twist 2), (3, 5, coeff6 twist 1), (4, 3, coeff6 twist 2),
        (4, 5, - coeff6 twist 0), (5, 3, - coeff6 twist 1), (5, 4, coeff6 twist 0),
        (3, 1, - coeff6 twist 5), (3, 2, coeff6 twist 4), (4, 0, coeff6 twist 5),
        (4, 2, - coeff6 twist 3), (5, 0, - coeff6 twist 4), (5, 1, coeff6 twist 3)]"

subsection \<open>Exponential map\<close>

definition expMap :: "bool \<Rightarrow> vec6 \<Rightarrow> real \<Rightarrow> mat4" where
  "expMap approximate W TOL =
     (let retval = Identity4;
          wx = skewSymmetric3 (head3 W);
          wn = norm3 (head3 W)
      in
        if approximate then
          let retval = mat4_set_block33 retval
                (1 + (1.0 - 0.16666666666666667 * (wn * wn)) *\<^sub>R wx
                   + (0.5 - 0.04166666666666666667 * (wn * wn)) *\<^sub>R wx * wx);
              retval = mat4_set_block31 retval
                (mv3 (1 + (0.5 - 0.04166666666666666667 * (wn * wn)) *\<^sub>R wx
                        + (0.16666666666666667 - 0.00833333333333333333 * (wn * wn)) *\<^sub>R wx * wx)
                     (tail3 W))
          in retval
        else
          let (A, B, C) =
                (if wn > TOL then
                   let A = sin wn / wn;
                       B = (1.0 - cos wn) / (wn * wn);
                       C = (1.0 - A) / (wn * wn)
                   in (A, B, C)
                 else
                   (1.0 - 0.16666666666666667 * (wn * wn)
                        + 0.00833333333333333333 * (wn * wn * wn * wn),
                    0.5 - 0.04166666666666666667 * (wn * wn)
                        + 0.00138888888888888888889 * (wn * wn * wn * wn),
                    0.16666666666666667 - 0.00833333333333333333 * (wn * wn)
                        + 0.0001984126984126984 * (wn * wn * wn * wn)));
              retval = mat4_set_block33 retval (1 + A *\<^sub>R wx + B *\<^sub>R wx * wx);
              retval = mat4_set_block31 retval (mv3 (1 + B *\<^sub>R wx + C *\<^sub>R wx * wx) (tail3 W))
          in retval)"

definition setFromExpMap ::
  "bool \<Rightarrow> real \<Rightarrow> dvec6 \<Rightarrow> Transformation \<Rightarrow> error + Transformation" where
  "setFromExpMap approximate TOL se3_vector T =
     (case checkMatrixFinite (coeffs_dvec6 se3_vector) of
        Inl e \<Rightarrow> Inl e
      | Inr _ \<Rightarrow>
         let transform = expMap approximate (real_vec6 se3_vector) TOL
         in Inr (T\<lparr>rotation := mat4_block33 transform, translation := mat4_block31 transform\<rparr>))"

subsection \<open>Left Jacobians\<close>

definition SE3LeftJacobian :: "vec6 \<Rightarrow> real \<Rightarrow> mat6" where
  "SE3LeftJacobian W TOL =
     (let wx = skewSymmetric3 (head3 W);
          wn = norm3 (head3 W);
          adj = 0;
          adj = set_block33 adj 0 0 wx;
          adj = set_block33 adj 3 3 wx;
          adj = set_block33 adj 3 0 (skewSymmetric3 (tail3 W))
      in
        if wn > TOL then
          let A = (4.0 - wn * sin wn - 4.0 * cos wn) / (2.0 * wn * wn);
              B = (4.0 * wn - 5.0 * sin wn + wn * cos wn) / (2.0 * wn * wn * wn);
              C = (2.0 - wn * sin wn - 2.0 * cos wn) / (2.0 * wn * wn * wn * wn);
              D = (2.0 * wn - 3.0 * sin wn + wn * cos wn) / (2.0 * wn * wn * wn * wn * wn)
          in 1 + A *\<^sub>R adj + B *\<^sub>R adj * adj + C *\<^sub>R adj * adj * adj
               + D *\<^sub>R adj * adj * adj * adj
        else 1 + 0.5 *\<^sub>R adj)"

definition SE3ApproxLeftJacobian :: "vec6 \<Rightarrow> mat6" where
  "SE3ApproxLeftJacobian W =
     (let wx = skewSymmetric3 (head3 W);
          adj = 0;
          adj = set_block33 adj 0 0 wx;
          adj = set_block33 adj 3 3 wx;
          adj = set_block33 adj 3 0 (skewSymmetric3 (tail3 W))
      in 1 + 0.5 *\<^sub>R adj + 0.1666666666666666666666 *\<^sub>R adj * adj)"

definition SE3ApproxInvLeftJacobian :: "vec6 \<Rightarrow> mat6" where
  "SE3ApproxInvLeftJacobian W =
     (let wx = skewSymmetric3 (head3 W);
          adj = 0;
          adj = set_block33 adj 0 0 wx;
          adj = set_block33 adj 3 3 wx;
          adj = set_block33 adj 3 0 (skewSymmetric3 (tail3 W))
      in 1 - 0.5 *\<^sub>R adj + 0.0833333333333333333 *\<^sub>R adj * adj)"


subsection \<open>Logarithm map\<close>

text \<open>
  The rotation angle \<open>wn\<close> of \<open>logMap\<close>.  \<open>None\<close> is the NaN that \<open>std::acos\<close> returns
  on a domain error.  With a NaN angle the comparison \<open>wn > tolerance\<close> is false, the
  coefficient \<open>A\<close> of the series branch is NaN, and so is every coefficient of \<open>skew\<close>,
  of \<open>Vinv\<close> and of the vector returned (in the approximate mode likewise): \<open>logMap\<close>
  then returns \<open>None\<close>, the vector of six NaNs.

  In real arithmetic \<open>sin wn\<close> is zero at the angle \<open>\<pi>\<close>, and the quotient
  \<open>wn / (2 sin wn)\<close> of the closed-form branch is then the quotient by zero of the
  logic, which is zero; in double arithmetic the sine of the double nearest to \<open>\<pi>\<close>
  is not zero and the quotient is large and finite.  No theorem below depends on the
  value of that quotient: the round trips assume an angle of at most \<open>\<pi> - 1/1000\<close>,
  and the example at the angle \<open>\<pi>\<close> multiplies it with a zero matrix.  Likewise at
  the angle zero with a negative tolerance, where the closed-form branch divides zero by
  zero: the round trips assume tolerances that are not negative, so that the angle zero
  takes the series branch.
\<close>

definition logMap_wn :: "Transformation \<Rightarrow> real option" where
  "logMap_wn T =
     (if (trace3 (rotation T) - 1.0) / 2.0 > 1.0 then Some 0
      else std_acos ((trace3 (rotation T) - 1.0) / 2.0))"

definition logMap :: "bool \<Rightarrow> real \<Rightarrow> Transformation \<Rightarrow> vec6 option" where
  "logMap approximate tolerance T =
     (case logMap_wn T of
        None \<Rightarrow> None
      | Some wn \<Rightarrow>
         let R = rotation T in
         if approximate then
           let skew = (0.5 + wn * wn * 0.083333333333333) *\<^sub>R (R - transpose3 R)
           in Some (vec6_of_blocks
                      (Vec3 (coeff33 skew 2 1) (coeff33 skew 0 2) (coeff33 skew 1 0))
                      (mv3 (1 - 0.5 *\<^sub>R skew) (translation T)))
         else
           let (skew, Vinv) =
                 (if wn > tolerance then
                    let A = wn / (2 * sin wn);
                        B = (1 - cos wn) / (wn * wn);
                        skew = A *\<^sub>R (R - transpose3 R);
                        Vinv = 1 - 0.5 *\<^sub>R skew
                                 + ((1 / (wn * wn)) * (1 - (1 / (4 * A * B)))) *\<^sub>R skew * skew
                    in (skew, Vinv)
                  else
                    let A = 0.5 + wn * wn / 12.0 + wn * wn * wn * wn * (7.0 / 720.0);
                        B = 0.5 - wn * wn / 24.0 + wn * wn * wn * wn * (7.0 / 720.0);
                        skew = A *\<^sub>R (R - transpose3 R);
                        Vinv = 1 - 0.5 *\<^sub>R skew
                    in (skew, Vinv))
           in Some (vec6_of_blocks
                      (Vec3 (coeff33 skew 2 1) (coeff33 skew 0 2) (coeff33 skew 1 0))
                      (mv3 Vinv (translation T))))"

subsection \<open>Group operations\<close>

text \<open>\<open>compose A B\<close> is the source's \<open>A * B\<close> (\<open>operator*\<close>).\<close>

definition compose :: "Transformation \<Rightarrow> Transformation \<Rightarrow> Transformation" where
  "compose this T =
     \<lparr>rotation = rotation this * rotation T,
      translation = mv3 (rotation this) (translation T) + translation this\<rparr>"

definition invert :: "Transformation \<Rightarrow> Transformation" where
  "invert T =
     (let T = T\<lparr>rotation := transpose3 (rotation T)\<rparr>
      in T\<lparr>translation := mv3 (- rotation T) (translation T)\<rparr>)"

text \<open>\<open>inverse()\<close> copies the matrix into a new object with \<open>setFromMatrix\<close> (whose
  finiteness check cannot fail on the real coefficients of the model) and inverts that.\<close>

definition inverse_tf :: "Transformation \<Rightarrow> Transformation" where
  "inverse_tf T = invert \<lparr>rotation = rotation T, translation = translation T\<rparr>"

definition deepCopy :: "Transformation \<Rightarrow> Transformation" where
  "deepCopy T = \<lparr>rotation = rotation T, translation = translation T\<rparr>"

definition getRotationMatrix :: "Transformation \<Rightarrow> mat3" where
  "getRotationMatrix T = rotation T"

definition getTranslation :: "Transformation \<Rightarrow> vec3" where
  "getTranslation T = translation T"

definition composeAndJacobian ::
  "Transformation \<Rightarrow> Transformation \<Rightarrow> Transformation \<times> mat6 \<times> mat6" where
  "composeAndJacobian this T_right =
     (let J_left = 1;
          J_right = 0;
          J_right = set_block33 J_right 0 0 (rotation this);
          J_right = set_block33 J_right 3 3 (rotation this);
          J_right = set_block33 J_right 3 0 (skewSymmetric3 (translation this) * rotation this)
      in (compose this T_right, J_left, J_right))"

definition inverseAndJacobian :: "Transformation \<Rightarrow> Transformation \<times> mat6" where
  "inverseAndJacobian T =
     (let retval = inverse_tf T;
          R = getRotationMatrix retval;
          J_transformation = 0;
          J_transformation = set_block33 J_transformation 0 0 (- R);
          J_transformation = set_block33 J_transformation 3 3 (- R);
          J_transformation =
            set_block33 J_transformation 3 0 (- skewSymmetric3 (getTranslation retval) * R)
      in (retval, J_transformation))"

text \<open>
  \<open>normalizeMaybe\<close>.  The principal square root of a matrix (\<open>.sqrt()\<close>, of Eigen's
  unsupported matrix functions) is the argument \<open>sqrtm\<close>.
\<close>

definition normalizeMaybe ::
  "(mat3 \<Rightarrow> mat3) \<Rightarrow> real \<Rightarrow> Transformation \<Rightarrow> Transformation option" where
  "normalizeMaybe sqrtm tolerance T =
     (if det3 (rotation T) - 1 > tolerance then
        let R = rotation T;
            temp = R * transpose3 R
        in (case mat3_inverse (sqrtm temp) of
              None \<Rightarrow> None
            | Some temp \<Rightarrow> Some (T\<lparr>rotation := temp * R\<rparr>))
      else Some T)"

subsection \<open>Manifold operations\<close>

definition manifoldPlus :: "bool \<Rightarrow> real \<Rightarrow> vec6 \<Rightarrow> Transformation \<Rightarrow> Transformation" where
  "manifoldPlus approximate TOL omega T =
     (let incremental = expMap approximate omega TOL;
          T' = T\<lparr>translation :=
                  mv3 (mat4_block33 incremental) (translation T) + mat4_block31 incremental\<rparr>
      in T'\<lparr>rotation := mat4_block33 incremental * rotation T'\<rparr>)"

definition manifoldMinus ::
  "bool \<Rightarrow> real \<Rightarrow> Transformation \<Rightarrow> Transformation \<Rightarrow> vec6 option" where
  "manifoldMinus approximate tol this T = logMap approximate tol (compose this (inverse_tf T))"

text \<open>
  \<open>manifoldMinusAndJacobian\<close> returns the difference and writes the two Jacobians into
  its reference arguments; the model returns the three.  \<open>J_comp_inv\<close> is declared
  without a value and all four of its blocks are then assigned, so the model starts
  it at zero.  \<open>None\<close>: a NaN angle in \<open>logMap\<close>, or a singular left Jacobian.
\<close>

definition manifoldMinusAndJacobian ::
  "bool \<Rightarrow> real \<Rightarrow> Transformation \<Rightarrow> Transformation \<Rightarrow> (vec6 \<times> mat6 \<times> mat6) option" where
  "manifoldMinusAndJacobian approximate tol this T =
     (let T2inv = deepCopy (inverse_tf T);
          diff = compose this T2inv
      in case logMap approximate tol diff of
           None \<Rightarrow> None
         | Some manifold_difference \<Rightarrow>
            (case (if approximate then Some (SE3ApproxInvLeftJacobian manifold_difference)
                   else mat6_inverse (SE3LeftJacobian manifold_difference (1 / 10000))) of
               None \<Rightarrow> None
             | Some J_logm \<Rightarrow>
                let R1R2t = rotation this * transpose3 (rotation T);
                    t1 = translation this;
                    J_comp_inv = 0;
                    J_comp_inv = set_block33 J_comp_inv 0 0 (- R1R2t);
                    J_comp_inv = set_block33 J_comp_inv 3 3 (- R1R2t);
                    J_comp_inv = set_block33 J_comp_inv 3 0
                      (- skewSymmetric3 t1 * R1R2t
                       - rotation this * skewSymmetric3 (translation T2inv) * transpose3 (rotation T));
                    J_comp_inv = set_block33 J_comp_inv 0 3 0;
                    J_left = J_logm;
                    J_right = J_logm * J_comp_inv
                in Some (manifold_difference, J_left, J_right)))"

subsection \<open>Trajectory interpolation\<close>

text \<open>A 6x12 weight matrix, as its two 6x6 blocks \<open>block<6, 6>(0, 0)\<close> and
  \<open>block<6, 6>(0, 6)\<close>, the only way the source reads it.\<close>

datatype mat6x12 = Mat6x12 mat6 mat6

fun block66 :: "mat6x12 \<Rightarrow> nat \<Rightarrow> nat \<Rightarrow> mat6" where
  "block66 (Mat6x12 L R) r c = (if c = 0 then L else R)"

text \<open>
  \<open>interpolate\<close> has a flag \<open>approx\<close> of its own, the mode of the element it returns;
  the difference of the two poses is taken in the mode \<open>approximate\<close> of the poses.
\<close>

definition interpolate ::
  "bool \<Rightarrow> bool \<Rightarrow> real \<Rightarrow> real \<Rightarrow> Transformation \<Rightarrow> Transformation \<Rightarrow> vec6 \<Rightarrow> vec6
     \<Rightarrow> mat6x12 \<Rightarrow> mat6x12 \<Rightarrow> Transformation option" where
  "interpolate approx approximate TOL tol T_k T_kp1 twist_k twist_kp1 hat candle =
     (case manifoldMinusAndJacobian approximate tol T_kp1 T_k of
        None \<Rightarrow> None
      | Some (eps, J_left, J_right) \<Rightarrow>
         let retval = deepCopy T_k;
             increment = mv6 (block66 hat 0 6) twist_k + mv6 (block66 candle 0 0) eps
                           + mv6 (block66 candle 0 6 * J_left) twist_kp1
         in Some (manifoldPlus approx TOL increment retval))"

section \<open>The specification's wording, where it is compared with the code\<close>

text \<open>
  The interpolation as the specification words it: \<open>\<epsilon> = minus(T\<^sub>k\<^sub>+\<^sub>1, T\<^sub>k)\<close>, the increment
  \<open>hat_block twist\<^sub>k + candle_block\<^sub>1 \<epsilon> + candle_block\<^sub>2 leftJacobian(\<epsilon>) twist\<^sub>k\<^sub>+\<^sub>1\<close>, the result
  \<open>plus(T\<^sub>k, \<Delta>)\<close>, with the left Jacobian of the exponential map of the mode.
\<close>

definition leftJacobian :: "bool \<Rightarrow> vec6 \<Rightarrow> mat6" where
  "leftJacobian approximate W =
     (if approximate then SE3ApproxLeftJacobian W else SE3LeftJacobian W (1 / 10000))"

definition interpolate_spec ::
  "bool \<Rightarrow> bool \<Rightarrow> real \<Rightarrow> real \<Rightarrow> Transformation \<Rightarrow> Transformation \<Rightarrow> vec6 \<Rightarrow> vec6
     \<Rightarrow> mat6x12 \<Rightarrow> mat6x12 \<Rightarrow> Transformation option" where
  "interpolate_spec approx approximate TOL tol T_k T_kp1 twist_k twist_kp1 hat candle =
     (case manifoldMinus approximate tol T_kp1 T_k of
        None \<Rightarrow> None
      | Some eps \<Rightarrow>
         let Delta = mv6 (block66 hat 0 6) twist_k + mv6 (block66 candle 0 0) eps
                       + mv6 (block66 candle 0 6 * leftJacobian approximate eps) twist_kp1
         in Some (manifoldPlus approx TOL Delta T_k))"

text \<open>The inverse left Jacobian that \<open>manifoldMinusAndJacobian\<close> computes in each mode.\<close>

definition inverseLeftJacobian :: "bool \<Rightarrow> vec6 \<Rightarrow> mat6 option" where
  "inverseLeftJacobian approximate W =
     (if approximate then Some (SE3ApproxInvLeftJacobian W)
      else mat6_inverse (SE3LeftJacobian W (1 / 10000)))"

text \<open>A valid group element: the rotation block is orthonormal with determinant 1.\<close>

definition valid :: "Transformation \<Rightarrow> bool" where
  "valid T \<longleftrightarrow> rotation T * transpose3 (rotation T) = 1 \<and> det3 (rotation T) = 1"


text \<open>
  The rotational part that \<open>logMap\<close> reads off a matrix: the coefficients \<open>(2, 1)\<close>,
  \<open>(0, 2)\<close> and \<open>(1, 0)\<close>.
\<close>

definition vee :: "mat3 \<Rightarrow> vec3" where
  "vee M = Vec3 (coeff33 M 2 1) (coeff33 M 0 2) (coeff33 M 1 0)"

text \<open>The rotation angle of an element, the arc cosine of \<open>(trace(R) - 1) / 2\<close>.\<close>

definition rotation_angle :: "Transformation \<Rightarrow> real" where
  "rotation_angle T = arccos ((trace3 (rotation T) - 1) / 2)"

section \<open>Invariants of the elimination\<close>

text \<open>
  Three predicates on the rows of the elimination behind \<open>.inverse()\<close>, used only in the
  proof that the matrix it returns is a left inverse.  A row \<open>[a | b]\<close> of twelve
  coefficients is linear in \<open>M\<close> when \<open>a = b M\<close>; the six rows are all linear
  in \<open>M\<close>; and the first \<open>c\<close> columns are those of the identity.
\<close>

definition row_lin :: "mat6 \<Rightarrow> real list \<Rightarrow> bool" where
  "row_lin M r \<longleftrightarrow> length r = 12 \<and> (\<forall>j<6. r ! j = (\<Sum>k<6. r ! (6 + k) * coeff66 M k j))"

definition aug_ok :: "mat6 \<Rightarrow> real list list \<Rightarrow> bool" where
  "aug_ok M rows \<longleftrightarrow> length rows = 6 \<and> (\<forall>i<6. row_lin M (rows ! i))"

definition cleared :: "nat \<Rightarrow> real list list \<Rightarrow> bool" where
  "cleared c rows \<longleftrightarrow> (\<forall>i<6. \<forall>j<c. rows ! i ! j = (if i = j then 1 else 0))"

section \<open>Block structure of 6x6 matrices\<close>

lemma mat3_exhaust:
  obtains a b c d e f g h i where "M = Mat3 (Vec3 a b c) (Vec3 d e f) (Vec3 g h i)"
proof (cases M)
  case (Mat3 r0 r1 r2)
  then show ?thesis
    by (cases r0; cases r1; cases r2) (simp add: that)
qed

lemma set_block33_blocks:
  "set_block33 (mat6_of_blocks A B C D) 0 0 X = mat6_of_blocks X B C D"
  "set_block33 (mat6_of_blocks A B C D) 0 3 X = mat6_of_blocks A X C D"
  "set_block33 (mat6_of_blocks A B C D) 3 0 X = mat6_of_blocks A B X D"
  "set_block33 (mat6_of_blocks A B C D) 3 3 X = mat6_of_blocks A B C X"
  by (cases A rule: mat3_exhaust; cases B rule: mat3_exhaust; cases C rule: mat3_exhaust;
      cases D rule: mat3_exhaust; cases X rule: mat3_exhaust;
      simp add: set_block33_def mat6_of_blocks_def set_coeff66_def coeff33_def)+

lemma block33_blocks:
  "block33 (mat6_of_blocks A B C D) 0 0 = A"
  "block33 (mat6_of_blocks A B C D) 0 3 = B"
  "block33 (mat6_of_blocks A B C D) 3 0 = C"
  "block33 (mat6_of_blocks A B C D) 3 3 = D"
  by (cases A rule: mat3_exhaust; cases B rule: mat3_exhaust; cases C rule: mat3_exhaust;
      cases D rule: mat3_exhaust;
      simp add: block33_def mat6_of_blocks_def coeff66_def)+

lemma zero_blocks: "(0::mat6) = mat6_of_blocks 0 0 0 0"
  by (simp add: mat6_of_blocks_def zero_mat6_def zero_mat3_def zero_vec6_def zero_vec3_def)

lemma one_blocks: "(1::mat6) = mat6_of_blocks 1 0 0 1"
  by (simp add: mat6_of_blocks_def one_mat6_def one_mat3_def zero_mat3_def zero_vec3_def)

lemma times_blocks:
  "mat6_of_blocks A B C D * mat6_of_blocks A' B' C' D' =
     mat6_of_blocks (A * A' + B * C') (A * B' + B * D') (C * A' + D * C') (C * B' + D * D')"
  by (cases A rule: mat3_exhaust; cases B rule: mat3_exhaust; cases C rule: mat3_exhaust;
      cases D rule: mat3_exhaust; cases A' rule: mat3_exhaust; cases B' rule: mat3_exhaust;
      cases C' rule: mat3_exhaust; cases D' rule: mat3_exhaust)
     (simp add: mat6_of_blocks_def)

section \<open>The two implementations of the ad operator\<close>

lemma set_coeff66_rows:
  "set_coeff66 (Mat6 r0 r1 r2 r3 r4 r5) 0 j x = Mat6 (set_coeff6 r0 j x) r1 r2 r3 r4 r5"
  "set_coeff66 (Mat6 r0 r1 r2 r3 r4 r5) (Suc 0) j x = Mat6 r0 (set_coeff6 r1 j x) r2 r3 r4 r5"
  "set_coeff66 (Mat6 r0 r1 r2 r3 r4 r5) 2 j x = Mat6 r0 r1 (set_coeff6 r2 j x) r3 r4 r5"
  "set_coeff66 (Mat6 r0 r1 r2 r3 r4 r5) 3 j x = Mat6 r0 r1 r2 (set_coeff6 r3 j x) r4 r5"
  "set_coeff66 (Mat6 r0 r1 r2 r3 r4 r5) 4 j x = Mat6 r0 r1 r2 r3 (set_coeff6 r4 j x) r5"
  "set_coeff66 (Mat6 r0 r1 r2 r3 r4 r5) 5 j x = Mat6 r0 r1 r2 r3 r4 (set_coeff6 r5 j x)"
  by (simp_all add: set_coeff66_def)

lemma Adjoint_explicit:
  "Adjoint (Vec6 a b c d e f) retval =
     Mat6 (Vec6 0 (- c) b 0 0 0) (Vec6 c 0 (- a) 0 0 0) (Vec6 (- b) a 0 0 0 0)
          (Vec6 0 (- f) e 0 (- c) b) (Vec6 f 0 (- d) c 0 (- a)) (Vec6 (- e) d 0 (- b) a 0)"
  by (simp add: Adjoint_def set_coeff66_rows zero_mat6_def zero_vec6_def)

lemma skewSymmetric6_explicit:
  "skewSymmetric6 (Vec6 a b c d e f) =
     Mat6 (Vec6 0 (- c) b 0 0 0) (Vec6 c 0 (- a) 0 0 0) (Vec6 (- b) a 0 0 0 0)
          (Vec6 0 (- f) e 0 (- c) b) (Vec6 f 0 (- d) c 0 (- a)) (Vec6 (- e) d 0 (- b) a 0)"
  by (simp add: skewSymmetric6_def set_block33_def set_coeff66_rows coeff33_def
        skewSymmetric3_def zero_mat6_def zero_vec6_def)

text \<open>
  Claim C9.  For every twist \<open>W\<close>, \<open>skewSymmetric6 W\<close>, assembled from three 3x3 skew
  blocks, is the matrix that \<open>Adjoint W\<close> leaves in its output argument after its
  eighteen coefficient assignments, whatever that argument held before.
\<close>

theorem skewSymmetric6_eq_Adjoint: "skewSymmetric6 W = Adjoint W retval"
  by (cases W) (simp only: skewSymmetric6_explicit Adjoint_explicit)

section \<open>Composition and its Jacobians\<close>

text \<open>
  Claim C6.  The composition \<open>C = A * B\<close> has \<open>C.R = A.R B.R\<close> and
  \<open>C.t = A.R B.t + A.t\<close>.  \<open>composeAndJacobian\<close> returns that element, the 6x6 identity
  as the Jacobian with respect to the left operand, and as the Jacobian with respect to
  the right operand the matrix whose two diagonal 3x3 blocks are \<open>A.R\<close>, whose lower
  left block is \<open>skew(A.t) A.R\<close> and whose upper right block is zero.
\<close>

theorem composeAndJacobian_blocks:
  "rotation (compose A B) = rotation A * rotation B
   \<and> translation (compose A B) = mv3 (rotation A) (translation B) + translation A
   \<and> composeAndJacobian A B =
       (compose A B, 1,
        mat6_of_blocks (rotation A) 0 (skewSymmetric3 (translation A) * rotation A) (rotation A))
   \<and> block33 (snd (snd (composeAndJacobian A B))) 0 3 = 0"
  by (simp add: compose_def composeAndJacobian_def zero_blocks set_block33_blocks
      block33_blocks)

section \<open>The acos guard of the logarithm map\<close>

text \<open>
  Claim C8.  When \<open>(trace(R) - 1) / 2 > 1\<close>, \<open>logMap\<close> does not call \<open>std::acos\<close> on
  that argument: it takes the rotation angle zero, which is the arc cosine of the
  argument clamped to 1, and so it returns a vector and not the NaNs of a domain error.
\<close>

theorem logMap_upper_guard:
  assumes "(trace3 (rotation T) - 1) / 2 > 1"
  shows "logMap_wn T = Some 0
         \<and> logMap_wn T = std_acos (min 1 ((trace3 (rotation T) - 1) / 2))
         \<and> logMap approximate tolerance T \<noteq> None"
  using assms by (simp add: logMap_wn_def std_acos_def logMap_def Let_def split: prod.splits)

theorem logMap_upper_guard_witness:
  "(trace3 (rotation \<lparr>rotation = 2 *\<^sub>R 1, translation = 0\<rparr>) - 1) / 2 > 1
   \<and> logMap_wn \<lparr>rotation = 2 *\<^sub>R 1, translation = 0\<rparr> = Some 0
   \<and> logMap False (1 / 10000) \<lparr>rotation = 2 *\<^sub>R 1, translation = 0\<rparr> \<noteq> None"
proof -
  have h: "(trace3 (rotation \<lparr>rotation = 2 *\<^sub>R 1, translation = 0\<rparr>) - 1) / 2 > 1"
    by (simp add: one_mat3_def)
  show ?thesis
    using h logMap_upper_guard [OF h, of False "1 / 10000"] by simp
qed

text \<open>
  Claim C10.  The guard is one-sided.  When \<open>(trace(R) - 1) / 2 < -1\<close>, \<open>logMap\<close> calls
  \<open>std::acos\<close> on that argument as it is; the call is a domain error, the angle is NaN
  and so is the vector returned.  On the upper side (any element \<open>U\<close> with
  \<open>(trace(R) - 1) / 2 > 1\<close>) the angle is zero.
\<close>

theorem logMap_lower_unguarded:
  assumes "(trace3 (rotation T) - 1) / 2 < - 1"
  shows "logMap_wn T = std_acos ((trace3 (rotation T) - 1) / 2)
         \<and> std_acos ((trace3 (rotation T) - 1) / 2) = None
         \<and> logMap approximate tolerance T = None
         \<and> ((trace3 (rotation U) - 1) / 2 > 1 \<longrightarrow> logMap_wn U = Some 0)"
  using assms by (simp add: logMap_wn_def std_acos_def logMap_def)

theorem logMap_lower_unguarded_witness:
  "(trace3 (rotation \<lparr>rotation = - 1, translation = 0\<rparr>) - 1) / 2 < - 1
   \<and> (trace3 (rotation \<lparr>rotation = 2 *\<^sub>R 1, translation = 0\<rparr>) - 1) / 2 > 1
   \<and> logMap_wn \<lparr>rotation = - 1, translation = 0\<rparr> = None
   \<and> logMap False (1 / 10000) \<lparr>rotation = - 1, translation = 0\<rparr> = None
   \<and> logMap_wn \<lparr>rotation = 2 *\<^sub>R 1, translation = 0\<rparr> = Some 0"
proof -
  have h: "(trace3 (rotation \<lparr>rotation = - 1, translation = 0\<rparr>) - 1) / 2 < - 1"
    by (simp add: one_mat3_def)
  have h2: "(trace3 (rotation \<lparr>rotation = 2 *\<^sub>R 1, translation = 0\<rparr>) - 1) / 2 > 1"
    by (simp add: one_mat3_def)
  show ?thesis
    using h h2
      logMap_lower_unguarded [OF h, where U = "\<lparr>rotation = 2 *\<^sub>R 1, translation = 0\<rparr>"
        and approximate = False and tolerance = "1 / 10000"]
    by simp
qed

section \<open>The finiteness check of the setters\<close>

text \<open>
  Claim C7.  Each of the three setters returns the precondition violation exactly when
  some coefficient of an argument is a NaN or an infinity, and then no element is
  produced; on finite arguments it returns an element.
\<close>

theorem setters_check_finite:
  "(setFromEulerXYZ eulers tr T = Inl PreconditionViolation
      \<longleftrightarrow> \<not> (list_all isfinite (coeffs_dvec3 eulers) \<and> list_all isfinite (coeffs_dvec3 tr)))
   \<and> (isl (setFromEulerXYZ eulers tr T)
      \<longleftrightarrow> \<not> (list_all isfinite (coeffs_dvec3 eulers) \<and> list_all isfinite (coeffs_dvec3 tr)))
   \<and> (setFromMatrix m T = Inl PreconditionViolation \<longleftrightarrow> \<not> list_all isfinite (coeffs_dmat4 m))
   \<and> (isl (setFromMatrix m T) \<longleftrightarrow> \<not> list_all isfinite (coeffs_dmat4 m))
   \<and> (setFromExpMap approximate TOL v T = Inl PreconditionViolation
      \<longleftrightarrow> \<not> list_all isfinite (coeffs_dvec6 v))
   \<and> (isl (setFromExpMap approximate TOL v T) \<longleftrightarrow> \<not> list_all isfinite (coeffs_dvec6 v))"
  by (simp add: setFromEulerXYZ_def setFromMatrix_def setFromExpMap_def checkMatrixFinite_def
      Let_def)

theorem setters_check_finite_witness:
  "setFromEulerXYZ (DVec3 NaN (Finite 0) (Finite 0)) (DVec3 (Finite 1) (Finite 2) (Finite 3))
       \<lparr>rotation = 1, translation = 0\<rparr> = Inl PreconditionViolation
   \<and> setFromEulerXYZ (DVec3 (Finite 0) (Finite 0) (Finite 0)) (DVec3 (Finite 1) PosInf (Finite 3))
       \<lparr>rotation = 1, translation = 0\<rparr> = Inl PreconditionViolation
   \<and> \<not> isl (setFromEulerXYZ (DVec3 (Finite 0) (Finite 0) (Finite 0))
              (DVec3 (Finite 1) (Finite 2) (Finite 3)) \<lparr>rotation = 1, translation = 0\<rparr>)
   \<and> setFromMatrix
       (DMat4 (DVec4 (Finite 1) (Finite 0) (Finite 0) (Finite 0))
              (DVec4 (Finite 0) (Finite 1) (Finite 0) NegInf)
              (DVec4 (Finite 0) (Finite 0) (Finite 1) (Finite 0))
              (DVec4 (Finite 0) (Finite 0) (Finite 0) (Finite 1)))
       \<lparr>rotation = 1, translation = 0\<rparr> = Inl PreconditionViolation
   \<and> \<not> isl (setFromMatrix
       (DMat4 (DVec4 (Finite 1) (Finite 0) (Finite 0) (Finite 0))
              (DVec4 (Finite 0) (Finite 1) (Finite 0) (Finite 0))
              (DVec4 (Finite 0) (Finite 0) (Finite 1) (Finite 0))
              (DVec4 (Finite 0) (Finite 0) (Finite 0) (Finite 1)))
       \<lparr>rotation = 1, translation = 0\<rparr>)
   \<and> setFromExpMap False (1 / 100000)
       (DVec6 (Finite 0) (Finite 0) NaN (Finite 0) (Finite 0) (Finite 0))
       \<lparr>rotation = 1, translation = 0\<rparr> = Inl PreconditionViolation
   \<and> \<not> isl (setFromExpMap False (1 / 100000)
       (DVec6 (Finite 0) (Finite 0) (Finite 1) (Finite 0) (Finite 0) (Finite 0))
       \<lparr>rotation = 1, translation = 0\<rparr>)"
  using
    setters_check_finite [of "DVec3 NaN (Finite 0) (Finite 0)"
      "DVec3 (Finite 1) (Finite 2) (Finite 3)" "\<lparr>rotation = 1, translation = 0\<rparr>"
      "DMat4 (DVec4 (Finite 1) (Finite 0) (Finite 0) (Finite 0))
              (DVec4 (Finite 0) (Finite 1) (Finite 0) NegInf)
              (DVec4 (Finite 0) (Finite 0) (Finite 1) (Finite 0))
              (DVec4 (Finite 0) (Finite 0) (Finite 0) (Finite 1))"
      False "1 / 100000" "DVec6 (Finite 0) (Finite 0) NaN (Finite 0) (Finite 0) (Finite 0)"]
    setters_check_finite [of "DVec3 (Finite 0) (Finite 0) (Finite 0)"
      "DVec3 (Finite 1) PosInf (Finite 3)" "\<lparr>rotation = 1, translation = 0\<rparr>"
      "DMat4 (DVec4 (Finite 1) (Finite 0) (Finite 0) (Finite 0))
              (DVec4 (Finite 0) (Finite 1) (Finite 0) (Finite 0))
              (DVec4 (Finite 0) (Finite 0) (Finite 1) (Finite 0))
              (DVec4 (Finite 0) (Finite 0) (Finite 0) (Finite 1))"
      False "1 / 100000" "DVec6 (Finite 0) (Finite 0) (Finite 1) (Finite 0) (Finite 0) (Finite 0)"]
    setters_check_finite [of "DVec3 (Finite 0) (Finite 0) (Finite 0)"
      "DVec3 (Finite 1) (Finite 2) (Finite 3)" "\<lparr>rotation = 1, translation = 0\<rparr>"]
  by simp

section \<open>Normalisation\<close>

text \<open>
  Claim C4, at an element whose rotation block has determinant \<open>1/2\<close>, with the tolerance
  \<open>10\<^sup>-\<^sup>5\<close>: the determinant differs from 1 by more than the tolerance, and
  \<open>normalizeMaybe\<close> returns the element as it is, because it compares
  \<open>determinant - 1\<close>, not its magnitude, with the tolerance.
\<close>

theorem normalizeMaybe_low_determinant:
  "normalizeMaybe sqrtm (1 / 100000)
      \<lparr>rotation = Mat3 (Vec3 (1 / 2) 0 0) (Vec3 0 1 0) (Vec3 0 0 1), translation = 0\<rparr>
     = Some \<lparr>rotation = Mat3 (Vec3 (1 / 2) 0 0) (Vec3 0 1 0) (Vec3 0 0 1), translation = 0\<rparr>
   \<and> det3 (Mat3 (Vec3 (1 / 2) 0 0) (Vec3 0 1 0) (Vec3 0 0 1)) = 1 / 2
   \<and> \<bar>det3 (Mat3 (Vec3 (1 / 2) 0 0) (Vec3 0 1 0) (Vec3 0 0 1)) - 1\<bar> > 1 / 100000"
  by (simp add: normalizeMaybe_def)

section \<open>The manifold difference and its Jacobians\<close>

lemmas mat_consts =
  zero_vec3_def zero_vec6_def zero_mat3_def zero_mat6_def one_mat3_def one_mat6_def

lemma deepCopy_id [simp]: "deepCopy T = T"
  by (cases T) (simp add: deepCopy_def)

lemma inverse_tf_invert: "inverse_tf T = invert T"
  by (cases T) (simp add: inverse_tf_def)

lemma neg_diff_commute: "- a - b = - b - (a::mat3)"
  by simp

lemma manifoldMinusAndJacobian_unfold:
  "manifoldMinusAndJacobian approximate tol A B =
     (case manifoldMinus approximate tol A B of
        None \<Rightarrow> None
      | Some w \<Rightarrow>
         (case inverseLeftJacobian approximate w of
            None \<Rightarrow> None
          | Some J \<Rightarrow>
             Some (w, J,
                   J * mat6_of_blocks (- (rotation A * transpose3 (rotation B))) 0
                        (- skewSymmetric3 (translation A) * (rotation A * transpose3 (rotation B))
                         - rotation A * skewSymmetric3 (translation (inverse_tf B))
                             * transpose3 (rotation B))
                        (- (rotation A * transpose3 (rotation B))))))"
  by (simp add: manifoldMinusAndJacobian_def manifoldMinus_def inverseLeftJacobian_def
      zero_blocks set_block33_blocks Let_def split: option.splits)

lemma manifoldMinusAndJacobian_chain:
  "manifoldMinusAndJacobian approximate tol A B =
     (case logMap approximate tol (compose A (inverse_tf B)) of
        None \<Rightarrow> None
      | Some w \<Rightarrow>
         (case inverseLeftJacobian approximate w of
            None \<Rightarrow> None
          | Some J \<Rightarrow>
             Some (w, J,
                   J * (snd (snd (composeAndJacobian A (inverse_tf B)))
                        * snd (inverseAndJacobian B)))))"
  by (simp add: manifoldMinusAndJacobian_def inverseLeftJacobian_def composeAndJacobian_def
      inverseAndJacobian_def deepCopy_def inverse_tf_def invert_def getRotationMatrix_def
      getTranslation_def zero_blocks set_block33_blocks times_blocks mult.assoc
      neg_diff_commute Let_def split: option.splits)

section \<open>Trajectory interpolation\<close>

lemma interpolate_unfold:
  "interpolate approx approximate TOL tol T_k T_kp1 twist_k twist_kp1 hat candle =
     (case manifoldMinus approximate tol T_kp1 T_k of
        None \<Rightarrow> None
      | Some eps \<Rightarrow>
         (case inverseLeftJacobian approximate eps of
            None \<Rightarrow> None
          | Some J \<Rightarrow>
             Some (manifoldPlus approx TOL
                    (mv6 (block66 hat 0 6) twist_k + mv6 (block66 candle 0 0) eps
                       + mv6 (block66 candle 0 6 * J) twist_kp1) T_k)))"
  by (simp add: interpolate_def manifoldMinusAndJacobian_unfold Let_def split: option.splits)

lemma eliminate_6:
  "eliminate 6 c rows =
    (case eliminate_column c rows of None \<Rightarrow> None | Some r1 \<Rightarrow>
    (case eliminate_column (Suc c) r1 of None \<Rightarrow> None | Some r2 \<Rightarrow>
    (case eliminate_column (Suc (Suc c)) r2 of None \<Rightarrow> None | Some r3 \<Rightarrow>
    (case eliminate_column (Suc (Suc (Suc c))) r3 of None \<Rightarrow> None | Some r4 \<Rightarrow>
    (case eliminate_column (Suc (Suc (Suc (Suc c)))) r4 of None \<Rightarrow> None | Some r5 \<Rightarrow>
     eliminate_column (Suc (Suc (Suc (Suc (Suc c))))) r5)))))"
  by (simp add: eval_nat_numeral split: option.splits)

text \<open>The poses of the example: the identity, and the translation by \<open>(1, 0, 0)\<close>.  Their
  difference is the twist \<open>(0, 0, 0, 1, 0, 0)\<close>.\<close>

lemma SE3LeftJacobian_example:
  "SE3LeftJacobian (Vec6 0 0 0 1 0 0) (1 / 10000) =
     Mat6 (Vec6 1 0 0 0 0 0) (Vec6 0 1 0 0 0 0) (Vec6 0 0 1 0 0 0)
          (Vec6 0 0 0 1 0 0) (Vec6 0 0 (- (1 / 2)) 0 1 0) (Vec6 0 (1 / 2) 0 0 0 1)"
  by (simp add: SE3LeftJacobian_def norm3_def skewSymmetric3_def set_block33_def
      set_coeff66_rows coeff33_def zero_mat6_def zero_vec6_def one_mat6_def)

lemma mat6_inverse_example:
  "mat6_inverse (Mat6 (Vec6 1 0 0 0 0 0) (Vec6 0 1 0 0 0 0) (Vec6 0 0 1 0 0 0)
          (Vec6 0 0 0 1 0 0) (Vec6 0 0 (- (1 / 2)) 0 1 0) (Vec6 0 (1 / 2) 0 0 0 1))
   = Some (Mat6 (Vec6 1 0 0 0 0 0) (Vec6 0 1 0 0 0 0) (Vec6 0 0 1 0 0 0)
          (Vec6 0 0 0 1 0 0) (Vec6 0 0 (1 / 2) 0 1 0) (Vec6 0 (- (1 / 2)) 0 0 0 1))"
  by (simp add: mat6_inverse_def eliminate_6 eliminate_column_def pivot_row_def Let_def upt_rec
       mat6_of_rows_def vec6_of_list_def one_mat6_def)

lemma manifoldMinus_example:
  "manifoldMinus False (1 / 10000) \<lparr>rotation = 1, translation = Vec3 1 0 0\<rparr>
     \<lparr>rotation = 1, translation = 0\<rparr> = Some (Vec6 0 0 0 1 0 0)"
  by (simp add: manifoldMinus_def logMap_def logMap_wn_def std_acos_def compose_def
      inverse_tf_def invert_def mat_consts coeff33_def)

lemma manifoldPlus_example:
  "translation (manifoldPlus False (1 / 100000) (Vec6 0 1 0 0 0 z)
      \<lparr>rotation = 1, translation = 0\<rparr>)
     = Vec3 ((1 - cos 1) * z) 0 (sin 1 * z)"
  by (simp add: manifoldPlus_def expMap_def norm3_def skewSymmetric3_def Identity4_def
      mat_consts Let_def)

text \<open>
  Claim C1 as stated fails.  With \<open>T\<^sub>k\<close> the identity, \<open>T\<^sub>k\<^sub>+\<^sub>1\<close> the translation by
  \<open>(1, 0, 0)\<close>, \<open>twist\<^sub>k = 0\<close>, \<open>twist\<^sub>k\<^sub>+\<^sub>1 = (0, 1, 0, 0, 0, 0)\<close>, \<open>hat = 0\<close> and
  \<open>candle = [0 | 1]\<close>, in the exact mode, the code and the specification's wording give
  different poses: the code multiplies \<open>twist\<^sub>k\<^sub>+\<^sub>1\<close> by the inverse of the left Jacobian
  at \<open>\<epsilon>\<close> (increment \<open>(0, 1, 0, 0, 0, -1/2)\<close>), the wording by the left Jacobian itself
  (increment \<open>(0, 1, 0, 0, 0, 1/2)\<close>).
\<close>

theorem interpolate_not_spec:
  "interpolate False False (1 / 100000) (1 / 10000) \<lparr>rotation = 1, translation = 0\<rparr>
     \<lparr>rotation = 1, translation = Vec3 1 0 0\<rparr> 0 (Vec6 0 1 0 0 0 0) (Mat6x12 0 0) (Mat6x12 0 1)
   \<noteq> interpolate_spec False False (1 / 100000) (1 / 10000) \<lparr>rotation = 1, translation = 0\<rparr>
     \<lparr>rotation = 1, translation = Vec3 1 0 0\<rparr> 0 (Vec6 0 1 0 0 0 0) (Mat6x12 0 0) (Mat6x12 0 1)"
proof -
  have s: "sin (1::real) > 0"
    by (rule sin_gt_zero_02) simp_all
  have a: "interpolate False False (1 / 100000) (1 / 10000) \<lparr>rotation = 1, translation = 0\<rparr>
      \<lparr>rotation = 1, translation = Vec3 1 0 0\<rparr> 0 (Vec6 0 1 0 0 0 0) (Mat6x12 0 0) (Mat6x12 0 1)
    = Some (manifoldPlus False (1 / 100000) (Vec6 0 1 0 0 0 (- (1 / 2)))
              \<lparr>rotation = 1, translation = 0\<rparr>)"
    by (simp add: interpolate_unfold manifoldMinus_example inverseLeftJacobian_def
          SE3LeftJacobian_example mat6_inverse_example)
       (simp add: mat_consts)
  have b: "interpolate_spec False False (1 / 100000) (1 / 10000)
      \<lparr>rotation = 1, translation = 0\<rparr>
      \<lparr>rotation = 1, translation = Vec3 1 0 0\<rparr> 0 (Vec6 0 1 0 0 0 0) (Mat6x12 0 0) (Mat6x12 0 1)
    = Some (manifoldPlus False (1 / 100000) (Vec6 0 1 0 0 0 (1 / 2))
              \<lparr>rotation = 1, translation = 0\<rparr>)"
    by (simp add: interpolate_spec_def manifoldMinus_example leftJacobian_def
          SE3LeftJacobian_example)
       (simp add: mat_consts)
  show ?thesis
  proof
    assume "interpolate False False (1 / 100000) (1 / 10000) \<lparr>rotation = 1, translation = 0\<rparr>
        \<lparr>rotation = 1, translation = Vec3 1 0 0\<rparr> 0 (Vec6 0 1 0 0 0 0) (Mat6x12 0 0) (Mat6x12 0 1)
      = interpolate_spec False False (1 / 100000) (1 / 10000) \<lparr>rotation = 1, translation = 0\<rparr>
        \<lparr>rotation = 1, translation = Vec3 1 0 0\<rparr> 0 (Vec6 0 1 0 0 0 0) (Mat6x12 0 0) (Mat6x12 0 1)"
    then have "translation (manifoldPlus False (1 / 100000) (Vec6 0 1 0 0 0 (- (1 / 2)))
          \<lparr>rotation = 1, translation = 0\<rparr>)
        = translation (manifoldPlus False (1 / 100000) (Vec6 0 1 0 0 0 (1 / 2))
          \<lparr>rotation = 1, translation = 0\<rparr>)"
      unfolding a b by simp
    then show False
      using s unfolding manifoldPlus_example by simp
  qed
qed

text \<open>
  Claim C1, amended.  \<open>interpolate\<close> computes \<open>\<epsilon> = minus(T\<^sub>k\<^sub>+\<^sub>1, T\<^sub>k)\<close>, forms the increment
  \<open>\<Delta> = hat_block twist\<^sub>k + candle_block\<^sub>1 \<epsilon> + candle_block\<^sub>2 J twist\<^sub>k\<^sub>+\<^sub>1\<close> where \<open>J\<close> is the
  inverse of the left Jacobian of the exponential map at \<open>\<epsilon>\<close> (the left Jacobian output
  of \<open>manifoldMinusAndJacobian\<close>), and returns \<open>plus(T\<^sub>k, \<Delta>)\<close>.
\<close>

theorem interpolate_inverse_left_jacobian:
  "interpolate approx approximate TOL tol T_k T_kp1 twist_k twist_kp1 hat candle =
     (case manifoldMinus approximate tol T_kp1 T_k of
        None \<Rightarrow> None
      | Some eps \<Rightarrow>
         (case inverseLeftJacobian approximate eps of
            None \<Rightarrow> None
          | Some J \<Rightarrow>
             Some (manifoldPlus approx TOL
                    (mv6 (block66 hat 0 6) twist_k + mv6 (block66 candle 0 0) eps
                       + mv6 (block66 candle 0 6 * J) twist_kp1) T_k)))"
  by (rule interpolate_unfold)


section \<open>Algebra of 3x3 matrices\<close>

lemma transpose3_add: "transpose3 (A + B) = transpose3 A + transpose3 B"
  by (cases A rule: mat3_exhaust; cases B rule: mat3_exhaust) simp

lemma transpose3_scaleR: "transpose3 (k *\<^sub>R A) = k *\<^sub>R transpose3 A"
  by (cases A rule: mat3_exhaust) simp

lemma transpose3_one: "transpose3 1 = 1"
  by (simp add: one_mat3_def)

lemma transpose3_transpose3: "transpose3 (transpose3 A) = A"
  by (cases A rule: mat3_exhaust) simp

lemma transpose3_mult: "transpose3 (A * B) = transpose3 B * transpose3 A"
  by (cases A rule: mat3_exhaust; cases B rule: mat3_exhaust) (simp add: algebra_simps)

lemma trace3_add: "trace3 (A + B) = trace3 A + trace3 B"
  by (cases A rule: mat3_exhaust; cases B rule: mat3_exhaust) simp

lemma trace3_diff: "trace3 (A - B) = trace3 A - trace3 B"
  by (cases A rule: mat3_exhaust; cases B rule: mat3_exhaust) simp

lemma trace3_scaleR: "trace3 (k *\<^sub>R A) = k * trace3 A"
  by (cases A rule: mat3_exhaust) (simp add: algebra_simps)

lemma trace3_one: "trace3 1 = 3"
  by (simp add: one_mat3_def)

lemma trace3_transpose3: "trace3 (transpose3 A) = trace3 A"
  by (cases A rule: mat3_exhaust) simp

lemma det3_mult: "det3 (A * B) = det3 A * det3 B"
  by (cases A rule: mat3_exhaust; cases B rule: mat3_exhaust) (simp add: algebra_simps)

lemma det3_transpose3: "det3 (transpose3 A) = det3 A"
  by (cases A rule: mat3_exhaust) (simp add: algebra_simps)

lemma adjugate3_mult: "adjugate3 A * A = det3 A *\<^sub>R 1"
  by (cases A rule: mat3_exhaust) (simp add: one_mat3_def algebra_simps)

lemma cayley_hamilton3:
  "A * A - trace3 A *\<^sub>R A + trace3 (adjugate3 A) *\<^sub>R 1 = adjugate3 A"
  by (cases A rule: mat3_exhaust) (simp add: one_mat3_def algebra_simps)

lemma mv3_mult: "mv3 (A * B) v = mv3 A (mv3 B v)"
  by (cases A rule: mat3_exhaust; cases B rule: mat3_exhaust; cases v) (simp add: algebra_simps)

lemma mv3_one: "mv3 1 v = v"
  by (cases v) (simp add: one_mat3_def)

lemma mv3_add: "mv3 A (u + v) = mv3 A u + mv3 A v"
  by (cases A rule: mat3_exhaust; cases u; cases v) (simp add: algebra_simps)

lemma mv3_minus_left: "mv3 (- A) v = - mv3 A v"
  by (cases A rule: mat3_exhaust; cases v) (simp add: algebra_simps)

lemma mv3_zero: "mv3 A 0 = 0"
  by (cases A rule: mat3_exhaust) (simp add: zero_vec3_def)

section \<open>Skew matrices and the closed forms of the two maps\<close>

lemma norm3_mult_self: "norm3 v * norm3 v = dot3 v v"
  by (cases v) (simp add: norm3_def)

lemma vee_skewSymmetric3: "vee (skewSymmetric3 v) = v"
  by (cases v) (simp add: vee_def skewSymmetric3_def coeff33_def)

lemma vee_scaleR: "vee (k *\<^sub>R M) = k *\<^sub>R vee M"
  by (cases M rule: mat3_exhaust) (simp add: vee_def coeff33_def)

lemma skewSymmetric3_vee: "skewSymmetric3 (vee (M - transpose3 M)) = M - transpose3 M"
  by (cases M rule: mat3_exhaust) (simp add: vee_def skewSymmetric3_def coeff33_def)

lemma skewSymmetric3_scaleR: "skewSymmetric3 (k *\<^sub>R v) = k *\<^sub>R skewSymmetric3 v"
  by (cases v) (simp add: skewSymmetric3_def)

lemma poly_skew_mult:
  "(1 + b *\<^sub>R skewSymmetric3 v + c *\<^sub>R skewSymmetric3 v * skewSymmetric3 v)
     * (1 + b' *\<^sub>R skewSymmetric3 v + c' *\<^sub>R skewSymmetric3 v * skewSymmetric3 v)
   = 1 + (b + b' - dot3 v v * (b * c' + c * b')) *\<^sub>R skewSymmetric3 v
       + (c + c' + b * b' - dot3 v v * (c * c')) *\<^sub>R skewSymmetric3 v * skewSymmetric3 v"
  by (cases v) (simp add: skewSymmetric3_def one_mat3_def algebra_simps)

lemma dot3_vee_antisym:
  "dot3 (vee (M - transpose3 M)) (vee (M - transpose3 M))
     = - (1 / 2) * trace3 ((M - transpose3 M) * (M - transpose3 M))"
  by (cases M rule: mat3_exhaust) (simp add: vee_def coeff33_def algebra_simps)

lemma cos_lt_one_open: "0 < n \<Longrightarrow> n < pi \<Longrightarrow> cos n < (1::real)"
  using cos_monotone_0_pi [of 0 n] by simp

lemma V_coeff_1:
  fixes n :: real
  assumes "0 < n" "n < pi"
  shows "(1 - cos n) / (n * n) - 1 / 2
         - n * n * ((1 - cos n) / (n * n) * ((1 / (n * n)) * (1 - 1 / (4 * (n / (2 * sin n)) * ((1 - cos n) / (n * n)))))
                    + (1 - sin n / n) / (n * n) * (- (1 / 2))) = 0"
proof -
  have s: "sin n > 0" using assms by (simp add: sin_gt_zero)
  have c: "cos n < 1" using assms by (rule cos_lt_one_open)
  have c': "1 - cos n \<noteq> 0" using c by simp
  show ?thesis using s c' assms(1)
    by (simp add: field_simps)
qed

lemma V_coeff_2_alg:
  fixes n s c :: real
  assumes "n \<noteq> 0" "s \<noteq> 0" "c \<noteq> 1"
  shows "(1 - s / n) / (n * n) + (1 / (n * n)) * (1 - 1 / (4 * (n / (2 * s)) * ((1 - c) / (n * n))))
          + (1 - c) / (n * n) * (- (1 / 2))
         - n * n * ((1 - s / n) / (n * n) * ((1 / (n * n)) * (1 - 1 / (4 * (n / (2 * s)) * ((1 - c) / (n * n))))))
       = (1 - c * c - s * s) / (2 * (1 - c) * (n * n))"
proof -
  define q where "q = 1 - c"
  define d where "d = 2 * q * (n * n * n)"
  have q: "q \<noteq> 0" using assms by (simp add: q_def)
  have d: "d \<noteq> 0" using assms q by (simp add: d_def)
  have e: "1 / (4 * (n / (2 * s)) * (q / (n * n))) = n * s / (2 * q)"
    using assms q by (simp add: field_simps)
  define D where "D = (1 / (n * n)) * (1 - n * s / (2 * q))"
  define C where "C = (1 - s / n) / (n * n)"
  have D: "D = (n * (2 * q - n * s)) / d"
    using assms q by (simp add: D_def d_def field_simps)
  have C: "C = (2 * q * (n - s)) / d"
    using assms q by (simp add: C_def d_def field_simps)
  have B: "q / (n * n) * (- (1 / 2)) = (- (q * q * n)) / d"
    using assms q by (simp add: d_def field_simps)
  have nCD: "n * n * (C * D) = ((n - s) * (2 * q - n * s)) / d"
    using assms q by (simp add: C_def D_def d_def field_simps)
  have "C + D + q / (n * n) * (- (1 / 2)) - n * n * (C * D)
      = (2 * q * (n - s) + n * (2 * q - n * s) + - (q * q * n) - (n - s) * (2 * q - n * s)) / d"
    unfolding nCD B unfolding C D
    by (simp only: add_divide_distrib diff_divide_distrib)
  also have "2 * q * (n - s) + n * (2 * q - n * s) + - (q * q * n) - (n - s) * (2 * q - n * s)
      = n * (1 - c * c - s * s)"
    by (simp add: q_def algebra_simps)
  also have "n * (1 - c * c - s * s) / d = (1 - c * c - s * s) / (2 * q * (n * n))"
    using assms q by (simp add: d_def)
  finally show ?thesis
    unfolding C_def D_def unfolding e [symmetric] unfolding q_def .
qed

lemma V_coeff_2:
  fixes n :: real
  assumes "0 < n" "n < pi"
  shows "(1 - sin n / n) / (n * n) + (1 / (n * n)) * (1 - 1 / (4 * (n / (2 * sin n)) * ((1 - cos n) / (n * n))))
          + (1 - cos n) / (n * n) * (- (1 / 2))
         - n * n * ((1 - sin n / n) / (n * n) * ((1 / (n * n)) * (1 - 1 / (4 * (n / (2 * sin n)) * ((1 - cos n) / (n * n)))))) = 0"
proof -
  have s: "sin n \<noteq> 0" using assms sin_gt_zero [of n] by simp
  have c: "cos n \<noteq> 1" using assms cos_lt_one_open [of n] by simp
  have sc: "1 - cos n * cos n - sin n * sin n = 0"
    using sin_cos_squared_add [of n] by (simp add: power2_eq_square algebra_simps)
  show ?thesis
    using assms(1) by (simp only: V_coeff_2_alg [OF _ s c] sc)
qed

lemma mat4_blocks [simp]:
  "mat4_block33 (mat4_set_block33 M R) = R"
  "mat4_block33 (mat4_set_block31 M t) = mat4_block33 M"
  "mat4_block31 (mat4_set_block31 M t) = t"
  "mat4_block31 (mat4_set_block33 M R) = mat4_block31 M"
proof -
  obtain a b c d e f g h i j k l r3 where M: "M = Mat4 (Vec4 a b c d) (Vec4 e f g h) (Vec4 i j k l) r3"
    by (cases M) (metis vec4.exhaust)
  show "mat4_block33 (mat4_set_block33 M R) = R"
    by (cases R rule: mat3_exhaust) (simp add: M)
  show "mat4_block33 (mat4_set_block31 M t) = mat4_block33 M"
    by (cases t) (simp add: M)
  show "mat4_block31 (mat4_set_block31 M t) = t"
    by (cases t) (simp add: M)
  show "mat4_block31 (mat4_set_block33 M R) = mat4_block31 M"
    by (cases R rule: mat3_exhaust) (simp add: M)
qed

lemma expMap_exact:
  assumes "TOL < norm3 (head3 w)"
  shows "mat4_block33 (expMap False w TOL) =
           1 + (sin (norm3 (head3 w)) / norm3 (head3 w)) *\<^sub>R skewSymmetric3 (head3 w)
             + ((1 - cos (norm3 (head3 w))) / (norm3 (head3 w) * norm3 (head3 w)))
                 *\<^sub>R skewSymmetric3 (head3 w) * skewSymmetric3 (head3 w)"
    and "mat4_block31 (expMap False w TOL) =
           mv3 (1 + ((1 - cos (norm3 (head3 w))) / (norm3 (head3 w) * norm3 (head3 w)))
                     *\<^sub>R skewSymmetric3 (head3 w)
                  + ((1 - sin (norm3 (head3 w)) / norm3 (head3 w)) / (norm3 (head3 w) * norm3 (head3 w)))
                     *\<^sub>R skewSymmetric3 (head3 w) * skewSymmetric3 (head3 w)) (tail3 w)"
  using assms by (simp_all add: expMap_def Let_def)

lemma V_Vinv:
  fixes v :: vec3
  assumes n_def: "n = norm3 v" and K_def: "K = skewSymmetric3 v"
  assumes "0 < n" "n < pi"
  shows "(1 - (1 / 2) *\<^sub>R K
            + ((1 / (n * n)) * (1 - 1 / (4 * (n / (2 * sin n)) * ((1 - cos n) / (n * n))))) *\<^sub>R K * K)
          * (1 + ((1 - cos n) / (n * n)) *\<^sub>R K + ((1 - sin n / n) / (n * n)) *\<^sub>R K * K) = 1"
    and "(1 + ((1 - cos n) / (n * n)) *\<^sub>R K + ((1 - sin n / n) / (n * n)) *\<^sub>R K * K)
          * (1 - (1 / 2) *\<^sub>R K
            + ((1 / (n * n)) * (1 - 1 / (4 * (n / (2 * sin n)) * ((1 - cos n) / (n * n))))) *\<^sub>R K * K) = 1"
proof -
  define B where "B = (1 - cos n) / (n * n)"
  define C where "C = (1 - sin n / n) / (n * n)"
  define D where "D = (1 / (n * n)) * (1 - 1 / (4 * (n / (2 * sin n)) * ((1 - cos n) / (n * n))))"
  define h :: real where "h = - (1 / 2)"
  have nn: "dot3 v v = n * n" by (simp add: n_def norm3_mult_self)
  have z1: "B + h - dot3 v v * (B * D + C * h) = 0"
    unfolding nn B_def C_def D_def h_def using V_coeff_1 [OF assms(3,4)] by simp
  have z2: "C + D + B * h - dot3 v v * (C * D) = 0"
    unfolding nn B_def C_def D_def h_def by (rule V_coeff_2 [OF assms(3,4)])
  have z1': "h + B - dot3 v v * (h * C + D * B) = 0"
    using z1 by (simp add: mult.commute add.commute)
  have z2': "D + C + h * B - dot3 v v * (D * C) = 0"
    using z2 by (simp add: mult.commute add.commute)
  have p: "(1 + B *\<^sub>R K + C *\<^sub>R K * K) * (1 + h *\<^sub>R K + D *\<^sub>R K * K) = 1"
    unfolding K_def poly_skew_mult z1 z2 by simp
  have p': "(1 + h *\<^sub>R K + D *\<^sub>R K * K) * (1 + B *\<^sub>R K + C *\<^sub>R K * K) = 1"
    unfolding K_def poly_skew_mult z1' z2' by simp
  have m: "1 - (1 / 2) *\<^sub>R K = 1 + h *\<^sub>R K" by (simp add: h_def)
  show "(1 - (1 / 2) *\<^sub>R K
            + ((1 / (n * n)) * (1 - 1 / (4 * (n / (2 * sin n)) * ((1 - cos n) / (n * n))))) *\<^sub>R K * K)
          * (1 + ((1 - cos n) / (n * n)) *\<^sub>R K + ((1 - sin n / n) / (n * n)) *\<^sub>R K * K) = 1"
    using p' unfolding m B_def C_def D_def .
  show "(1 + ((1 - cos n) / (n * n)) *\<^sub>R K + ((1 - sin n / n) / (n * n)) *\<^sub>R K * K)
          * (1 - (1 / 2) *\<^sub>R K
            + ((1 / (n * n)) * (1 - 1 / (4 * (n / (2 * sin n)) * ((1 - cos n) / (n * n))))) *\<^sub>R K * K) = 1"
    using p unfolding m B_def C_def D_def .
qed

lemma rodrigues_diff:
  "(1 + a *\<^sub>R skewSymmetric3 v + b *\<^sub>R skewSymmetric3 v * skewSymmetric3 v)
     - transpose3 (1 + a *\<^sub>R skewSymmetric3 v + b *\<^sub>R skewSymmetric3 v * skewSymmetric3 v)
   = (2 * a) *\<^sub>R skewSymmetric3 v"
  by (cases v) (simp add: skewSymmetric3_def one_mat3_def algebra_simps)

lemma rodrigues_trace:
  "trace3 (1 + a *\<^sub>R skewSymmetric3 v + b *\<^sub>R skewSymmetric3 v * skewSymmetric3 v)
   = 3 - 2 * (b * dot3 v v)"
  by (cases v) (simp add: skewSymmetric3_def one_mat3_def algebra_simps)

lemma logMap_exact:
  assumes "logMap_wn T = Some wn" "tolerance < wn"
  shows "logMap False tolerance T =
     Some (vec6_of_blocks
            (vee ((wn / (2 * sin wn)) *\<^sub>R (rotation T - transpose3 (rotation T))))
            (mv3 (1 - 0.5 *\<^sub>R ((wn / (2 * sin wn)) *\<^sub>R (rotation T - transpose3 (rotation T)))
                  + ((1 / (wn * wn)) * (1 - (1 / (4 * (wn / (2 * sin wn)) * ((1 - cos wn) / (wn * wn))))))
                     *\<^sub>R ((wn / (2 * sin wn)) *\<^sub>R (rotation T - transpose3 (rotation T)))
                     * ((wn / (2 * sin wn)) *\<^sub>R (rotation T - transpose3 (rotation T))))
                 (translation T)))"
  by (simp only: logMap_def assms option.case Let_def if_False if_True split_conv vee_def)

lemma vec6_of_blocks_head_tail: "vec6_of_blocks (head3 w) (tail3 w) = w"
  by (cases w) simp

lemma logMap_expMap_exact:
  fixes w :: vec6
  defines "n \<equiv> norm3 (head3 w)"
  assumes "TOL < n" "tolerance < n" "0 < n" "n < pi"
  shows "logMap False tolerance
           \<lparr>rotation = mat4_block33 (expMap False w TOL),
            translation = mat4_block31 (expMap False w TOL)\<rparr> = Some w"
proof -
  define K where "K = skewSymmetric3 (head3 w)"
  define A where "A = sin n / n"
  define B where "B = (1 - cos n) / (n * n)"
  define C where "C = (1 - sin n / n) / (n * n)"
  define T where "T = \<lparr>rotation = mat4_block33 (expMap False w TOL),
            translation = mat4_block31 (expMap False w TOL)\<rparr>"
  have s: "sin n > 0" using assms by (simp add: sin_gt_zero)
  have nn: "dot3 (head3 w) (head3 w) = n * n" by (simp add: n_def norm3_mult_self)
  have R: "rotation T = 1 + A *\<^sub>R K + B *\<^sub>R K * K"
    using expMap_exact(1) [of TOL w] assms(2) by (simp add: T_def n_def K_def A_def B_def)
  have t: "translation T = mv3 (1 + B *\<^sub>R K + C *\<^sub>R K * K) (tail3 w)"
    using expMap_exact(2) [of TOL w] assms(2) by (simp add: T_def n_def K_def B_def C_def)
  have "trace3 (rotation T) = 3 - 2 * (B * (n * n))"
    unfolding R K_def rodrigues_trace nn ..
  also have "B * (n * n) = 1 - cos n"
    using assms(4) by (simp add: B_def)
  finally have tr: "(trace3 (rotation T) - 1) / 2 = cos n" by simp
  have wn: "logMap_wn T = Some n"
    using assms(4,5) tr
    by (simp add: logMap_wn_def std_acos_def arccos_cos not_less)
  have d: "rotation T - transpose3 (rotation T) = (2 * A) *\<^sub>R K"
    unfolding R K_def by (rule rodrigues_diff)
  have S: "(n / (2 * sin n)) *\<^sub>R (rotation T - transpose3 (rotation T)) = K"
    using s assms(4) by (simp add: d A_def)
  have "logMap False tolerance T =
      Some (vec6_of_blocks (vee K)
        (mv3 (1 - (1 / 2) *\<^sub>R K
               + ((1 / (n * n)) * (1 - 1 / (4 * (n / (2 * sin n)) * ((1 - cos n) / (n * n))))) *\<^sub>R K * K)
          (translation T)))"
    using logMap_exact [OF wn assms(3)] unfolding S by simp
  also have "vee K = head3 w"
    by (simp add: K_def vee_skewSymmetric3)
  also have "mv3 (1 - (1 / 2) *\<^sub>R K
               + ((1 / (n * n)) * (1 - 1 / (4 * (n / (2 * sin n)) * ((1 - cos n) / (n * n))))) *\<^sub>R K * K)
          (translation T) = tail3 w"
  proof -
    have VV: "(1 - (1 / 2) *\<^sub>R K
               + ((1 / (n * n)) * (1 - 1 / (4 * (n / (2 * sin n)) * ((1 - cos n) / (n * n))))) *\<^sub>R K * K)
              * (1 + B *\<^sub>R K + C *\<^sub>R K * K) = 1"
      unfolding B_def C_def by (rule V_Vinv(1) [OF _ K_def assms(4,5)]) (simp add: n_def)
    show ?thesis
      by (simp only: t mv3_mult [symmetric] VV mv3_one)
  qed
  finally show ?thesis
    by (simp add: T_def vec6_of_blocks_head_tail)
qed

section \<open>Rotation matrices\<close>

lemma rotation_adjugate:
  assumes "R * transpose3 R = 1" "det3 R = 1"
  shows "adjugate3 R = transpose3 R"
proof -
  have "adjugate3 R = adjugate3 R * (R * transpose3 R)" by (simp add: assms)
  also have "\<dots> = (adjugate3 R * R) * transpose3 R" by (simp only: mult.assoc)
  also have "\<dots> = transpose3 R" by (simp add: adjugate3_mult assms)
  finally show ?thesis .
qed

lemma rotation_transpose_mult:
  assumes "R * transpose3 R = 1" "det3 R = 1"
  shows "transpose3 R * R = 1"
  using adjugate3_mult [of R] by (simp add: rotation_adjugate [OF assms] assms)

lemma rotation_square:
  assumes "R * transpose3 R = 1" "det3 R = 1"
  shows "R * R = trace3 R *\<^sub>R R - trace3 R *\<^sub>R 1 + transpose3 R"
proof -
  have "R * R - trace3 R *\<^sub>R R + trace3 (transpose3 R) *\<^sub>R 1 = transpose3 R"
    using cayley_hamilton3 [of R] by (simp only: rotation_adjugate [OF assms])
  then have "R * R - trace3 R *\<^sub>R R + trace3 R *\<^sub>R 1 = transpose3 R"
    by (simp only: trace3_transpose3)
  then show ?thesis by (simp add: algebra_simps)
qed

lemma rotation_antisym_square:
  assumes "R * transpose3 R = 1" "det3 R = 1"
  shows "(R - transpose3 R) * (R - transpose3 R)
          = (trace3 R + 1) *\<^sub>R (R + transpose3 R - 1 - 1)"
proof -
  define I :: mat3 where "I = 1"
  have t: "transpose3 R * transpose3 (transpose3 R) = 1" "det3 (transpose3 R) = 1"
    by (simp_all add: transpose3_transpose3 det3_transpose3 rotation_transpose_mult [OF assms] assms)
  have a: "R * R = trace3 R *\<^sub>R R - trace3 R *\<^sub>R I + transpose3 R"
    unfolding I_def by (rule rotation_square [OF assms])
  have b: "transpose3 R * transpose3 R = trace3 R *\<^sub>R transpose3 R - trace3 R *\<^sub>R I + R"
    using rotation_square [OF t] by (simp add: trace3_transpose3 transpose3_transpose3 I_def)
  have c: "R * transpose3 R = I" "transpose3 R * R = I"
    by (simp_all add: I_def assms rotation_transpose_mult [OF assms])
  have "(R - transpose3 R) * (R - transpose3 R)
      = R * R - R * transpose3 R - transpose3 R * R + transpose3 R * transpose3 R"
    by (simp add: algebra_simps)
  also have "\<dots> = (trace3 R *\<^sub>R R - trace3 R *\<^sub>R I + transpose3 R) - I - I
       + (trace3 R *\<^sub>R transpose3 R - trace3 R *\<^sub>R I + R)"
    by (simp only: a b c)
  also have "\<dots> = (trace3 R + 1) *\<^sub>R (R + transpose3 R - I - I)"
    by (simp add: algebra_simps)
  finally show ?thesis unfolding I_def .
qed

lemma rotation_vee_norm:
  assumes "R * transpose3 R = 1" "det3 R = 1"
  shows "dot3 (vee (R - transpose3 R)) (vee (R - transpose3 R)) = (trace3 R + 1) * (3 - trace3 R)"
proof -
  define I :: mat3 where "I = 1"
  have trI: "trace3 I = 3" by (simp add: I_def trace3_one)
  have "dot3 (vee (R - transpose3 R)) (vee (R - transpose3 R))
      = - (1 / 2) * trace3 ((R - transpose3 R) * (R - transpose3 R))"
    by (rule dot3_vee_antisym)
  also have "\<dots> = - (1 / 2) * trace3 ((trace3 R + 1) *\<^sub>R (R + transpose3 R - I - I))"
    by (simp only: rotation_antisym_square [OF assms] I_def)
  also have "\<dots> = (trace3 R + 1) * (3 - trace3 R)"
    by (simp add: trace3_scaleR trace3_add trace3_diff trace3_transpose3 trI algebra_simps)
  finally show ?thesis .
qed

section \<open>The exponential of the logarithm\<close>

lemma head3_vec6_of_blocks [simp]: "head3 (vec6_of_blocks a b) = a"
  by (cases a; cases b) simp

lemma tail3_vec6_of_blocks [simp]: "tail3 (vec6_of_blocks a b) = b"
  by (cases a; cases b) simp

lemma dot3_scaleR: "dot3 (k *\<^sub>R x) (k *\<^sub>R x) = k * k * dot3 x x"
  by (cases x) (simp add: algebra_simps)

lemma half_sum:
  fixes R Rt I :: mat3
  shows "I + (1 / 2) *\<^sub>R (R - Rt) + (1 / 2) *\<^sub>R (R + Rt - I - I) = R"
proof -
  have "I + (1 / 2) *\<^sub>R (R - Rt) + (1 / 2) *\<^sub>R (R + Rt - I - I)
      = (1 / 2) *\<^sub>R R + (1 / 2) *\<^sub>R R + (I - (1 / 2) *\<^sub>R I - (1 / 2) *\<^sub>R I)"
    by (simp add: algebra_simps)
  also have "(1 / 2) *\<^sub>R R + (1 / 2) *\<^sub>R R = R"
    by (simp add: scaleR_left_distrib [symmetric])
  also have "I - (1 / 2) *\<^sub>R I - (1 / 2) *\<^sub>R I = 0"
    by (simp add: diff_diff_eq scaleR_left_distrib [symmetric])
  finally show ?thesis by simp
qed

lemma expMap_logMap_exact:
  assumes v: "valid T" and wn: "logMap_wn T = Some \<theta>"
    and tol: "tolerance < \<theta>" "TOL < \<theta>" and pos: "0 < \<theta>" and lt: "\<theta> < pi"
  shows "\<exists>w. logMap False tolerance T = Some w
             \<and> mat4_block33 (expMap False w TOL) = rotation T
             \<and> mat4_block31 (expMap False w TOL) = translation T"
proof -
  define R where "R = rotation T"
  define S where "S = R - transpose3 R"
  define a where "a = \<theta> / (2 * sin \<theta>)"
  define K where "K = a *\<^sub>R S"
  define Dc where "Dc = (1 / (\<theta> * \<theta>)) * (1 - 1 / (4 * (\<theta> / (2 * sin \<theta>)) * ((1 - cos \<theta>) / (\<theta> * \<theta>))))"
  define Vinv where "Vinv = 1 - (1 / 2) *\<^sub>R K + Dc *\<^sub>R K * K"
  define w where "w = vec6_of_blocks (vee K) (mv3 Vinv (translation T))"
  have RR: "R * transpose3 R = 1" and det: "det3 R = 1"
    using v by (simp_all add: valid_def R_def)
  have lw: "logMap False tolerance T = Some w"
    using logMap_exact [OF wn tol(1)]
    by (simp add: w_def Vinv_def Dc_def K_def a_def S_def R_def)
  have c: "(trace3 R - 1) / 2 = cos \<theta>"
    using wn pos by (auto simp: logMap_wn_def std_acos_def R_def cos_arccos split: if_splits)
  have tr: "trace3 R = 2 * cos \<theta> + 1"
    using c by simp
  have s: "sin \<theta> > 0" using pos lt by (simp add: sin_gt_zero)
  have sc: "sin \<theta> * sin \<theta> = 1 - cos \<theta> * cos \<theta>"
    using sin_cos_squared_add [of \<theta>] by (simp add: power2_eq_square algebra_simps)
  have skewK: "skewSymmetric3 (vee K) = K"
    by (simp add: K_def S_def vee_scaleR skewSymmetric3_scaleR skewSymmetric3_vee)
  have "dot3 (vee S) (vee S) = (trace3 R + 1) * (3 - trace3 R)"
    unfolding S_def by (rule rotation_vee_norm [OF RR det])
  also have "\<dots> = 4 * (sin \<theta> * sin \<theta>)"
    by (simp add: tr sc algebra_simps)
  finally have dS: "dot3 (vee S) (vee S) = 4 * (sin \<theta> * sin \<theta>)" .
  have "dot3 (vee K) (vee K) = a * a * (4 * (sin \<theta> * sin \<theta>))"
    by (simp add: K_def vee_scaleR dot3_scaleR dS)
  also have "\<dots> = \<theta> * \<theta>"
    using s by (simp add: a_def)
  finally have dK: "dot3 (vee K) (vee K) = \<theta> * \<theta>" .
  have n: "norm3 (vee K) = \<theta>"
    using pos by (simp add: norm3_def dK)
  have hw: "head3 w = vee K" and tw: "tail3 w = mv3 Vinv (translation T)"
    by (simp_all add: w_def)
  have nw: "norm3 (head3 w) = \<theta>" by (simp add: hw n)
  have TOLw: "TOL < norm3 (head3 w)" using tol(2) by (simp add: nw)
  have AK: "(sin \<theta> / \<theta>) *\<^sub>R K = (1 / 2) *\<^sub>R S"
    using s pos by (simp add: K_def a_def)
  have SS: "S * S = (trace3 R + 1) *\<^sub>R (R + transpose3 R - 1 - 1)"
    unfolding S_def by (rule rotation_antisym_square [OF RR det])
  have cne: "1 + cos \<theta> \<noteq> 0"
    using cos_monotone_0_pi [of \<theta> pi] pos lt by simp
  have "((1 - cos \<theta>) / (\<theta> * \<theta>)) *\<^sub>R K * K
       = (((1 - cos \<theta>) / (\<theta> * \<theta>)) * (a * a) * (trace3 R + 1)) *\<^sub>R (R + transpose3 R - 1 - 1)"
    by (simp only: K_def mult_scaleR_left mult_scaleR_right scaleR_scaleR SS mult.assoc
        mult.left_commute mult.commute)
  also have "((1 - cos \<theta>) / (\<theta> * \<theta>)) * (a * a) * (trace3 R + 1) = 1 / 2"
  proof -
    have "((1 - cos \<theta>) / (\<theta> * \<theta>)) * (a * a) * (trace3 R + 1)
        = ((1 - cos \<theta>) * (2 * cos \<theta> + 2)) / (4 * (sin \<theta> * sin \<theta>))"
      using s pos by (simp add: a_def tr field_simps)
    also have "(1 - cos \<theta>) * (2 * cos \<theta> + 2) = 2 * (sin \<theta> * sin \<theta>)"
      by (simp add: sc algebra_simps)
    also have "2 * (sin \<theta> * sin \<theta>) / (4 * (sin \<theta> * sin \<theta>)) = 1 / 2"
      using s by simp
    finally show ?thesis .
  qed
  finally have BKK: "((1 - cos \<theta>) / (\<theta> * \<theta>)) *\<^sub>R K * K
       = (1 / 2) *\<^sub>R (R + transpose3 R - 1 - 1)" .
  have rot: "mat4_block33 (expMap False w TOL) = rotation T"
    unfolding expMap_exact(1) [OF TOLw] hw n skewK AK BKK S_def
    by (simp only: half_sum R_def)
  have VV: "(1 + ((1 - cos \<theta>) / (\<theta> * \<theta>)) *\<^sub>R K + ((1 - sin \<theta> / \<theta>) / (\<theta> * \<theta>)) *\<^sub>R K * K)
          * (1 - (1 / 2) *\<^sub>R K + Dc *\<^sub>R K * K) = 1"
    unfolding Dc_def
    by (rule V_Vinv(2) [OF n [symmetric] skewK [symmetric] pos lt])
  have tra: "mat4_block31 (expMap False w TOL) = translation T"
    unfolding expMap_exact(2) [OF TOLw] hw n skewK tw Vinv_def
    by (simp only: mv3_mult [symmetric] VV mv3_one)
  show ?thesis
    using lw rot tra by blast
qed

section \<open>Zero rotation angle\<close>

lemma sq_le_one: "x * x \<le> 1 \<Longrightarrow> x \<le> (1::real)"
  using power2_le_imp_le [of x 1] by (simp add: power2_eq_square)

lemma sq_sum_zero: "x * x + y * y = 0 \<Longrightarrow> x = 0 \<and> y = (0::real)"
  using sum_power2_eq_zero_iff [of x y] by (simp add: power2_eq_square)

lemma rotation_trace_le:
  assumes "R * transpose3 R = 1"
  shows "trace3 R \<le> 3" and "3 \<le> trace3 R \<Longrightarrow> R = 1"
proof -
  obtain a b c d e f g h i where R: "R = Mat3 (Vec3 a b c) (Vec3 d e f) (Vec3 g h i)"
    by (rule mat3_exhaust)
  have r0: "a * a + b * b + c * c = 1" and r1: "d * d + e * e + f * f = 1"
    and r2: "g * g + h * h + i * i = 1"
    using assms by (simp_all add: R one_mat3_def)
  have "a * a \<le> 1" using r0 zero_le_square [of b] zero_le_square [of c] by linarith
  then have a: "a \<le> 1" by (rule sq_le_one)
  have "e * e \<le> 1" using r1 zero_le_square [of d] zero_le_square [of f] by linarith
  then have e: "e \<le> 1" by (rule sq_le_one)
  have "i * i \<le> 1" using r2 zero_le_square [of g] zero_le_square [of h] by linarith
  then have i: "i \<le> 1" by (rule sq_le_one)
  show "trace3 R \<le> 3" using a e i by (simp add: R)
  assume "3 \<le> trace3 R"
  then have "a = 1" "e = 1" "i = 1" using a e i by (simp_all add: R)
  then have "b * b + c * c = 0" "d * d + f * f = 0" "g * g + h * h = 0"
    using r0 r1 r2 by simp_all
  then have "b = 0" "c = 0" "d = 0" "f = 0" "g = 0" "h = 0"
    using sq_sum_zero by blast+
  then show "R = 1" using \<open>a = 1\<close> \<open>e = 1\<close> \<open>i = 1\<close> by (simp add: R one_mat3_def)
qed

lemma norm3_zero: "norm3 v = 0 \<Longrightarrow> v = 0"
proof (cases v)
  case (Vec3 a b c)
  assume "norm3 v = 0"
  then have "a * a + b * b + c * c = 0" by (simp add: Vec3 norm3_def)
  then have "a\<^sup>2 + b\<^sup>2 + c\<^sup>2 = 0" by (simp add: power2_eq_square)
  then have "a = 0 \<and> b = 0 \<and> c = 0"
    by (simp add: sum_power2_eq_zero_iff add_nonneg_eq_0_iff)
  then show ?thesis by (simp add: Vec3 zero_vec3_def)
qed

lemma skewSymmetric3_zero: "skewSymmetric3 0 = 0"
  by (simp add: skewSymmetric3_def zero_vec3_def zero_mat3_def)

lemma norm3_zero_vec: "norm3 0 = 0"
  by (simp add: norm3_def zero_vec3_def)

lemma expMap_zero_rotation:
  assumes "head3 w = 0" "0 \<le> TOL"
  shows "mat4_block33 (expMap False w TOL) = 1" "mat4_block31 (expMap False w TOL) = tail3 w"
  using assms by (simp_all add: expMap_def Let_def norm3_zero_vec skewSymmetric3_zero mv3_one)

lemma coeff33_zero: "coeff33 0 i j = 0"
  by (simp add: coeff33_def zero_mat3_def zero_vec3_def)

lemma Vec3_zero: "Vec3 0 0 0 = 0"
  by (simp add: zero_vec3_def)

lemma logMap_identity_rotation:
  assumes "rotation T = 1" "0 \<le> tolerance"
  shows "logMap False tolerance T = Some (vec6_of_blocks 0 (translation T))"
proof -
  have wn: "logMap_wn T = Some 0"
    using assms by (simp add: logMap_wn_def std_acos_def trace3_one)
  show ?thesis
    using assms
    by (simp add: logMap_def wn Let_def transpose3_one coeff33_zero mv3_one Vec3_zero)
qed

section \<open>The round trips\<close>

lemma dot3_nonneg: "0 \<le> dot3 v v"
  by (cases v) simp

lemma valid_logMap_wn:
  assumes "valid T"
  shows "logMap_wn T = Some (rotation_angle T)"
    and "- 1 \<le> (trace3 (rotation T) - 1) / 2" and "(trace3 (rotation T) - 1) / 2 \<le> 1"
proof -
  have RR: "rotation T * transpose3 (rotation T) = 1" and det: "det3 (rotation T) = 1"
    using assms by (simp_all add: valid_def)
  have le: "trace3 (rotation T) \<le> 3"
    by (rule rotation_trace_le(1) [OF RR])
  have "0 \<le> (trace3 (rotation T) + 1) * (3 - trace3 (rotation T))"
    using dot3_nonneg [of "vee (rotation T - transpose3 (rotation T))"]
    by (simp only: rotation_vee_norm [OF RR det])
  then have ge: "- 1 \<le> trace3 (rotation T)"
    using le by (cases "trace3 (rotation T) = 3") (simp_all add: zero_le_mult_iff)
  show "- 1 \<le> (trace3 (rotation T) - 1) / 2" using ge by simp
  show "(trace3 (rotation T) - 1) / 2 \<le> 1" using le by simp
  show "logMap_wn T = Some (rotation_angle T)"
    using le ge by (simp add: logMap_wn_def std_acos_def rotation_angle_def)
qed

lemma logMap_expMap_round_trip:
  assumes "0 \<le> TOL" "0 \<le> tolerance"
    and "norm3 (head3 w) = 0
         \<or> (TOL < norm3 (head3 w) \<and> tolerance < norm3 (head3 w) \<and> norm3 (head3 w) < pi)"
  shows "logMap False tolerance
           \<lparr>rotation = mat4_block33 (expMap False w TOL),
            translation = mat4_block31 (expMap False w TOL)\<rparr> = Some w"
  using assms(3)
proof
  assume "norm3 (head3 w) = 0"
  then have h: "head3 w = 0" by (rule norm3_zero)
  have "vec6_of_blocks 0 (tail3 w) = w"
    using vec6_of_blocks_head_tail [of w] by (simp add: h)
  then show ?thesis
    using logMap_identity_rotation
      [of "\<lparr>rotation = mat4_block33 (expMap False w TOL),
            translation = mat4_block31 (expMap False w TOL)\<rparr>" tolerance]
    by (simp add: expMap_zero_rotation [OF h assms(1)] assms(2))
next
  assume a: "TOL < norm3 (head3 w) \<and> tolerance < norm3 (head3 w) \<and> norm3 (head3 w) < pi"
  then have "0 < norm3 (head3 w)" using assms(1) by simp
  then show ?thesis
    using a by (simp add: logMap_expMap_exact)
qed

lemma expMap_logMap_round_trip:
  assumes "0 \<le> TOL" "0 \<le> tolerance" and v: "valid T"
    and "rotation_angle T = 0
         \<or> (TOL < rotation_angle T \<and> tolerance < rotation_angle T \<and> rotation_angle T < pi)"
  shows "\<exists>w. logMap False tolerance T = Some w
             \<and> mat4_block33 (expMap False w TOL) = rotation T
             \<and> mat4_block31 (expMap False w TOL) = translation T"
  using assms(4)
proof
  assume z: "rotation_angle T = 0"
  have RR: "rotation T * transpose3 (rotation T) = 1"
    using v by (simp add: valid_def)
  have "cos (rotation_angle T) = (trace3 (rotation T) - 1) / 2"
    unfolding rotation_angle_def
    by (rule cos_arccos [OF valid_logMap_wn(2) [OF v] valid_logMap_wn(3) [OF v]])
  then have "3 \<le> trace3 (rotation T)" by (simp add: z)
  then have R: "rotation T = 1" by (rule rotation_trace_le(2) [OF RR])
  have l: "logMap False tolerance T = Some (vec6_of_blocks 0 (translation T))"
    by (rule logMap_identity_rotation [OF R assms(2)])
  show ?thesis
    using l expMap_zero_rotation [of "vec6_of_blocks 0 (translation T)" TOL] assms(1) R
    by simp
next
  assume a: "TOL < rotation_angle T \<and> tolerance < rotation_angle T \<and> rotation_angle T < pi"
  then have "0 < rotation_angle T" using assms(1) by simp
  then show ?thesis
    using a expMap_logMap_exact [OF v valid_logMap_wn(1) [OF v], of tolerance TOL] by simp
qed

lemma Transformation_eta [simp]: "\<lparr>rotation = rotation X, translation = translation X\<rparr> = X"
  by (cases X) simp

lemma manifoldPlus_compose:
  "manifoldPlus approximate TOL w T =
     compose \<lparr>rotation = mat4_block33 (expMap approximate w TOL),
              translation = mat4_block31 (expMap approximate w TOL)\<rparr> T"
  by (cases T) (simp add: manifoldPlus_def compose_def Let_def)

lemma valid_compose_inverse:
  assumes "valid A" "valid B"
  shows "valid (compose A (inverse_tf B))"
proof -
  have A: "rotation A * transpose3 (rotation A) = 1" "det3 (rotation A) = 1"
    and B: "rotation B * transpose3 (rotation B) = 1" "det3 (rotation B) = 1"
    using assms by (simp_all add: valid_def)
  have r: "rotation (compose A (inverse_tf B)) = rotation A * transpose3 (rotation B)"
    by (simp add: compose_def inverse_tf_def invert_def)
  have "rotation A * transpose3 (rotation B) * transpose3 (rotation A * transpose3 (rotation B))
      = rotation A * (transpose3 (rotation B) * rotation B) * transpose3 (rotation A)"
    by (simp add: transpose3_mult transpose3_transpose3 mult.assoc)
  also have "\<dots> = 1"
    by (simp add: rotation_transpose_mult [OF B] A)
  finally show ?thesis
    by (simp add: valid_def r det3_mult det3_transpose3 A B)
qed

lemma compose_inverse_cancel:
  assumes "valid B"
  shows "compose (compose A (inverse_tf B)) B = A"
proof -
  have B: "rotation B * transpose3 (rotation B) = 1" "det3 (rotation B) = 1"
    using assms by (simp_all add: valid_def)
  have tB: "transpose3 (rotation B) * rotation B = 1"
    by (rule rotation_transpose_mult [OF B])
  have r: "rotation A * transpose3 (rotation B) * rotation B = rotation A"
    by (simp add: mult.assoc tB)
  have t: "mv3 (rotation A * transpose3 (rotation B)) (translation B)
          + (mv3 (rotation A) (mv3 (- transpose3 (rotation B)) (translation B)) + translation A)
        = translation A"
    by (simp add: mv3_mult mv3_minus_left mv3_add [symmetric] mv3_zero)
  show ?thesis
    by (rule Transformation.equality) (simp_all add: compose_def inverse_tf_def invert_def r t)
qed

lemma manifold_round_trip:
  assumes "0 \<le> TOL" "0 \<le> tol" "valid T" "valid T'"
    and "rotation_angle (compose T' (inverse_tf T)) = 0
         \<or> (TOL < rotation_angle (compose T' (inverse_tf T))
            \<and> tol < rotation_angle (compose T' (inverse_tf T))
            \<and> rotation_angle (compose T' (inverse_tf T)) < pi)"
  shows "\<exists>w. manifoldMinus False tol T' T = Some w \<and> manifoldPlus False TOL w T = T'"
proof -
  have v: "valid (compose T' (inverse_tf T))"
    by (rule valid_compose_inverse [OF assms(4,3)])
  obtain w where w: "logMap False tol (compose T' (inverse_tf T)) = Some w"
    "mat4_block33 (expMap False w TOL) = rotation (compose T' (inverse_tf T))"
    "mat4_block31 (expMap False w TOL) = translation (compose T' (inverse_tf T))"
    using expMap_logMap_round_trip [OF assms(1,2) v assms(5)] by blast
  have "manifoldPlus False TOL w T = compose (compose T' (inverse_tf T)) T"
    by (simp add: manifoldPlus_compose w(2,3))
  then have "manifoldPlus False TOL w T = T'"
    by (simp add: compose_inverse_cancel [OF assms(3)])
  then show ?thesis
    using w(1) by (simp add: manifoldMinus_def)
qed

lemma quarter_turn_valid:
  "valid \<lparr>rotation = Mat3 (Vec3 0 (- 1) 0) (Vec3 1 0 0) (Vec3 0 0 1), translation = t\<rparr>"
  by (simp add: valid_def one_mat3_def)

lemma quarter_turn_angle:
  "rotation_angle \<lparr>rotation = Mat3 (Vec3 0 (- 1) 0) (Vec3 1 0 0) (Vec3 0 0 1), translation = t\<rparr>
     = pi / 2"
  by (simp add: rotation_angle_def)

lemma pi_bounds: "1 / 100000 < pi / 2" "1 / 10000 < pi / 2" "pi / 2 < pi" "1 < pi"
  using pi_ge_two by simp_all

lemma vec6_of_blocks_zero: "vec6_of_blocks 0 0 = 0"
  by (simp add: zero_vec3_def zero_vec6_def)

lemma logMap_symmetric_rotation:
  assumes "transpose3 (rotation T) = rotation T" "translation T = 0" "logMap_wn T = Some wn"
  shows "logMap False tolerance T = Some 0"
  using assms
  by (simp add: logMap_def Let_def coeff33_zero mv3_zero Vec3_zero vec6_of_blocks_zero
      split: prod.splits)

text \<open>
  Claim C2 as stated fails for a valid element whose rotation angle is \<open>\<pi>\<close>.  The half
  turn about the first axis, \<open>R = diag(1, -1, -1)\<close>, is orthonormal with determinant 1.
  \<open>logMap\<close> finds the angle \<open>\<pi>\<close> and scales \<open>R - R\<^sup>T\<close>, which is the zero matrix, by
  \<open>\<pi> / (2 sin \<pi>)\<close>: whatever that factor is, the rotational part of the twist is zero
  (the lemma before is for any angle found).  \<open>expMap\<close> of the zero twist has the
  identity as rotation block, which differs from \<open>R\<close> by 2 in two coefficients.
\<close>

theorem exp_log_half_turn:
  "valid \<lparr>rotation = Mat3 (Vec3 1 0 0) (Vec3 0 (- 1) 0) (Vec3 0 0 (- 1)), translation = 0\<rparr>
   \<and> rotation_angle
        \<lparr>rotation = Mat3 (Vec3 1 0 0) (Vec3 0 (- 1) 0) (Vec3 0 0 (- 1)), translation = 0\<rparr> = pi
   \<and> logMap False (1 / 10000)
        \<lparr>rotation = Mat3 (Vec3 1 0 0) (Vec3 0 (- 1) 0) (Vec3 0 0 (- 1)), translation = 0\<rparr> = Some 0
   \<and> mat4_block33 (expMap False 0 (1 / 100000)) = Mat3 (Vec3 1 0 0) (Vec3 0 1 0) (Vec3 0 0 1)
   \<and> mat4_block33 (expMap False 0 (1 / 100000))
        \<noteq> rotation \<lparr>rotation = Mat3 (Vec3 1 0 0) (Vec3 0 (- 1) 0) (Vec3 0 0 (- 1)), translation = 0\<rparr>"
proof -
  have wn: "logMap_wn \<lparr>rotation = Mat3 (Vec3 1 0 0) (Vec3 0 (- 1) 0) (Vec3 0 0 (- 1)), translation = 0\<rparr>
      = Some pi"
    by (simp add: logMap_wn_def std_acos_def)
  have l: "logMap False (1 / 10000)
        \<lparr>rotation = Mat3 (Vec3 1 0 0) (Vec3 0 (- 1) 0) (Vec3 0 0 (- 1)), translation = 0\<rparr> = Some 0"
    by (rule logMap_symmetric_rotation [OF _ _ wn]) simp_all
  have e: "mat4_block33 (expMap False 0 (1 / 100000)) = Mat3 (Vec3 1 0 0) (Vec3 0 1 0) (Vec3 0 0 1)"
    using expMap_zero_rotation(1) [of 0 "1 / 100000"]
    by (simp add: zero_vec6_def zero_vec3_def one_mat3_def)
  show ?thesis
    by (simp add: l e valid_def one_mat3_def rotation_angle_def)
qed

section \<open>Small angles: bounds for the truncated series\<close>

subsection \<open>Bounds on sine and cosine\<close>

lemma cos_ge_quadratic: "1 - x * x / 2 \<le> cos (x::real)"
proof -
  have "\<bar>sin (x / 2)\<bar> \<le> \<bar>x / 2\<bar>" by (rule abs_sin_x_le_abs_x)
  then have "(sin (x / 2))\<^sup>2 \<le> (x / 2)\<^sup>2" by (simp only: abs_le_square_iff)
  moreover have "cos x = 1 - 2 * (sin (x / 2))\<^sup>2"
    using cos_double_sin [of "x / 2"] by simp
  ultimately show ?thesis by (simp add: power2_eq_square)
qed

lemma sin_ge_cubic:
  assumes "0 \<le> (x::real)"
  shows "x - x * x * x / 6 \<le> sin x"
proof -
  have "(\<lambda>t. sin t - t + t * t * t / 6) 0 \<le> (\<lambda>t. sin t - t + t * t * t / 6) x"
  proof (rule DERIV_nonneg_imp_nondecreasing [OF assms])
    fix t :: real
    have "((\<lambda>t. sin t - t + t * t * t / 6) has_real_derivative (cos t - 1 + t * t / 2)) (at t)"
      by (auto intro!: derivative_eq_intros simp: field_simps)
    moreover have "0 \<le> cos t - 1 + t * t / 2"
      using cos_ge_quadratic [of t] by simp
    ultimately show "\<exists>y. ((\<lambda>t. sin t - t + t * t * t / 6) has_real_derivative y) (at t) \<and> 0 \<le> y"
      by blast
  qed
  then show ?thesis by simp
qed

lemma cos_le_quartic:
  assumes "0 \<le> (x::real)"
  shows "cos x \<le> 1 - x * x / 2 + x * x * x * x / 24"
proof -
  have "(\<lambda>t. 1 - t * t / 2 + t * t * t * t / 24 - cos t) 0
        \<le> (\<lambda>t. 1 - t * t / 2 + t * t * t * t / 24 - cos t) x"
  proof (rule DERIV_nonneg_imp_nondecreasing [OF assms])
    fix t :: real
    assume t: "0 \<le> t"
    have "((\<lambda>t. 1 - t * t / 2 + t * t * t * t / 24 - cos t) has_real_derivative
             (sin t - t + t * t * t / 6)) (at t)"
      by (auto intro!: derivative_eq_intros simp: field_simps)
    moreover have "0 \<le> sin t - t + t * t * t / 6"
      using sin_ge_cubic [OF t] by simp
    ultimately show "\<exists>y. ((\<lambda>t. 1 - t * t / 2 + t * t * t * t / 24 - cos t) has_real_derivative y) (at t)
        \<and> 0 \<le> y"
      by blast
  qed
  then show ?thesis by simp
qed

subsection \<open>The Euclidean norm of a 3-vector\<close>

lemma norm3_nonneg: "0 \<le> norm3 v"
  by (simp add: norm3_def dot3_nonneg)

lemma dot3_cross:
  "dot3 (mv3 (skewSymmetric3 u) v) (mv3 (skewSymmetric3 u) v)
     = dot3 u u * dot3 v v - dot3 u v * dot3 u v"
  by (cases u; cases v) (simp add: skewSymmetric3_def algebra_simps)

lemma dot3_cauchy: "dot3 a b \<le> norm3 a * norm3 b"
proof -
  have "dot3 a b * dot3 a b \<le> dot3 a a * dot3 b b"
    using dot3_nonneg [of "mv3 (skewSymmetric3 a) b"] unfolding dot3_cross by simp
  then have "sqrt (dot3 a b * dot3 a b) \<le> sqrt (dot3 a a * dot3 b b)"
    by (rule real_sqrt_le_mono)
  then have "\<bar>dot3 a b\<bar> \<le> norm3 a * norm3 b"
    by (simp add: norm3_def real_sqrt_mult)
  then show ?thesis by simp
qed

lemma dot3_add:
  "dot3 (a + b) (a + b) = dot3 a a + 2 * dot3 a b + dot3 b b"
  by (cases a; cases b) (simp add: algebra_simps)

lemma norm3_triangle: "norm3 (a + b) \<le> norm3 a + norm3 b"
proof -
  have "dot3 (a + b) (a + b) \<le> norm3 a * norm3 a + 2 * (norm3 a * norm3 b) + norm3 b * norm3 b"
    unfolding dot3_add norm3_mult_self using dot3_cauchy [of a b] by simp
  also have "\<dots> = (norm3 a + norm3 b)\<^sup>2"
    by (simp add: power2_eq_square algebra_simps)
  finally have "sqrt (dot3 (a + b) (a + b)) \<le> sqrt ((norm3 a + norm3 b)\<^sup>2)"
    by (rule real_sqrt_le_mono)
  then show ?thesis
    using norm3_nonneg [of a] norm3_nonneg [of b] by (simp add: norm3_def)
qed

lemma norm3_scaleR: "norm3 (k *\<^sub>R v) = \<bar>k\<bar> * norm3 v"
proof -
  have "norm3 (k *\<^sub>R v) = sqrt (k * k * dot3 v v)"
    by (simp add: norm3_def dot3_scaleR)
  also have "\<dots> = \<bar>k\<bar> * norm3 v"
    by (simp add: norm3_def real_sqrt_mult)
  finally show ?thesis .
qed

lemma norm3_minus: "norm3 (- v) = norm3 v"
  by (cases v) (simp add: norm3_def)

lemma norm3_cross: "norm3 (mv3 (skewSymmetric3 u) v) \<le> norm3 u * norm3 v"
proof -
  have "dot3 (mv3 (skewSymmetric3 u) v) (mv3 (skewSymmetric3 u) v) \<le> dot3 u u * dot3 v v"
    unfolding dot3_cross using zero_le_square [of "dot3 u v"] by simp
  then have "sqrt (dot3 (mv3 (skewSymmetric3 u) v) (mv3 (skewSymmetric3 u) v))
      \<le> sqrt (dot3 u u * dot3 v v)"
    by (rule real_sqrt_le_mono)
  then show ?thesis
    by (simp add: norm3_def real_sqrt_mult)
qed

lemma mv3_add_left: "mv3 (A + B) v = mv3 A v + mv3 B v"
  by (cases A rule: mat3_exhaust; cases B rule: mat3_exhaust; cases v) (simp add: algebra_simps)

lemma mv3_diff_left: "mv3 (A - B) v = mv3 A v - mv3 B v"
  by (cases A rule: mat3_exhaust; cases B rule: mat3_exhaust; cases v) (simp add: algebra_simps)

lemma mv3_scaleR_left: "mv3 (k *\<^sub>R A) v = k *\<^sub>R mv3 A v"
  by (cases A rule: mat3_exhaust; cases v) (simp add: algebra_simps)

lemma norm3_skew_poly:
  fixes u v :: vec3
  defines "K \<equiv> skewSymmetric3 u"
  shows "norm3 (mv3 (p *\<^sub>R K + q *\<^sub>R K * K) v)
           \<le> (\<bar>p\<bar> * norm3 u + \<bar>q\<bar> * (norm3 u * norm3 u)) * norm3 v"
proof -
  have k1: "norm3 (mv3 K v) \<le> norm3 u * norm3 v"
    unfolding K_def by (rule norm3_cross)
  have "norm3 (mv3 K (mv3 K v)) \<le> norm3 u * norm3 (mv3 K v)"
    unfolding K_def by (rule norm3_cross)
  also have "\<dots> \<le> norm3 u * (norm3 u * norm3 v)"
    by (rule mult_left_mono [OF k1 norm3_nonneg])
  finally have k2: "norm3 (mv3 K (mv3 K v)) \<le> norm3 u * norm3 u * norm3 v"
    by (simp add: mult.assoc)
  have "mv3 (p *\<^sub>R K + q *\<^sub>R K * K) v = p *\<^sub>R mv3 K v + q *\<^sub>R mv3 K (mv3 K v)"
    by (simp add: mv3_add_left mv3_scaleR_left mv3_mult)
  then have "norm3 (mv3 (p *\<^sub>R K + q *\<^sub>R K * K) v)
      \<le> \<bar>p\<bar> * norm3 (mv3 K v) + \<bar>q\<bar> * norm3 (mv3 K (mv3 K v))"
    using norm3_triangle [of "p *\<^sub>R mv3 K v" "q *\<^sub>R mv3 K (mv3 K v)"]
    by (simp add: norm3_scaleR)
  also have "\<dots> \<le> \<bar>p\<bar> * (norm3 u * norm3 v) + \<bar>q\<bar> * (norm3 u * norm3 u * norm3 v)"
    by (intro add_mono mult_left_mono k1 k2) simp_all
  finally show ?thesis by (simp add: algebra_simps)
qed

subsection \<open>Bounds on the coefficients of the two maps\<close>

lemma sin_pos_small:
  assumes "0 < (x::real)" "x \<le> 1"
  shows "0 < sin x"
proof -
  have "x * x \<le> 1" using assms mult_le_one [of x x] by simp
  then have "0 < x * (1 - x * x / 6)" using assms by (intro mult_pos_pos) simp_all
  also have "\<dots> = x - x * x * x / 6" by (simp add: algebra_simps)
  also have "\<dots> \<le> sin x" using assms by (intro sin_ge_cubic) simp
  finally show ?thesis .
qed

lemma exp_coeff_A:
  assumes "0 < (x::real)" "x \<le> 1"
  shows "1 - x * x / 5 \<le> sin x / x" "sin x / x \<le> 1"
proof -
  have s1: "x - x * x * x / 6 \<le> sin x" using assms by (intro sin_ge_cubic) simp
  have s2: "sin x \<le> x" using assms by (intro sin_x_le_x) simp
  have c: "0 \<le> x * x * x" using assms by simp
  have "(1 - x * x / 5) * x \<le> sin x"
    using s1 c by (simp add: algebra_simps)
  then show "1 - x * x / 5 \<le> sin x / x"
    using assms by (simp add: pos_le_divide_eq)
  show "sin x / x \<le> 1"
    using s2 assms by (simp add: pos_divide_le_eq)
qed

lemma exp_coeff_B:
  assumes "0 < (x::real)" "x \<le> 1"
  shows "1 / 2 - x * x / 20 \<le> (1 - cos x) / (x * x)" "(1 - cos x) / (x * x) \<le> 1 / 2"
proof -
  have xx: "0 < x * x" using assms by simp
  have c1: "1 - x * x / 2 \<le> cos x" by (rule cos_ge_quadratic)
  have c2: "cos x \<le> 1 - x * x / 2 + x * x * x * x / 24" using assms by (intro cos_le_quartic) simp
  have q: "0 \<le> x * x * x * x" using assms by simp
  have "(1 / 2 - x * x / 20) * (x * x) \<le> 1 - cos x"
    using c2 q by (simp add: algebra_simps)
  then show "1 / 2 - x * x / 20 \<le> (1 - cos x) / (x * x)"
    using xx by (simp only: pos_le_divide_eq)
  have "1 - cos x \<le> 1 / 2 * (x * x)" using c1 by simp
  then show "(1 - cos x) / (x * x) \<le> 1 / 2"
    using xx by (simp only: pos_divide_le_eq)
qed

lemma exp_coeff_C:
  assumes "0 < (x::real)" "x \<le> 1"
  shows "0 \<le> (1 - sin x / x) / (x * x)" "(1 - sin x / x) / (x * x) \<le> 1 / 5"
proof -
  have xx: "0 < x * x" using assms by simp
  have a: "1 - x * x / 5 \<le> sin x / x" "sin x / x \<le> 1"
    using exp_coeff_A [OF assms] by simp_all
  show "0 \<le> (1 - sin x / x) / (x * x)"
    using a(2) xx by simp
  have "1 - sin x / x \<le> 1 / 5 * (x * x)" using a(1) by simp
  then show "(1 - sin x / x) / (x * x) \<le> 1 / 5"
    using xx by (simp only: pos_divide_le_eq)
qed

lemma exp_coeff_series:
  assumes "0 \<le> (x::real)" "x \<le> 1"
  shows "1 - x * x / 5 \<le> 1.0 - 0.16666666666666667 * (x * x)
                        + 0.00833333333333333333 * (x * x * x * x)"
    and "1.0 - 0.16666666666666667 * (x * x) + 0.00833333333333333333 * (x * x * x * x) \<le> 1"
    and "1 / 2 - x * x / 20 \<le> 0.5 - 0.04166666666666666667 * (x * x)
                        + 0.00138888888888888888889 * (x * x * x * x)"
    and "0.5 - 0.04166666666666666667 * (x * x)
                        + 0.00138888888888888888889 * (x * x * x * x) \<le> 1 / 2"
    and "0 \<le> 0.16666666666666667 - 0.00833333333333333333 * (x * x)
                        + 0.0001984126984126984 * (x * x * x * x)"
    and "0.16666666666666667 - 0.00833333333333333333 * (x * x)
                        + 0.0001984126984126984 * (x * x * x * x) \<le> 1 / 5"
proof -
  define y where "y = x * x"
  define z where "z = x * x * x * x"
  have y: "0 \<le> y" "y \<le> 1" using assms mult_le_one [of x x] by (simp_all add: y_def)
  have "0 \<le> y * y" "y * y \<le> y" using y mult_left_le [of y y] by simp_all
  then have z: "0 \<le> z" "z \<le> y" by (simp_all add: y_def z_def mult.assoc)
  show "1 - x * x / 5 \<le> 1.0 - 0.16666666666666667 * (x * x)
                        + 0.00833333333333333333 * (x * x * x * x)"
    unfolding z_def [symmetric] unfolding y_def [symmetric] using y z by simp
  show "1.0 - 0.16666666666666667 * (x * x) + 0.00833333333333333333 * (x * x * x * x) \<le> 1"
    unfolding z_def [symmetric] unfolding y_def [symmetric] using y z by simp
  show "1 / 2 - x * x / 20 \<le> 0.5 - 0.04166666666666666667 * (x * x)
                        + 0.00138888888888888888889 * (x * x * x * x)"
    unfolding z_def [symmetric] unfolding y_def [symmetric] using y z by simp
  show "0.5 - 0.04166666666666666667 * (x * x)
                        + 0.00138888888888888888889 * (x * x * x * x) \<le> 1 / 2"
    unfolding z_def [symmetric] unfolding y_def [symmetric] using y z by simp
  show "0 \<le> 0.16666666666666667 - 0.00833333333333333333 * (x * x)
                        + 0.0001984126984126984 * (x * x * x * x)"
    unfolding z_def [symmetric] unfolding y_def [symmetric] using y z by simp
  show "0.16666666666666667 - 0.00833333333333333333 * (x * x)
                        + 0.0001984126984126984 * (x * x * x * x) \<le> 1 / 5"
    unfolding z_def [symmetric] unfolding y_def [symmetric] using y z by simp
qed

lemma log_coeff_A:
  assumes "0 < (x::real)" "x \<le> 1"
  shows "1 \<le> 2 * (x / (2 * sin x))" "2 * (x / (2 * sin x)) \<le> 1 + x * x / 5"
proof -
  have s: "0 < sin x" by (rule sin_pos_small [OF assms])
  have s1: "x - x * x * x / 6 \<le> sin x" using assms by (intro sin_ge_cubic) simp
  have s2: "sin x \<le> x" using assms by (intro sin_x_le_x) simp
  have e: "2 * (x / (2 * sin x)) = x / sin x" by simp
  show "1 \<le> 2 * (x / (2 * sin x))"
    unfolding e using s s2 by (simp add: pos_le_divide_eq)
  define y where "y = x * x"
  have y: "0 \<le> y" "y \<le> 1" using assms mult_le_one [of x x] by (simp_all add: y_def)
  have yy: "y * y \<le> y" using y mult_left_le [of y y] by simp
  have "1 \<le> (1 + y / 5) * (1 - y / 6)"
    using y yy by (simp add: algebra_simps)
  then have "x * 1 \<le> x * ((1 + y / 5) * (1 - y / 6))"
    using assms by (intro mult_left_mono) simp_all
  also have "\<dots> = (1 + y / 5) * (x - x * x * x / 6)"
    by (simp add: y_def field_simps)
  also have "\<dots> \<le> (1 + y / 5) * sin x"
    using s1 y by (intro mult_left_mono) simp_all
  finally have "x \<le> (1 + x * x / 5) * sin x" by (simp add: y_def)
  then show "2 * (x / (2 * sin x)) \<le> 1 + x * x / 5"
    unfolding e using s by (simp add: pos_divide_le_eq)
qed

lemma log_coeff_D:
  assumes "0 < (x::real)" "x \<le> 1"
  shows "\<bar>(1 / (x * x)) * (1 - (1 / (4 * (x / (2 * sin x)) * ((1 - cos x) / (x * x)))))\<bar> \<le> 1 / 5"
proof -
  have s: "0 < sin x" by (rule sin_pos_small [OF assms])
  have s1: "x - x * x * x / 6 \<le> sin x" using assms by (intro sin_ge_cubic) simp
  have s2: "sin x \<le> x" using assms by (intro sin_x_le_x) simp
  have c1: "1 - x * x / 2 \<le> cos x" by (rule cos_ge_quadratic)
  have c2: "cos x \<le> 1 - x * x / 2 + x * x * x * x / 24" using assms by (intro cos_le_quartic) simp
  define y where "y = x * x"
  have y: "0 < y" "y \<le> 1" using assms mult_le_one [of x x] by (simp_all add: y_def)
  have yy: "0 \<le> y * y" "y * y \<le> y" using y mult_left_le [of y y] by simp_all
  have yyy: "0 \<le> y * y * y" "y * y * y \<le> y * y"
    using y yy mult_left_le [of y "y * y"] by (simp_all add: mult.commute)
  define m where "m = 2 * (1 - cos x)"
  have m1: "m \<le> y" using c1 by (simp add: m_def y_def)
  have m2: "y - y * y / 12 \<le> m" using c2 by (simp add: m_def y_def algebra_simps)
  have mpos: "0 < m" using m2 y yy by linarith
  have xs1: "y - y * y / 6 \<le> x * sin x"
  proof -
    have "x * (x - x * x * x / 6) \<le> x * sin x"
      using s1 assms by (intro mult_left_mono) simp_all
    then show ?thesis by (simp add: y_def algebra_simps)
  qed
  have xs2: "x * sin x \<le> y"
    using mult_left_mono [OF s2, of x] assms by (simp add: y_def)
  define q where "q = x * sin x / m"
  have e: "1 / (4 * (x / (2 * sin x)) * ((1 - cos x) / (x * x))) = q"
    using s assms mpos by (simp add: q_def m_def field_simps)
  have up: "x * sin x \<le> (1 + y / 5) * m"
  proof -
    have "y \<le> (1 + y / 5) * (y - y * y / 12)"
      using y yy yyy by (simp add: algebra_simps)
    also have "\<dots> \<le> (1 + y / 5) * m"
      using m2 y by (intro mult_left_mono) simp_all
    finally show ?thesis using xs2 by simp
  qed
  have lo: "(1 - y / 5) * m \<le> x * sin x"
  proof -
    have "(1 - y / 5) * m \<le> (1 - y / 5) * y"
      using m1 y by (intro mult_left_mono) simp_all
    also have "\<dots> \<le> y - y * y / 6"
      using yy by (simp add: algebra_simps)
    finally show ?thesis using xs1 by simp
  qed
  have q1: "q \<le> 1 + y / 5" using up mpos by (simp add: q_def pos_divide_le_eq)
  have q2: "1 - y / 5 \<le> q" using lo mpos by (simp add: q_def pos_le_divide_eq)
  have "\<bar>1 - q\<bar> \<le> y / 5" using q1 q2 by linarith
  then have "\<bar>1 - q\<bar> / y \<le> 1 / 5" using y by (simp add: pos_divide_le_eq)
  then show ?thesis
    unfolding e unfolding y_def [symmetric] using y by (simp add: abs_mult)
qed

lemma log_coeff_series:
  assumes "0 \<le> (x::real)" "x \<le> 1"
  shows "1 \<le> 2 * (0.5 + x * x / 12.0 + x * x * x * x * (7.0 / 720.0))"
    and "2 * (0.5 + x * x / 12.0 + x * x * x * x * (7.0 / 720.0)) \<le> 1 + x * x / 5"
proof -
  define y where "y = x * x"
  define z where "z = x * x * x * x"
  have y: "0 \<le> y" "y \<le> 1" using assms mult_le_one [of x x] by (simp_all add: y_def)
  have "0 \<le> y * y" "y * y \<le> y" using y mult_left_le [of y y] by simp_all
  then have z: "0 \<le> z" "z \<le> y" by (simp_all add: y_def z_def mult.assoc)
  show "1 \<le> 2 * (0.5 + x * x / 12.0 + x * x * x * x * (7.0 / 720.0))"
    unfolding z_def [symmetric] unfolding y_def [symmetric] using y z by simp
  show "2 * (0.5 + x * x / 12.0 + x * x * x * x * (7.0 / 720.0)) \<le> 1 + x * x / 5"
    unfolding z_def [symmetric] unfolding y_def [symmetric] using y z by simp
qed

subsection \<open>The two maps in coefficient form\<close>

lemma expMap_series:
  assumes "\<not> TOL < norm3 (head3 w)"
  shows "mat4_block33 (expMap False w TOL) =
           1 + (1.0 - 0.16666666666666667 * (norm3 (head3 w) * norm3 (head3 w))
                  + 0.00833333333333333333
                    * (norm3 (head3 w) * norm3 (head3 w) * norm3 (head3 w) * norm3 (head3 w)))
                 *\<^sub>R skewSymmetric3 (head3 w)
             + (0.5 - 0.04166666666666666667 * (norm3 (head3 w) * norm3 (head3 w))
                  + 0.00138888888888888888889
                    * (norm3 (head3 w) * norm3 (head3 w) * norm3 (head3 w) * norm3 (head3 w)))
                 *\<^sub>R skewSymmetric3 (head3 w) * skewSymmetric3 (head3 w)"
    and "mat4_block31 (expMap False w TOL) =
           mv3 (1 + (0.5 - 0.04166666666666666667 * (norm3 (head3 w) * norm3 (head3 w))
                  + 0.00138888888888888888889
                    * (norm3 (head3 w) * norm3 (head3 w) * norm3 (head3 w) * norm3 (head3 w)))
                     *\<^sub>R skewSymmetric3 (head3 w)
                  + (0.16666666666666667 - 0.00833333333333333333 * (norm3 (head3 w) * norm3 (head3 w))
                  + 0.0001984126984126984
                    * (norm3 (head3 w) * norm3 (head3 w) * norm3 (head3 w) * norm3 (head3 w)))
                     *\<^sub>R skewSymmetric3 (head3 w) * skewSymmetric3 (head3 w)) (tail3 w)"
  using assms by (simp_all add: expMap_def Let_def)

lemma expMap_coeffs:
  fixes w :: vec6
  defines "n \<equiv> norm3 (head3 w)" and "K \<equiv> skewSymmetric3 (head3 w)"
  assumes "0 \<le> TOL" "n \<le> 1"
  obtains a b c where
    "mat4_block33 (expMap False w TOL) = 1 + a *\<^sub>R K + b *\<^sub>R K * K"
    "mat4_block31 (expMap False w TOL) = mv3 (1 + b *\<^sub>R K + c *\<^sub>R K * K) (tail3 w)"
    "1 - n * n / 5 \<le> a" "a \<le> 1" "1 / 2 - n * n / 20 \<le> b" "b \<le> 1 / 2" "0 \<le> c" "c \<le> 1 / 5"
proof (cases "TOL < n")
  case True
  then have pos: "0 < n" using assms(3) by simp
  show ?thesis
  proof (rule that)
    show "mat4_block33 (expMap False w TOL)
        = 1 + (sin n / n) *\<^sub>R K + ((1 - cos n) / (n * n)) *\<^sub>R K * K"
      using expMap_exact(1) [of TOL w] True by (simp add: n_def K_def)
    show "mat4_block31 (expMap False w TOL)
        = mv3 (1 + ((1 - cos n) / (n * n)) *\<^sub>R K + ((1 - sin n / n) / (n * n)) *\<^sub>R K * K) (tail3 w)"
      using expMap_exact(2) [of TOL w] True by (simp add: n_def K_def)
    show "1 - n * n / 5 \<le> sin n / n" "sin n / n \<le> 1"
      by (rule exp_coeff_A [OF pos assms(4)])+
    show "1 / 2 - n * n / 20 \<le> (1 - cos n) / (n * n)" "(1 - cos n) / (n * n) \<le> 1 / 2"
      by (rule exp_coeff_B [OF pos assms(4)])+
    show "0 \<le> (1 - sin n / n) / (n * n)" "(1 - sin n / n) / (n * n) \<le> 1 / 5"
      by (rule exp_coeff_C [OF pos assms(4)])+
  qed
next
  case False
  have n0: "0 \<le> n" by (simp add: n_def norm3_nonneg)
  show ?thesis
  proof (rule that)
    show "mat4_block33 (expMap False w TOL)
        = 1 + (1.0 - 0.16666666666666667 * (n * n) + 0.00833333333333333333 * (n * n * n * n)) *\<^sub>R K
            + (0.5 - 0.04166666666666666667 * (n * n) + 0.00138888888888888888889 * (n * n * n * n))
                *\<^sub>R K * K"
      using expMap_series(1) [of TOL w] False unfolding n_def K_def by blast
    show "mat4_block31 (expMap False w TOL)
        = mv3 (1 + (0.5 - 0.04166666666666666667 * (n * n)
                      + 0.00138888888888888888889 * (n * n * n * n)) *\<^sub>R K
                 + (0.16666666666666667 - 0.00833333333333333333 * (n * n)
                      + 0.0001984126984126984 * (n * n * n * n)) *\<^sub>R K * K) (tail3 w)"
      using expMap_series(2) [of TOL w] False unfolding n_def K_def by blast
  qed (rule exp_coeff_series [OF n0 assms(4)])+
qed

lemma logMap_series:
  assumes "logMap_wn T = Some wn" "\<not> tolerance < wn"
  shows "logMap False tolerance T =
     Some (vec6_of_blocks
            (vee ((0.5 + wn * wn / 12.0 + wn * wn * wn * wn * (7.0 / 720.0))
                    *\<^sub>R (rotation T - transpose3 (rotation T))))
            (mv3 (1 - 0.5 *\<^sub>R ((0.5 + wn * wn / 12.0 + wn * wn * wn * wn * (7.0 / 720.0))
                                  *\<^sub>R (rotation T - transpose3 (rotation T))))
                 (translation T)))"
  by (simp only: logMap_def assms option.case Let_def if_False if_True split_conv vee_def)

lemma logMap_coeffs:
  fixes T :: Transformation
  defines "N \<equiv> rotation T - transpose3 (rotation T)"
  assumes "logMap_wn T = Some wn" "0 \<le> wn" "wn \<le> 1" "0 \<le> tolerance"
  obtains A d where
    "logMap False tolerance T =
       Some (vec6_of_blocks (vee (A *\<^sub>R N))
              (mv3 (1 - (1 / 2) *\<^sub>R (A *\<^sub>R N) + d *\<^sub>R (A *\<^sub>R N) * (A *\<^sub>R N)) (translation T)))"
    "1 \<le> 2 * A" "2 * A \<le> 1 + wn * wn / 5" "\<bar>d\<bar> \<le> 1 / 5"
proof (cases "tolerance < wn")
  case True
  then have pos: "0 < wn" using assms(5) by simp
  show ?thesis
  proof (rule that)
    show "logMap False tolerance T =
       Some (vec6_of_blocks (vee ((wn / (2 * sin wn)) *\<^sub>R N))
              (mv3 (1 - (1 / 2) *\<^sub>R ((wn / (2 * sin wn)) *\<^sub>R N)
                    + ((1 / (wn * wn)) * (1 - (1 / (4 * (wn / (2 * sin wn)) * ((1 - cos wn) / (wn * wn))))))
                        *\<^sub>R ((wn / (2 * sin wn)) *\<^sub>R N) * ((wn / (2 * sin wn)) *\<^sub>R N))
                (translation T)))"
      using logMap_exact [OF assms(2) True] unfolding N_def by simp
    show "1 \<le> 2 * (wn / (2 * sin wn))" "2 * (wn / (2 * sin wn)) \<le> 1 + wn * wn / 5"
      by (rule log_coeff_A [OF pos assms(4)])+
    show "\<bar>(1 / (wn * wn)) * (1 - (1 / (4 * (wn / (2 * sin wn)) * ((1 - cos wn) / (wn * wn)))))\<bar>
        \<le> 1 / 5"
      by (rule log_coeff_D [OF pos assms(4)])
  qed
next
  case False
  show ?thesis
  proof (rule that)
    show "logMap False tolerance T =
       Some (vec6_of_blocks (vee ((0.5 + wn * wn / 12.0 + wn * wn * wn * wn * (7.0 / 720.0)) *\<^sub>R N))
              (mv3 (1 - (1 / 2) *\<^sub>R ((0.5 + wn * wn / 12.0 + wn * wn * wn * wn * (7.0 / 720.0)) *\<^sub>R N)
                    + 0 *\<^sub>R ((0.5 + wn * wn / 12.0 + wn * wn * wn * wn * (7.0 / 720.0)) *\<^sub>R N)
                        * ((0.5 + wn * wn / 12.0 + wn * wn * wn * wn * (7.0 / 720.0)) *\<^sub>R N))
                (translation T)))"
      using logMap_series [OF assms(2) False] unfolding N_def by simp
    show "1 \<le> 2 * (0.5 + wn * wn / 12.0 + wn * wn * wn * wn * (7.0 / 720.0))"
      "2 * (0.5 + wn * wn / 12.0 + wn * wn * wn * wn * (7.0 / 720.0)) \<le> 1 + wn * wn / 5"
      by (rule log_coeff_series [OF assms(3,4)])+
    show "\<bar>0::real\<bar> \<le> 1 / 5" by simp
  qed
qed

subsection \<open>The logarithm of the exponential at small angles\<close>

lemma abs_mult_bound:
  fixes u v :: real
  assumes "\<bar>u\<bar> \<le> U" "\<bar>v\<bar> \<le> V"
  shows "\<bar>u * v\<bar> \<le> U * V"
proof -
  have "0 \<le> U" using assms(1) abs_ge_zero [of u] by linarith
  then have "\<bar>u\<bar> * \<bar>v\<bar> \<le> U * V"
    using assms by (intro mult_mono) simp_all
  then show ?thesis by (simp add: abs_mult)
qed

lemma small_angle_arccos:
  fixes y :: real
  assumes "0 \<le> y" "y \<le> 1 / 200"
  shows "0 \<le> arccos (1 - y)" "arccos (1 - y) \<le> 1" "cos (arccos (1 - y)) = 1 - y"
    "arccos (1 - y) * arccos (1 - y) \<le> 24 / 11 * y"
proof -
  define wn where "wn = arccos (1 - y)"
  have r: "- 1 \<le> 1 - y" "1 - y \<le> 1" using assms by simp_all
  have lb: "0 \<le> wn" unfolding wn_def by (rule arccos_lbound [OF r])
  have ub: "wn \<le> pi" unfolding wn_def by (rule arccos_ubound [OF r])
  have c: "cos wn = 1 - y" unfolding wn_def by (rule cos_arccos [OF r])
  have le1: "wn \<le> 1"
  proof (rule ccontr)
    assume "\<not> wn \<le> 1"
    then have "1 < wn" by simp
    then have "cos wn < cos 1"
      using ub by (intro cos_monotone_0_pi) simp_all
    moreover have "cos (1::real) \<le> 1 - 1 * 1 / 2 + 1 * 1 * 1 * 1 / 24"
      by (rule cos_le_quartic) simp
    ultimately show False using c assms by simp
  qed
  define u where "u = wn * wn"
  define z where "z = wn * wn * wn * wn"
  have u: "0 \<le> u" "u \<le> 1" using lb le1 mult_le_one [of wn wn] by (simp_all add: u_def)
  have "u * u \<le> u" using u mult_left_le [of u u] by simp
  then have z: "z \<le> u" by (simp add: u_def z_def mult.assoc)
  have "cos wn \<le> 1 - wn * wn / 2 + wn * wn * wn * wn / 24"
    using lb by (rule cos_le_quartic)
  then have "1 - y \<le> 1 - u / 2 + z / 24"
    unfolding c z_def [symmetric] unfolding u_def [symmetric] .
  then have "u \<le> 24 / 11 * y" using z by simp
  show "0 \<le> arccos (1 - y)" using lb by (simp add: wn_def)
  show "arccos (1 - y) \<le> 1" using le1 by (simp add: wn_def)
  show "cos (arccos (1 - y)) = 1 - y" using c by (simp add: wn_def)
  show "arccos (1 - y) * arccos (1 - y) \<le> 24 / 11 * y"
    using \<open>u \<le> 24 / 11 * y\<close> by (simp add: u_def wn_def)
qed

lemma round_trip_coeff_bounds:
  fixes s b c d x :: real
  assumes x: "0 \<le> x" "x \<le> 1 / 25"
    and s: "\<bar>s - 1\<bar> \<le> x / 4"
    and b: "1 / 2 - x / 20 \<le> b" "b \<le> 1 / 2"
    and c: "0 \<le> c" "c \<le> 1 / 5"
    and d: "\<bar>d\<bar> \<le> 1 / 5"
  shows "\<bar>- (s / 2) + b - x * (- (s / 2) * c + d * (s * s) * b)\<bar> \<le> x / 2"
    and "\<bar>d * (s * s) + c + - (s / 2) * b - x * (d * (s * s) * c)\<bar> \<le> 3 / 4"
proof -
  have s1: "\<bar>s\<bar> \<le> 11 / 10" using s x by linarith
  have s2: "\<bar>s / 2\<bar> \<le> 11 / 20" using s1 by simp
  have ss: "\<bar>s * s\<bar> \<le> 11 / 10 * (11 / 10)" by (rule abs_mult_bound [OF s1 s1])
  have b1: "\<bar>b\<bar> \<le> 1 / 2" using b x by linarith
  have c1: "\<bar>c\<bar> \<le> 1 / 5" using c by linarith
  define e where "e = d * (s * s)"
  have e: "\<bar>e\<bar> \<le> 1 / 5 * (11 / 10 * (11 / 10))"
    unfolding e_def by (rule abs_mult_bound [OF d ss])
  define p1 where "p1 = s / 2 * c"
  have p1: "\<bar>p1\<bar> \<le> 11 / 20 * (1 / 5)" unfolding p1_def by (rule abs_mult_bound [OF s2 c1])
  define p2 where "p2 = e * b"
  have p2: "\<bar>p2\<bar> \<le> 1 / 5 * (11 / 10 * (11 / 10)) * (1 / 2)"
    unfolding p2_def by (rule abs_mult_bound [OF e b1])
  define p3 where "p3 = x * (- p1 + p2)"
  have "\<bar>- p1 + p2\<bar> \<le> 231 / 1000" using p1 p2 by linarith
  moreover have "\<bar>x\<bar> \<le> x" using x by simp
  ultimately have p3: "\<bar>p3\<bar> \<le> x * (231 / 1000)"
    unfolding p3_def by (rule abs_mult_bound [rotated])
  have "\<bar>- (s / 2) + b - p3\<bar> \<le> x / 2"
    using s b p3 x by linarith
  then show "\<bar>- (s / 2) + b - x * (- (s / 2) * c + d * (s * s) * b)\<bar> \<le> x / 2"
    by (simp add: p3_def p2_def p1_def e_def)
  define p4 where "p4 = s / 2 * b"
  have p4: "\<bar>p4\<bar> \<le> 11 / 20 * (1 / 2)" unfolding p4_def by (rule abs_mult_bound [OF s2 b1])
  define p5 where "p5 = e * c"
  have p5: "\<bar>p5\<bar> \<le> 1 / 5 * (11 / 10 * (11 / 10)) * (1 / 5)"
    unfolding p5_def by (rule abs_mult_bound [OF e c1])
  define p6 where "p6 = x * p5"
  have "\<bar>x\<bar> \<le> 1 / 25" using x by simp
  then have p6: "\<bar>p6\<bar> \<le> 1 / 25 * (1 / 5 * (11 / 10 * (11 / 10)) * (1 / 5))"
    unfolding p6_def using p5 by (rule abs_mult_bound)
  have "\<bar>e + c + - p4 - p6\<bar> \<le> 3 / 4"
    using e c p4 p6 by linarith
  then show "\<bar>d * (s * s) + c + - (s / 2) * b - x * (d * (s * s) * c)\<bar> \<le> 3 / 4"
    by (simp add: p6_def p5_def p4_def e_def)
qed

lemma skew_poly_error':
  fixes u v :: vec3
  assumes n: "norm3 u \<le> 1 / 5" and p: "\<bar>p\<bar> \<le> norm3 u * norm3 u / 2" and q: "\<bar>q\<bar> \<le> 3 / 4"
  shows "norm3 (mv3 (p *\<^sub>R skewSymmetric3 u + q *\<^sub>R skewSymmetric3 u * skewSymmetric3 u) v)
           \<le> 17 / 20 * (norm3 u * norm3 u) * norm3 v"
proof -
  define m where "m = norm3 u"
  define x where "x = m * m"
  have m: "0 \<le> m" "m \<le> 1 / 5" using n by (simp_all add: m_def norm3_nonneg)
  have x: "0 \<le> x" by (simp add: x_def)
  have "\<bar>p\<bar> * m \<le> x / 2 * (1 / 5)"
    using p m x by (intro mult_mono) (simp_all add: x_def m_def)
  moreover have "\<bar>q\<bar> * x \<le> 3 / 4 * x"
    using q x by (intro mult_right_mono) simp_all
  ultimately have "\<bar>p\<bar> * m + \<bar>q\<bar> * x \<le> 17 / 20 * x" using x by linarith
  then have "(\<bar>p\<bar> * m + \<bar>q\<bar> * x) * norm3 v \<le> 17 / 20 * x * norm3 v"
    by (intro mult_right_mono norm3_nonneg)
  moreover have "norm3 (mv3 (p *\<^sub>R skewSymmetric3 u + q *\<^sub>R skewSymmetric3 u * skewSymmetric3 u) v)
      \<le> (\<bar>p\<bar> * m + \<bar>q\<bar> * x) * norm3 v"
    unfolding x_def m_def by (rule norm3_skew_poly)
  ultimately show ?thesis by (simp add: x_def m_def)
qed

lemma skew_poly_error:
  fixes u v :: vec3
  assumes n: "norm3 u \<le> 1 / 5" and p: "\<bar>p\<bar> \<le> norm3 u * norm3 u / 2" and q: "\<bar>q\<bar> \<le> 3 / 4"
  shows "norm3 (mv3 (p *\<^sub>R skewSymmetric3 u + q *\<^sub>R skewSymmetric3 u * skewSymmetric3 u) v)
           \<le> norm3 u * norm3 u * norm3 v"
proof -
  have "17 / 20 * (norm3 u * norm3 u) * norm3 v \<le> 1 * (norm3 u * norm3 u) * norm3 v"
    by (intro mult_right_mono) (simp_all add: norm3_nonneg)
  then show ?thesis
    using skew_poly_error' [OF assms, of v] by simp
qed

lemma logMap_expMap_small:
  fixes w :: vec6
  defines "n \<equiv> norm3 (head3 w)"
  assumes TOL: "0 \<le> TOL" and tol: "0 \<le> tolerance" and small: "n \<le> 1 / 10"
  shows "\<exists>w'. logMap False tolerance
                 \<lparr>rotation = mat4_block33 (expMap False w TOL),
                  translation = mat4_block31 (expMap False w TOL)\<rparr> = Some w'
              \<and> norm3 (head3 w' - head3 w) \<le> n * n * n
              \<and> norm3 (tail3 w' - tail3 w) \<le> n * n * norm3 (tail3 w)"
proof -
  define K where "K = skewSymmetric3 (head3 w)"
  define T where "T = \<lparr>rotation = mat4_block33 (expMap False w TOL),
                        translation = mat4_block31 (expMap False w TOL)\<rparr>"
  define x where "x = n * n"
  have n0: "0 \<le> n" by (simp add: n_def norm3_nonneg)
  have n1: "n \<le> 1" using small by simp
  have x: "0 \<le> x" "x \<le> 1 / 100"
    using n0 small mult_mono [of n "1 / 10" n "1 / 10"] by (simp_all add: x_def)
  have nn: "dot3 (head3 w) (head3 w) = x" by (simp add: x_def n_def norm3_mult_self)
  obtain a b c where R: "rotation T = 1 + a *\<^sub>R K + b *\<^sub>R K * K"
    and t: "translation T = mv3 (1 + b *\<^sub>R K + c *\<^sub>R K * K) (tail3 w)"
    and a: "1 - x / 5 \<le> a" "a \<le> 1" and b: "1 / 2 - x / 20 \<le> b" "b \<le> 1 / 2"
    and c: "0 \<le> c" "c \<le> 1 / 5"
    using expMap_coeffs [OF TOL, of w] n1 unfolding n_def [symmetric] K_def [symmetric] x_def T_def
    by (metis Transformation.select_convs(1,2))
  define y where "y = b * x"
  have y: "0 \<le> y" "y \<le> 1 / 200"
  proof -
    have "0 \<le> b" using b x by linarith
    then show "0 \<le> y" using x by (simp add: y_def)
    have "b * x \<le> 1 / 2 * (1 / 100)" using b x \<open>0 \<le> b\<close> by (intro mult_mono) simp_all
    then show "y \<le> 1 / 200" by (simp add: y_def)
  qed
  have yx: "y \<le> x / 2"
    using mult_right_mono [OF b(2) x(1)] by (simp add: y_def)
  define wn where "wn = arccos (1 - y)"
  have wn: "0 \<le> wn" "wn \<le> 1" "wn * wn \<le> 24 / 11 * y"
    using small_angle_arccos [OF y] by (simp_all add: wn_def)
  have tr: "(trace3 (rotation T) - 1) / 2 = 1 - y"
    unfolding R K_def rodrigues_trace nn y_def by simp
  have lwn: "logMap_wn T = Some wn"
    using y by (simp add: logMap_wn_def std_acos_def tr wn_def)
  have N: "rotation T - transpose3 (rotation T) = (2 * a) *\<^sub>R K"
    unfolding R K_def by (rule rodrigues_diff)
  obtain A d where l: "logMap False tolerance T =
       Some (vec6_of_blocks (vee (A *\<^sub>R ((2 * a) *\<^sub>R K)))
              (mv3 (1 - (1 / 2) *\<^sub>R (A *\<^sub>R ((2 * a) *\<^sub>R K))
                     + d *\<^sub>R (A *\<^sub>R ((2 * a) *\<^sub>R K)) * (A *\<^sub>R ((2 * a) *\<^sub>R K))) (translation T)))"
    and A: "1 \<le> 2 * A" "2 * A \<le> 1 + wn * wn / 5" and d: "\<bar>d\<bar> \<le> 1 / 5"
    using logMap_coeffs [OF lwn wn(1,2) tol] unfolding N by metis
  define s where "s = 2 * A * a"
  have a0: "0 \<le> a" using a x by linarith
  have s_lo: "1 - x / 5 \<le> s"
  proof -
    have "1 * a \<le> 2 * A * a" using A(1) a0 by (intro mult_right_mono) simp_all
    then show ?thesis using a by (simp add: s_def)
  qed
  have s_hi: "s \<le> 1 + x / 4"
  proof -
    have "2 * A * a \<le> 2 * A * 1" using A(1) a(2) by (intro mult_left_mono) simp_all
    then have "2 * A * a \<le> 2 * A" by simp
    then show ?thesis unfolding s_def using A(2) wn(3) yx x(1) by linarith
  qed
  have s: "\<bar>s - 1\<bar> \<le> x / 4" using s_lo s_hi x by linarith
  define w' where "w' = vec6_of_blocks (s *\<^sub>R head3 w)
      (mv3 ((1 + (- (s / 2)) *\<^sub>R K + (d * (s * s)) *\<^sub>R K * K) * (1 + b *\<^sub>R K + c *\<^sub>R K * K)) (tail3 w))"
  have sK: "A *\<^sub>R ((2 * a) *\<^sub>R K) = s *\<^sub>R K" by (simp add: s_def)
  have lw: "logMap False tolerance T = Some w'"
    unfolding l sK w'_def t
    by (simp add: vee_scaleR K_def vee_skewSymmetric3 mv3_mult mult.left_commute)
  have h: "head3 w' - head3 w = (s - 1) *\<^sub>R head3 w"
    by (simp add: w'_def scaleR_left_diff_distrib)
  have "norm3 (head3 w' - head3 w) = \<bar>s - 1\<bar> * n"
    unfolding h by (simp add: norm3_scaleR n_def)
  also have "\<dots> \<le> x / 4 * n" using s n0 by (intro mult_right_mono) simp_all
  also have "\<dots> \<le> x * n" using x n0 by (intro mult_right_mono) simp_all
  finally have rot: "norm3 (head3 w' - head3 w) \<le> n * n * n" by (simp add: x_def)
  define \<alpha> where "\<alpha> = - (s / 2) + b - x * (- (s / 2) * c + d * (s * s) * b)"
  define \<beta> where "\<beta> = d * (s * s) + c + - (s / 2) * b - x * (d * (s * s) * c)"
  have x25: "x \<le> 1 / 25" using x by simp
  have \<alpha>: "\<bar>\<alpha>\<bar> \<le> x / 2" and \<beta>: "\<bar>\<beta>\<bar> \<le> 3 / 4"
    unfolding \<alpha>_def \<beta>_def by (rule round_trip_coeff_bounds [OF x(1) x25 s b c d])+
  have P: "(1 + (- (s / 2)) *\<^sub>R K + (d * (s * s)) *\<^sub>R K * K) * (1 + b *\<^sub>R K + c *\<^sub>R K * K)
      = 1 + \<alpha> *\<^sub>R K + \<beta> *\<^sub>R K * K"
    unfolding K_def poly_skew_mult nn \<alpha>_def \<beta>_def ..
  have tl: "tail3 w' - tail3 w = mv3 (\<alpha> *\<^sub>R K + \<beta> *\<^sub>R K * K) (tail3 w)"
    unfolding w'_def tail3_vec6_of_blocks P
    by (simp add: mv3_add_left mv3_one)
  have "norm3 (tail3 w' - tail3 w) \<le> norm3 (head3 w) * norm3 (head3 w) * norm3 (tail3 w)"
    unfolding tl K_def
    by (rule skew_poly_error) (use small \<alpha> \<beta> in \<open>simp_all add: n_def x_def\<close>)
  then have tra: "norm3 (tail3 w' - tail3 w) \<le> n * n * norm3 (tail3 w)"
    by (simp add: n_def)
  show ?thesis
    using lw rot tra unfolding T_def by blast
qed

subsection \<open>The exponential of the logarithm at small angles\<close>

lemma rotation_rodrigues:
  assumes "R * transpose3 R = 1" "det3 R = 1" "trace3 R + 1 \<noteq> 0"
  shows "R = 1 + (1 / 2) *\<^sub>R (R - transpose3 R)
               + (1 / (2 * (trace3 R + 1))) *\<^sub>R (R - transpose3 R) * (R - transpose3 R)"
proof -
  have "(1 / (2 * (trace3 R + 1))) *\<^sub>R (R - transpose3 R) * (R - transpose3 R)
      = (1 / (2 * (trace3 R + 1))) *\<^sub>R ((R - transpose3 R) * (R - transpose3 R))"
    by simp
  also have "\<dots> = (1 / (2 * (trace3 R + 1)) * (trace3 R + 1)) *\<^sub>R (R + transpose3 R - 1 - 1)"
    unfolding rotation_antisym_square [OF assms(1,2)] by (simp only: scaleR_scaleR)
  also have "1 / (2 * (trace3 R + 1)) * (trace3 R + 1) = 1 / 2"
    using assms(3) by simp
  finally show ?thesis
    using half_sum [of 1 R "transpose3 R"] by simp
qed

lemma inverse_two_plus_bound:
  fixes D u :: real
  assumes "0 \<le> u" "u \<le> 1 / 100" "4 - u \<le> D" "D \<le> 4"
  shows "1 / 8 \<le> 1 / (2 * D)" "1 / (2 * D) \<le> 1 / 8 + u / 30"
proof -
  have D: "0 < D" using assms by linarith
  show "1 / 8 \<le> 1 / (2 * D)"
    using D assms(4) by (simp add: field_simps)
  have uu: "u * u \<le> u * (1 / 100)" using assms by (intro mult_left_mono) simp_all
  have "1 \<le> (1 / 8 + u / 30) * (2 * (4 - u))"
    using uu assms(1) by (simp add: algebra_simps)
  also have "\<dots> \<le> (1 / 8 + u / 30) * (2 * D)"
    using assms by (intro mult_left_mono) simp_all
  finally show "1 / (2 * D) \<le> 1 / 8 + u / 30"
    using D by (simp add: pos_divide_le_eq)
qed

lemma expMap_logMap_small:
  fixes T :: Transformation
  defines "\<phi> \<equiv> rotation_angle T"
  assumes TOL: "0 \<le> TOL" and tol: "0 \<le> tolerance" and v: "valid T" and small: "\<phi> \<le> 1 / 10"
  shows "\<exists>w. logMap False tolerance T = Some w
             \<and> (\<forall>x. norm3 (mv3 (mat4_block33 (expMap False w TOL) - rotation T) x)
                       \<le> \<phi> * \<phi> * \<phi> * norm3 x)
             \<and> norm3 (mat4_block31 (expMap False w TOL) - translation T)
                 \<le> \<phi> * \<phi> * norm3 (translation T)"
proof -
  define R where "R = rotation T"
  define N where "N = R - transpose3 R"
  define nv where "nv = vee N"
  define u where "u = \<phi> * \<phi>"
  have RR: "R * transpose3 R = 1" and det: "det3 R = 1"
    using v by (simp_all add: valid_def R_def)
  have lwn: "logMap_wn T = Some \<phi>"
    unfolding \<phi>_def by (rule valid_logMap_wn(1) [OF v])
  have rng: "- 1 \<le> (trace3 R - 1) / 2" "(trace3 R - 1) / 2 \<le> 1"
    using valid_logMap_wn(2,3) [OF v] by (simp_all add: R_def)
  have p0: "0 \<le> \<phi>"
    unfolding \<phi>_def rotation_angle_def R_def [symmetric] by (rule arccos_lbound [OF rng])
  have p1: "\<phi> \<le> 1" using small by simp
  have u: "0 \<le> u" "u \<le> 1 / 100"
    using p0 small mult_mono [of \<phi> "1 / 10" \<phi> "1 / 10"] by (simp_all add: u_def)
  have "cos \<phi> = (trace3 R - 1) / 2"
    unfolding \<phi>_def rotation_angle_def R_def [symmetric] by (rule cos_arccos [OF rng])
  then have tr: "trace3 R = 2 * cos \<phi> + 1" by simp
  have c1: "1 - u / 2 \<le> cos \<phi>" using cos_ge_quadratic [of \<phi>] by (simp add: u_def)
  have c2: "cos \<phi> \<le> 1" by simp
  have s0: "0 \<le> sin \<phi>"
    using p0 p1 pi_ge_two by (intro sin_ge_zero) simp_all
  have s1: "sin \<phi> \<le> \<phi>" using p0 by (rule sin_x_le_x)
  have sc: "sin \<phi> * sin \<phi> = 1 - cos \<phi> * cos \<phi>"
    using sin_cos_squared_add [of \<phi>] by (simp add: power2_eq_square algebra_simps)
  have skN: "skewSymmetric3 nv = N"
    by (simp add: nv_def N_def skewSymmetric3_vee)
  have "dot3 nv nv = (trace3 R + 1) * (3 - trace3 R)"
    unfolding nv_def N_def by (rule rotation_vee_norm [OF RR det])
  also have "\<dots> = 4 * (1 - cos \<phi> * cos \<phi>)"
    by (simp add: tr algebra_simps)
  also have "\<dots> = 4 * (sin \<phi> * sin \<phi>)"
    by (simp only: sc)
  also have "\<dots> = (2 * sin \<phi>) * (2 * sin \<phi>)"
    by simp
  finally have dn: "dot3 nv nv = (2 * sin \<phi>) * (2 * sin \<phi>)" .
  have "norm3 nv = sqrt ((2 * sin \<phi>) * (2 * sin \<phi>))"
    by (simp only: norm3_def dn)
  also have "\<dots> = \<bar>2 * sin \<phi>\<bar>" by (rule real_sqrt_abs2)
  finally have nnv: "norm3 nv = 2 * sin \<phi>"
    using s0 by simp
  obtain A d where l: "logMap False tolerance T =
       Some (vec6_of_blocks (vee (A *\<^sub>R N))
              (mv3 (1 - (1 / 2) *\<^sub>R (A *\<^sub>R N) + d *\<^sub>R (A *\<^sub>R N) * (A *\<^sub>R N)) (translation T)))"
    and A: "1 \<le> 2 * A" "2 * A \<le> 1 + u / 5" and d: "\<bar>d\<bar> \<le> 1 / 5"
    using logMap_coeffs [OF lwn p0 p1 tol] unfolding N_def R_def u_def by metis
  define K where "K = A *\<^sub>R N"
  define om where "om = A *\<^sub>R nv"
  define w where "w = vec6_of_blocks om (mv3 (1 + (- (1 / 2)) *\<^sub>R K + d *\<^sub>R K * K) (translation T))"
  have lw: "logMap False tolerance T = Some w"
    unfolding l w_def om_def K_def nv_def by (simp add: vee_scaleR)
  have hw: "head3 w = om" by (simp add: w_def)
  have tw: "tail3 w = mv3 (1 + (- (1 / 2)) *\<^sub>R K + d *\<^sub>R K * K) (translation T)"
    by (simp add: w_def)
  have skK: "skewSymmetric3 om = K"
    by (simp add: om_def K_def skewSymmetric3_scaleR skN)
  define \<theta> where "\<theta> = norm3 om"
  have A0: "0 \<le> A" using A by simp
  have th: "\<theta> = 2 * A * sin \<phi>"
    using A0 by (simp add: \<theta>_def om_def norm3_scaleR nnv)
  have th0: "0 \<le> \<theta>" by (simp add: \<theta>_def norm3_nonneg)
  have th1: "\<theta> \<le> 21 / 20 * \<phi>"
  proof -
    have "2 * A * sin \<phi> \<le> 21 / 20 * \<phi>"
      using A u s0 s1 p0 by (intro mult_mono) simp_all
    then show ?thesis by (simp add: th)
  qed
  have th5: "\<theta> \<le> 1 / 5" using th1 small by simp
  define x where "x = \<theta> * \<theta>"
  have "\<theta> * \<theta> \<le> (21 / 20 * \<phi>) * (21 / 20 * \<phi>)"
    using th0 th1 by (intro mult_mono) simp_all
  then have xu: "x \<le> 441 / 400 * u" by (simp add: x_def u_def)
  have x: "0 \<le> x" "x \<le> 1 / 25"
    using th0 th5 mult_mono [of \<theta> "1 / 5" \<theta> "1 / 5"] by (simp_all add: x_def)
  have nn: "dot3 om om = x" by (simp add: x_def \<theta>_def norm3_mult_self)
  have th_le1: "norm3 (head3 w) \<le> 1" using th5 by (simp add: hw \<theta>_def)
  obtain a b c where R': "mat4_block33 (expMap False w TOL) = 1 + a *\<^sub>R K + b *\<^sub>R K * K"
    and t': "mat4_block31 (expMap False w TOL) = mv3 (1 + b *\<^sub>R K + c *\<^sub>R K * K) (tail3 w)"
    and a: "1 - x / 5 \<le> a" "a \<le> 1" and b: "1 / 2 - x / 20 \<le> b" "b \<le> 1 / 2"
    and c: "0 \<le> c" "c \<le> 1 / 5"
    using expMap_coeffs [OF TOL th_le1]
    unfolding hw skK \<theta>_def [symmetric] x_def by metis
  define \<alpha> where "\<alpha> = - (1 / 2) + b - x * (- (1 / 2) * c + d * (1 * 1) * b)"
  define \<beta> where "\<beta> = d * (1 * 1) + c + - (1 / 2) * b - x * (d * (1 * 1) * c)"
  have one: "\<bar>1 - 1\<bar> \<le> x / 4" using x by simp
  have \<alpha>: "\<bar>\<alpha>\<bar> \<le> x / 2" and \<beta>: "\<bar>\<beta>\<bar> \<le> 3 / 4"
    unfolding \<alpha>_def \<beta>_def by (rule round_trip_coeff_bounds [OF x one b c d])+
  have P: "(1 + b *\<^sub>R K + c *\<^sub>R K * K) * (1 + (- (1 / 2)) *\<^sub>R K + d *\<^sub>R K * K)
      = 1 + \<alpha> *\<^sub>R K + \<beta> *\<^sub>R K * K"
    unfolding skK [symmetric] poly_skew_mult nn \<alpha>_def \<beta>_def
    by (simp add: algebra_simps)
  have "mat4_block31 (expMap False w TOL) - translation T
      = mv3 (\<alpha> *\<^sub>R K + \<beta> *\<^sub>R K * K) (translation T)"
    unfolding t' tw mv3_mult [symmetric] P by (simp add: mv3_add_left mv3_one)
  then have "norm3 (mat4_block31 (expMap False w TOL) - translation T)
      \<le> 17 / 20 * (norm3 om * norm3 om) * norm3 (translation T)"
    unfolding skK [symmetric]
    using skew_poly_error' [of om \<alpha> \<beta> "translation T"] th5 \<alpha> \<beta>
    by (simp add: \<theta>_def x_def)
  also have "\<dots> \<le> u * norm3 (translation T)"
  proof (rule mult_right_mono [OF _ norm3_nonneg])
    show "17 / 20 * (norm3 om * norm3 om) \<le> u"
      using xu u by (simp add: x_def \<theta>_def)
  qed
  finally have tra: "norm3 (mat4_block31 (expMap False w TOL) - translation T)
      \<le> \<phi> * \<phi> * norm3 (translation T)" by (simp add: u_def)
  define D where "D = trace3 R + 1"
  have D: "4 - u \<le> D" "D \<le> 4" using c1 c2 by (simp_all add: D_def tr)
  have Dne: "trace3 R + 1 \<noteq> 0" using D u by (simp add: D_def)
  define \<gamma> where "\<gamma> = 1 / (2 * D)"
  have g: "1 / 8 \<le> \<gamma>" "\<gamma> \<le> 1 / 8 + u / 30"
    unfolding \<gamma>_def by (rule inverse_two_plus_bound [OF u D])+
  have Rr: "R = 1 + (1 / 2) *\<^sub>R N + \<gamma> *\<^sub>R N * N"
    unfolding N_def \<gamma>_def D_def by (rule rotation_rodrigues [OF RR det Dne])
  define p where "p = a * A - 1 / 2"
  define q where "q = b * (A * A) - \<gamma>"
  have "mat4_block33 (expMap False w TOL) - R
      = (1 + (a * A) *\<^sub>R N + (b * (A * A)) *\<^sub>R N * N) - (1 + (1 / 2) *\<^sub>R N + \<gamma> *\<^sub>R N * N)"
    unfolding R' K_def using Rr by (simp add: mult.assoc)
  also have "\<dots> = p *\<^sub>R N + q *\<^sub>R N * N"
    by (simp add: p_def q_def scaleR_left_diff_distrib left_diff_distrib)
  finally have diff: "mat4_block33 (expMap False w TOL) - R = p *\<^sub>R N + q *\<^sub>R N * N" .
  define g2 where "g2 = 2 * A"
  have g2: "1 \<le> g2" "g2 \<le> 1 + u / 5" using A by (simp_all add: g2_def)
  have a0: "0 \<le> a" using a x by linarith
  have b0: "0 \<le> b" using b x by linarith
  have pb: "\<bar>p\<bar> \<le> u / 8"
  proof -
    have lo: "a \<le> g2 * a" using g2(1) a0 mult_right_mono [of 1 g2 a] by simp
    have hi: "g2 * a \<le> g2" using g2(1) a(2) mult_left_mono [of a 1 g2] by simp
    have e: "2 * p = g2 * a - 1" by (simp add: p_def g2_def)
    have "2 * p \<le> u / 4" using e hi g2 u by linarith
    moreover have "- (u / 4) \<le> 2 * p" using e lo a xu u by linarith
    ultimately show ?thesis by linarith
  qed
  have qb: "\<bar>q\<bar> \<le> u / 16"
  proof -
    define G where "G = g2 * g2"
    have G1: "1 \<le> G" using g2(1) mult_mono [of 1 g2 1 g2] by (simp add: G_def)
    have "g2 * g2 \<le> (1 + u / 5) * (1 + u / 5)" using g2 by (intro mult_mono) simp_all
    also have "\<dots> = 1 + 2 * u / 5 + u * u / 25" by (simp add: algebra_simps)
    also have "\<dots> \<le> 1 + u / 2"
    proof -
      have "u * u \<le> u * 1" using u by (intro mult_left_mono) simp_all
      then show ?thesis using u by linarith
    qed
    finally have G2: "G \<le> 1 + u / 2" by (simp add: G_def)
    have lo: "b \<le> b * G" using G1 b0 mult_left_mono [of 1 G b] by simp
    have hi: "b * G \<le> 1 / 2 * G" using b(2) G1 by (intro mult_right_mono) simp_all
    have e: "4 * q = b * G - 4 * \<gamma>" by (simp add: q_def G_def g2_def)
    have "4 * q \<le> u / 4" using e hi g G2 u by linarith
    moreover have "- (u / 4) \<le> 4 * q" using e lo b g xu u by linarith
    ultimately show ?thesis by linarith
  qed
  have nb: "norm3 nv \<le> 2 * \<phi>" using s1 by (simp add: nnv)
  have nb0: "0 \<le> norm3 nv" by (rule norm3_nonneg)
  define W where "W = u * \<phi>"
  have W0: "0 \<le> W" using u p0 by (simp add: W_def)
  have f1: "\<bar>p\<bar> * norm3 nv \<le> W / 4"
  proof -
    have "\<bar>p\<bar> * norm3 nv \<le> u / 8 * (2 * \<phi>)"
      using pb nb nb0 u by (intro mult_mono) simp_all
    then show ?thesis by (simp add: W_def mult.commute)
  qed
  have f2: "\<bar>q\<bar> * (norm3 nv * norm3 nv) \<le> W / 4"
  proof -
    have "norm3 nv * norm3 nv \<le> (2 * \<phi>) * (2 * \<phi>)"
      using nb nb0 p0 by (intro mult_mono) simp_all
    moreover have "\<phi> * \<phi> \<le> \<phi> * 1" using p0 p1 by (intro mult_left_mono) simp_all
    ultimately have nn4: "norm3 nv * norm3 nv \<le> 4 * \<phi>" by simp
    have "\<bar>q\<bar> * (norm3 nv * norm3 nv) \<le> u / 16 * (4 * \<phi>)"
      by (rule mult_mono [OF qb nn4]) (use u nb0 in simp_all)
    then show ?thesis by (simp add: W_def mult.commute)
  qed
  have coef: "\<bar>p\<bar> * norm3 nv + \<bar>q\<bar> * (norm3 nv * norm3 nv) \<le> u * \<phi>"
    unfolding W_def [symmetric] using f1 f2 W0 by linarith
  have rot: "norm3 (mv3 (mat4_block33 (expMap False w TOL) - rotation T) y)
      \<le> \<phi> * \<phi> * \<phi> * norm3 y" for y
  proof -
    have "norm3 (mv3 (p *\<^sub>R N + q *\<^sub>R N * N) y)
        \<le> (\<bar>p\<bar> * norm3 nv + \<bar>q\<bar> * (norm3 nv * norm3 nv)) * norm3 y"
      unfolding skN [symmetric] by (rule norm3_skew_poly)
    also have "\<dots> \<le> u * \<phi> * norm3 y"
      by (rule mult_right_mono [OF coef norm3_nonneg])
    finally show ?thesis
      unfolding R_def [symmetric] diff by (simp add: u_def)
  qed
  show ?thesis
    using lw rot tra by blast
qed

subsection \<open>The manifold round trip at small angles\<close>

lemma dot3_mv3: "dot3 (mv3 R x) (mv3 R y) = dot3 x (mv3 (transpose3 R * R) y)"
  by (cases R rule: mat3_exhaust; cases x; cases y) (simp add: algebra_simps)

lemma norm3_rotation:
  assumes "transpose3 R * R = 1"
  shows "norm3 (mv3 R x) = norm3 x"
  by (simp add: norm3_def dot3_mv3 assms mv3_one)

lemma manifold_round_trip_small:
  fixes T T' :: Transformation
  defines "\<phi> \<equiv> rotation_angle (compose T' (inverse_tf T))"
  assumes TOL: "0 \<le> TOL" and tol: "0 \<le> tol" and v: "valid T" and v': "valid T'"
    and small: "\<phi> \<le> 1 / 10"
  shows "\<exists>d. manifoldMinus False tol T' T = Some d
             \<and> (\<forall>x. norm3 (mv3 (rotation (manifoldPlus False TOL d T) - rotation T') x)
                       \<le> \<phi> * \<phi> * \<phi> * norm3 x)
             \<and> norm3 (translation (manifoldPlus False TOL d T) - translation T')
                 \<le> \<phi> * \<phi> * \<phi> * norm3 (translation T)
                    + \<phi> * \<phi> * norm3 (translation (compose T' (inverse_tf T)))"
proof -
  define D where "D = compose T' (inverse_tf T)"
  have vD: "valid D" unfolding D_def by (rule valid_compose_inverse [OF v' v])
  obtain d where l: "logMap False tol D = Some d"
    and r: "\<And>x. norm3 (mv3 (mat4_block33 (expMap False d TOL) - rotation D) x)
               \<le> \<phi> * \<phi> * \<phi> * norm3 x"
    and t: "norm3 (mat4_block31 (expMap False d TOL) - translation D)
               \<le> \<phi> * \<phi> * norm3 (translation D)"
    using expMap_logMap_small [OF TOL tol vD] small unfolding \<phi>_def D_def [symmetric] by blast
  define E where "E = mat4_block33 (expMap False d TOL)"
  define e where "e = mat4_block31 (expMap False d TOL)"
  have T': "T' = compose D T"
    unfolding D_def by (rule compose_inverse_cancel [OF v, symmetric])
  have RT: "transpose3 (rotation T) * rotation T = 1"
    using v by (intro rotation_transpose_mult) (simp_all add: valid_def)
  have pr: "rotation (manifoldPlus False TOL d T) = E * rotation T"
    and pt: "translation (manifoldPlus False TOL d T) = mv3 E (translation T) + e"
    by (simp_all add: manifoldPlus_compose compose_def E_def e_def)
  have Tr: "rotation T' = rotation D * rotation T"
    and Tt: "translation T' = mv3 (rotation D) (translation T) + translation D"
    unfolding T' by (simp_all add: compose_def)
  have rot: "norm3 (mv3 (rotation (manifoldPlus False TOL d T) - rotation T') x)
      \<le> \<phi> * \<phi> * \<phi> * norm3 x" for x
  proof -
    have "rotation (manifoldPlus False TOL d T) - rotation T' = (E - rotation D) * rotation T"
      unfolding pr Tr by (simp add: left_diff_distrib)
    then have "mv3 (rotation (manifoldPlus False TOL d T) - rotation T') x
        = mv3 (E - rotation D) (mv3 (rotation T) x)"
      by (simp add: mv3_mult)
    then show ?thesis
      using r [of "mv3 (rotation T) x"] by (simp add: E_def norm3_rotation [OF RT])
  qed
  have "translation (manifoldPlus False TOL d T) - translation T'
      = mv3 (E - rotation D) (translation T) + (e - translation D)"
    unfolding pt Tt by (simp add: mv3_diff_left)
  then have "norm3 (translation (manifoldPlus False TOL d T) - translation T')
      \<le> norm3 (mv3 (E - rotation D) (translation T)) + norm3 (e - translation D)"
    by (simp add: norm3_triangle)
  also have "\<dots> \<le> \<phi> * \<phi> * \<phi> * norm3 (translation T) + \<phi> * \<phi> * norm3 (translation D)"
    using r [of "translation T"] t by (simp add: E_def e_def)
  finally have tra: "norm3 (translation (manifoldPlus False TOL d T) - translation T')
      \<le> \<phi> * \<phi> * \<phi> * norm3 (translation T) + \<phi> * \<phi> * norm3 (translation D)" .
  show ?thesis
    using l rot tra unfolding manifoldMinus_def D_def by blast
qed

subsection \<open>The manifold round trip in the approximate mode\<close>

lemma cubic_below:
  fixes g :: real
  assumes "0 \<le> g" "g \<le> 2"
  shows "g * (1 - 0.16666666666666667 * (g * g)) < 24 / 25"
proof -
  define c where "c = g * g * g"
  have c0: "0 \<le> c" using assms by (simp add: c_def)
  have "0 \<le> (g - 7 / 5) * (g - 7 / 5)" by simp
  then have "0 \<le> (g - 7 / 5) * (g - 7 / 5) * (g + 14 / 5)"
    by (rule mult_nonneg_nonneg) (use assms in simp)
  also have "(g - 7 / 5) * (g - 7 / 5) * (g + 14 / 5) = c - 147 / 25 * g + 686 / 125"
    by (simp add: c_def field_simps)
  finally have "0 \<le> c - 147 / 25 * g + 686 / 125" .
  then have "g - 0.16666666666666667 * c < 24 / 25"
    using c0 assms by simp
  moreover have "g * (1 - 0.16666666666666667 * (g * g)) = g - 0.16666666666666667 * c"
    by (simp add: c_def algebra_simps)
  ultimately show ?thesis by simp
qed

lemma quarter_turn_minus_approximate:
  "manifoldMinus True tol
      \<lparr>rotation = Mat3 (Vec3 0 (- 1) 0) (Vec3 1 0 0) (Vec3 0 0 1), translation = 0\<rparr>
      \<lparr>rotation = 1, translation = 0\<rparr>
   = Some (Vec6 0 0 (2 * (0.5 + pi / 2 * (pi / 2) * 0.083333333333333)) 0 0 0)"
proof -
  have c: "compose \<lparr>rotation = Mat3 (Vec3 0 (- 1) 0) (Vec3 1 0 0) (Vec3 0 0 1), translation = 0\<rparr>
         (inverse_tf \<lparr>rotation = 1, translation = 0\<rparr>)
       = \<lparr>rotation = Mat3 (Vec3 0 (- 1) 0) (Vec3 1 0 0) (Vec3 0 0 1), translation = 0\<rparr>"
    by (simp add: compose_def inverse_tf_def invert_def one_mat3_def zero_vec3_def)
  have wn: "logMap_wn \<lparr>rotation = Mat3 (Vec3 0 (- 1) 0) (Vec3 1 0 0) (Vec3 0 0 1), translation = t\<rparr>
      = Some (pi / 2)" for t
    by (simp add: logMap_wn_def std_acos_def)
  show ?thesis
    unfolding manifoldMinus_def c
    by (simp add: logMap_def wn coeff33_def one_mat3_def zero_vec3_def)
qed

lemma expMap_approximate_entry:
  assumes "0 \<le> g"
  shows "coeff33 (rotation (manifoldPlus True TOL (Vec6 0 0 g 0 0 0) \<lparr>rotation = 1, translation = 0\<rparr>)) 1 0
     = g * (1 - 0.16666666666666667 * (g * g))"
proof -
  have n: "norm3 (Vec3 0 0 g) = g" using assms by (simp add: norm3_def)
  show ?thesis
    by (simp add: manifoldPlus_def expMap_def Let_def n skewSymmetric3_def Identity4_def
        one_mat3_def coeff33_def algebra_simps)
qed

subsection \<open>Elements used as examples\<close>

lemma norm3_axis: "norm3 (Vec3 0 0 c) = \<bar>c\<bar>"
  by (simp add: norm3_def)

lemma rotZ_valid: "valid \<lparr>rotation = AngleAxis_UnitZ a, translation = t\<rparr>"
proof -
  have "cos a * cos a + sin a * sin a = 1"
    using sin_cos_squared_add [of a] by (simp add: power2_eq_square add.commute)
  then show ?thesis
    by (simp add: valid_def AngleAxis_UnitZ_def one_mat3_def algebra_simps)
qed

lemma rotZ_angle:
  assumes "0 \<le> a" "a \<le> pi"
  shows "rotation_angle \<lparr>rotation = AngleAxis_UnitZ a, translation = t\<rparr> = a"
  using assms by (simp add: rotation_angle_def AngleAxis_UnitZ_def arccos_cos)

lemma compose_inverse_identity:
  "compose T (inverse_tf \<lparr>rotation = 1, translation = 0\<rparr>) = T"
  by (rule Transformation.equality)
     (simp_all add: compose_def inverse_tf_def invert_def transpose3_one mv3_zero)

lemma small_turn_angle:
  "rotation_angle \<lparr>rotation = AngleAxis_UnitZ (1 / 20000), translation = t\<rparr> = 1 / 20000"
  by (rule rotZ_angle) (use pi_ge_two in simp_all)

lemma pi_margin: "1 \<le> pi - 1 / 1000" "pi / 2 \<le> pi - 1 / 1000"
  using pi_ge_two by simp_all


section \<open>The round trip of the two maps\<close>

text \<open>
  Claim C2, amended.  In exact mode, with real numbers for the doubles and with branch
  tolerances that are not negative:

  \<^item> for every twist \<open>w\<close> whose rotational part has norm \<open>\<theta> \<le> 1/10\<close>, whichever of the
    closed forms and the truncated series the two maps take, \<open>logMap\<close> of the element set
    from \<open>expMap w\<close> is a twist \<open>w'\<close> whose rotational part is within \<open>\<theta>\<^sup>3\<close> of that of
    \<open>w\<close> and whose other part is within \<open>\<theta>\<^sup>2\<close> times its norm of that of \<open>w\<close>;
  \<^item> when \<open>\<theta>\<close> is zero, or above both tolerances and at most \<open>\<pi> - 1/1000\<close>, that
    twist is \<open>w\<close> itself;
  \<^item> for every valid element \<open>T\<close> whose rotation angle is \<open>\<phi> \<le> 1/10\<close>, \<open>logMap T\<close> is
    a twist whose \<open>expMap\<close> has a rotation block that takes no vector \<open>x\<close> further than
    \<open>\<phi>\<^sup>3\<close> times its norm from where the rotation block of \<open>T\<close> takes it, and a
    translation within \<open>\<phi>\<^sup>2\<close> times its norm of that of \<open>T\<close>;
  \<^item> when \<open>\<phi>\<close> is zero, or above both tolerances and at most \<open>\<pi> - 1/1000\<close>, the
    rotation and the translation are those of \<open>T\<close>.

  With the default tolerances \<open>10\<^sup>-\<^sup>5\<close> and \<open>10\<^sup>-\<^sup>4\<close> the two ranges cover every angle
  from zero to \<open>\<pi> - 1/1000\<close>.  The angles nearer to \<open>\<pi>\<close> are left out: there
  \<open>wn / (2 sin wn)\<close> divides by a sine near zero, where the doubles of the code lose
  the digits that the real numbers keep, and at \<open>\<pi>\<close> itself the round trip fails (the
  half turn above).
\<close>

theorem exp_log_round_trip:
  assumes "0 \<le> TOL" "0 \<le> tolerance"
  shows "(norm3 (head3 w) \<le> 1 / 10
          \<longrightarrow> (\<exists>w'. logMap False tolerance
                       \<lparr>rotation = mat4_block33 (expMap False w TOL),
                        translation = mat4_block31 (expMap False w TOL)\<rparr> = Some w'
                   \<and> norm3 (head3 w' - head3 w)
                       \<le> norm3 (head3 w) * norm3 (head3 w) * norm3 (head3 w)
                   \<and> norm3 (tail3 w' - tail3 w)
                       \<le> norm3 (head3 w) * norm3 (head3 w) * norm3 (tail3 w)))
       \<and> (norm3 (head3 w) = 0
            \<or> (TOL < norm3 (head3 w) \<and> tolerance < norm3 (head3 w)
                \<and> norm3 (head3 w) \<le> pi - 1 / 1000)
          \<longrightarrow> logMap False tolerance
                \<lparr>rotation = mat4_block33 (expMap False w TOL),
                 translation = mat4_block31 (expMap False w TOL)\<rparr> = Some w)
       \<and> (valid T \<and> rotation_angle T \<le> 1 / 10
          \<longrightarrow> (\<exists>w'. logMap False tolerance T = Some w'
                   \<and> (\<forall>x. norm3 (mv3 (mat4_block33 (expMap False w' TOL) - rotation T) x)
                             \<le> rotation_angle T * rotation_angle T * rotation_angle T * norm3 x)
                   \<and> norm3 (mat4_block31 (expMap False w' TOL) - translation T)
                       \<le> rotation_angle T * rotation_angle T * norm3 (translation T)))
       \<and> (valid T
            \<and> (rotation_angle T = 0
               \<or> (TOL < rotation_angle T \<and> tolerance < rotation_angle T
                   \<and> rotation_angle T \<le> pi - 1 / 1000))
          \<longrightarrow> (\<exists>w'. logMap False tolerance T = Some w'
                   \<and> mat4_block33 (expMap False w' TOL) = rotation T
                   \<and> mat4_block31 (expMap False w' TOL) = translation T))"
proof (intro conjI impI)
  assume "norm3 (head3 w) \<le> 1 / 10"
  then show "\<exists>w'. logMap False tolerance
                       \<lparr>rotation = mat4_block33 (expMap False w TOL),
                        translation = mat4_block31 (expMap False w TOL)\<rparr> = Some w'
                   \<and> norm3 (head3 w' - head3 w)
                       \<le> norm3 (head3 w) * norm3 (head3 w) * norm3 (head3 w)
                   \<and> norm3 (tail3 w' - tail3 w)
                       \<le> norm3 (head3 w) * norm3 (head3 w) * norm3 (tail3 w)"
    by (rule logMap_expMap_small [OF assms])
next
  assume "norm3 (head3 w) = 0
            \<or> (TOL < norm3 (head3 w) \<and> tolerance < norm3 (head3 w)
                \<and> norm3 (head3 w) \<le> pi - 1 / 1000)"
  then have "norm3 (head3 w) = 0
         \<or> (TOL < norm3 (head3 w) \<and> tolerance < norm3 (head3 w) \<and> norm3 (head3 w) < pi)"
    by auto
  then show "logMap False tolerance
                \<lparr>rotation = mat4_block33 (expMap False w TOL),
                 translation = mat4_block31 (expMap False w TOL)\<rparr> = Some w"
    by (rule logMap_expMap_round_trip [OF assms])
next
  assume "valid T \<and> rotation_angle T \<le> 1 / 10"
  then show "\<exists>w'. logMap False tolerance T = Some w'
                   \<and> (\<forall>x. norm3 (mv3 (mat4_block33 (expMap False w' TOL) - rotation T) x)
                             \<le> rotation_angle T * rotation_angle T * rotation_angle T * norm3 x)
                   \<and> norm3 (mat4_block31 (expMap False w' TOL) - translation T)
                       \<le> rotation_angle T * rotation_angle T * norm3 (translation T)"
    using expMap_logMap_small [OF assms, of T] by blast
next
  assume a: "valid T
            \<and> (rotation_angle T = 0
               \<or> (TOL < rotation_angle T \<and> tolerance < rotation_angle T
                   \<and> rotation_angle T \<le> pi - 1 / 1000))"
  then have "rotation_angle T = 0
         \<or> (TOL < rotation_angle T \<and> tolerance < rotation_angle T \<and> rotation_angle T < pi)"
    by auto
  then show "\<exists>w'. logMap False tolerance T = Some w'
                   \<and> mat4_block33 (expMap False w' TOL) = rotation T
                   \<and> mat4_block31 (expMap False w' TOL) = translation T"
    using a by (intro expMap_logMap_round_trip [OF assms]) simp_all
qed


theorem exp_log_round_trip_witness:
  "(0::real) \<le> 1 / 100000 \<and> (0::real) \<le> 1 / 10000
   \<and> norm3 (head3 (Vec6 0 0 (1 / 20000) 1 2 3)) \<le> 1 / 10
   \<and> (\<exists>w'. logMap False (1 / 10000)
          \<lparr>rotation = mat4_block33 (expMap False (Vec6 0 0 (1 / 20000) 1 2 3) (1 / 100000)),
           translation = mat4_block31 (expMap False (Vec6 0 0 (1 / 20000) 1 2 3) (1 / 100000))\<rparr>
          = Some w'
        \<and> norm3 (head3 w' - Vec3 0 0 (1 / 20000)) \<le> 1 / 20000 * (1 / 20000) * (1 / 20000)
        \<and> norm3 (tail3 w' - Vec3 1 2 3) \<le> 1 / 20000 * (1 / 20000) * norm3 (Vec3 1 2 3))
   \<and> 1 / 100000 < norm3 (head3 (Vec6 0 0 1 0 0 0))
   \<and> 1 / 10000 < norm3 (head3 (Vec6 0 0 1 0 0 0))
   \<and> norm3 (head3 (Vec6 0 0 1 0 0 0)) \<le> pi - 1 / 1000
   \<and> logMap False (1 / 10000)
        \<lparr>rotation = mat4_block33 (expMap False (Vec6 0 0 1 0 0 0) (1 / 100000)),
         translation = mat4_block31 (expMap False (Vec6 0 0 1 0 0 0) (1 / 100000))\<rparr>
       = Some (Vec6 0 0 1 0 0 0)
   \<and> valid \<lparr>rotation = AngleAxis_UnitZ (1 / 20000), translation = Vec3 1 2 3\<rparr>
   \<and> rotation_angle \<lparr>rotation = AngleAxis_UnitZ (1 / 20000), translation = Vec3 1 2 3\<rparr> \<le> 1 / 10
   \<and> (\<exists>w'. logMap False (1 / 10000)
          \<lparr>rotation = AngleAxis_UnitZ (1 / 20000), translation = Vec3 1 2 3\<rparr> = Some w'
        \<and> (\<forall>x. norm3 (mv3 (mat4_block33 (expMap False w' (1 / 100000))
                               - AngleAxis_UnitZ (1 / 20000)) x)
                  \<le> 1 / 20000 * (1 / 20000) * (1 / 20000) * norm3 x)
        \<and> norm3 (mat4_block31 (expMap False w' (1 / 100000)) - Vec3 1 2 3)
            \<le> 1 / 20000 * (1 / 20000) * norm3 (Vec3 1 2 3))
   \<and> valid \<lparr>rotation = Mat3 (Vec3 0 (- 1) 0) (Vec3 1 0 0) (Vec3 0 0 1), translation = Vec3 1 2 3\<rparr>
   \<and> 1 / 100000 < rotation_angle
         \<lparr>rotation = Mat3 (Vec3 0 (- 1) 0) (Vec3 1 0 0) (Vec3 0 0 1), translation = Vec3 1 2 3\<rparr>
   \<and> 1 / 10000 < rotation_angle
         \<lparr>rotation = Mat3 (Vec3 0 (- 1) 0) (Vec3 1 0 0) (Vec3 0 0 1), translation = Vec3 1 2 3\<rparr>
   \<and> rotation_angle
         \<lparr>rotation = Mat3 (Vec3 0 (- 1) 0) (Vec3 1 0 0) (Vec3 0 0 1), translation = Vec3 1 2 3\<rparr>
       \<le> pi - 1 / 1000
   \<and> (\<exists>w'. logMap False (1 / 10000)
          \<lparr>rotation = Mat3 (Vec3 0 (- 1) 0) (Vec3 1 0 0) (Vec3 0 0 1), translation = Vec3 1 2 3\<rparr>
          = Some w'
        \<and> mat4_block33 (expMap False w' (1 / 100000)) = Mat3 (Vec3 0 (- 1) 0) (Vec3 1 0 0) (Vec3 0 0 1)
        \<and> mat4_block31 (expMap False w' (1 / 100000)) = Vec3 1 2 3)"
proof -
  have h1: "(0::real) \<le> 1 / 100000" and h2: "(0::real) \<le> 1 / 10000" by simp_all
  show ?thesis
    using exp_log_round_trip [OF h1 h2, of "Vec6 0 0 (1 / 20000) 1 2 3"
        "\<lparr>rotation = AngleAxis_UnitZ (1 / 20000), translation = Vec3 1 2 3\<rparr>"]
      exp_log_round_trip [OF h1 h2, of "Vec6 0 0 1 0 0 0"
        "\<lparr>rotation = Mat3 (Vec3 0 (- 1) 0) (Vec3 1 0 0) (Vec3 0 0 1), translation = Vec3 1 2 3\<rparr>"]
      pi_bounds pi_margin
    by (simp add: norm3_axis rotZ_valid small_turn_angle quarter_turn_valid quarter_turn_angle)
qed



section \<open>The round trip of the manifold operations\<close>

text \<open>
  Claim C5 as stated fails in the approximate mode.  Between the identity and the quarter
  turn about the third axis, both valid, \<open>manifoldMinus\<close> returns a twist whose
  rotational part has norm \<open>1 + 2 * 0.083333333333333 (\<pi>/2)\<^sup>2\<close>, below \<open>\<pi>\<close>;
  \<open>manifoldPlus\<close> of that twist on the identity has the coefficient
  \<open>g (1 - 0.16666666666666667 g\<^sup>2)\<close> in row 1, column 0 of its rotation block, which is
  below \<open>24/25\<close> for every \<open>g\<close> between 0 and 2, where the quarter turn has 1.
\<close>

theorem manifold_round_trip_approximate:
  "valid \<lparr>rotation = 1, translation = 0\<rparr>
   \<and> valid \<lparr>rotation = Mat3 (Vec3 0 (- 1) 0) (Vec3 1 0 0) (Vec3 0 0 1), translation = 0\<rparr>
   \<and> (\<exists>d. manifoldMinus True (1 / 10000)
            \<lparr>rotation = Mat3 (Vec3 0 (- 1) 0) (Vec3 1 0 0) (Vec3 0 0 1), translation = 0\<rparr>
            \<lparr>rotation = 1, translation = 0\<rparr> = Some d
        \<and> norm3 (head3 d) < pi
        \<and> coeff33 (rotation (manifoldPlus True (1 / 100000) d \<lparr>rotation = 1, translation = 0\<rparr>)) 1 0
            < 24 / 25)
   \<and> coeff33 (rotation
         \<lparr>rotation = Mat3 (Vec3 0 (- 1) 0) (Vec3 1 0 0) (Vec3 0 0 1), translation = 0\<rparr>) 1 0 = 1"
proof -
  define g where "g = 2 * (0.5 + pi / 2 * (pi / 2) * 0.083333333333333)"
  have p: "2 \<le> pi" "pi < 4" using pi_ge_two pi_less_4 by simp_all
  have pp: "0 \<le> pi * pi" "pi * pi \<le> 4 * 4"
    using p mult_mono [of pi 4 pi 4] by simp_all
  have g17: "g \<le> 17 / 10"
    using pp by (simp add: g_def)
  have g: "0 \<le> g" "g \<le> 2"
    using pp g17 by (simp_all add: g_def)
  have g2: "g < pi" using g17 p by linarith
  have m: "manifoldMinus True (1 / 10000)
            \<lparr>rotation = Mat3 (Vec3 0 (- 1) 0) (Vec3 1 0 0) (Vec3 0 0 1), translation = 0\<rparr>
            \<lparr>rotation = 1, translation = 0\<rparr> = Some (Vec6 0 0 g 0 0 0)"
    unfolding g_def by (rule quarter_turn_minus_approximate)
  have n: "norm3 (head3 (Vec6 0 0 g 0 0 0)) < pi"
    using g g2 by (simp add: norm3_axis)
  have e: "coeff33 (rotation (manifoldPlus True (1 / 100000) (Vec6 0 0 g 0 0 0)
              \<lparr>rotation = 1, translation = 0\<rparr>)) 1 0 < 24 / 25"
    unfolding expMap_approximate_entry [OF g(1)] by (rule cubic_below [OF g])
  have v0: "valid \<lparr>rotation = 1, translation = 0\<rparr>"
    by (simp add: valid_def transpose3_one one_mat3_def)
  show ?thesis
    using m n e v0 by (simp add: quarter_turn_valid coeff33_def)
qed

text \<open>
  Claim C5, amended.  In both modes \<open>manifoldPlus\<close> is the left-multiplicative update
  \<open>element' = exp(twist) * element\<close> and \<open>manifoldMinus A B\<close> is \<open>log(A * inverse(B))\<close>.
  In exact mode, with real numbers for the doubles and with tolerances that are not
  negative, for valid elements \<open>T\<^sub>1\<close>, \<open>T\<^sub>2\<close> and the rotation angle \<open>\<phi>\<close> of
  \<open>T\<^sub>2 * inverse(T\<^sub>1)\<close>:

  \<^item> when \<open>\<phi>\<close> is zero, or above both tolerances and at most \<open>\<pi> - 1/1000\<close>,
    \<open>plus(T\<^sub>1, minus(T\<^sub>2, T\<^sub>1)) = T\<^sub>2\<close>;
  \<^item> when \<open>\<phi> \<le> 1/10\<close>, whichever branches are taken, the rotation block of
    \<open>plus(T\<^sub>1, minus(T\<^sub>2, T\<^sub>1))\<close> takes no vector \<open>x\<close> further than \<open>\<phi>\<^sup>3\<close> times its
    norm from where the rotation block of \<open>T\<^sub>2\<close> takes it, and its translation is within
    \<open>\<phi>\<^sup>3 |t\<^sub>1| + \<phi>\<^sup>2 |t\<^sub>D|\<close> of that of \<open>T\<^sub>2\<close>, with \<open>t\<^sub>1\<close> the translation of \<open>T\<^sub>1\<close> and
    \<open>t\<^sub>D\<close> that of \<open>T\<^sub>2 * inverse(T\<^sub>1)\<close>.

  The angles within \<open>1/1000\<close> of \<open>\<pi>\<close> are left out, as for the two maps.
\<close>

theorem manifold_plus_minus:
  "manifoldPlus approximate TOL w T =
     compose \<lparr>rotation = mat4_block33 (expMap approximate w TOL),
              translation = mat4_block31 (expMap approximate w TOL)\<rparr> T
   \<and> manifoldMinus approximate tol A B = logMap approximate tol (compose A (inverse_tf B))
   \<and> (0 \<le> TOL \<and> 0 \<le> tol \<and> valid T1 \<and> valid T2
        \<and> (rotation_angle (compose T2 (inverse_tf T1)) = 0
           \<or> (TOL < rotation_angle (compose T2 (inverse_tf T1))
              \<and> tol < rotation_angle (compose T2 (inverse_tf T1))
              \<and> rotation_angle (compose T2 (inverse_tf T1)) \<le> pi - 1 / 1000))
      \<longrightarrow> (\<exists>d. manifoldMinus False tol T2 T1 = Some d \<and> manifoldPlus False TOL d T1 = T2))
   \<and> (0 \<le> TOL \<and> 0 \<le> tol \<and> valid T1 \<and> valid T2
        \<and> rotation_angle (compose T2 (inverse_tf T1)) \<le> 1 / 10
      \<longrightarrow> (\<exists>d. manifoldMinus False tol T2 T1 = Some d
               \<and> (\<forall>x. norm3 (mv3 (rotation (manifoldPlus False TOL d T1) - rotation T2) x)
                         \<le> rotation_angle (compose T2 (inverse_tf T1))
                            * rotation_angle (compose T2 (inverse_tf T1))
                            * rotation_angle (compose T2 (inverse_tf T1)) * norm3 x)
               \<and> norm3 (translation (manifoldPlus False TOL d T1) - translation T2)
                   \<le> rotation_angle (compose T2 (inverse_tf T1))
                        * rotation_angle (compose T2 (inverse_tf T1))
                        * rotation_angle (compose T2 (inverse_tf T1)) * norm3 (translation T1)
                      + rotation_angle (compose T2 (inverse_tf T1))
                        * rotation_angle (compose T2 (inverse_tf T1))
                        * norm3 (translation (compose T2 (inverse_tf T1)))))"
proof (intro conjI impI)
  show "manifoldPlus approximate TOL w T =
     compose \<lparr>rotation = mat4_block33 (expMap approximate w TOL),
              translation = mat4_block31 (expMap approximate w TOL)\<rparr> T"
    by (rule manifoldPlus_compose)
  show "manifoldMinus approximate tol A B = logMap approximate tol (compose A (inverse_tf B))"
    by (simp add: manifoldMinus_def)
next
  assume a: "0 \<le> TOL \<and> 0 \<le> tol \<and> valid T1 \<and> valid T2
        \<and> (rotation_angle (compose T2 (inverse_tf T1)) = 0
           \<or> (TOL < rotation_angle (compose T2 (inverse_tf T1))
              \<and> tol < rotation_angle (compose T2 (inverse_tf T1))
              \<and> rotation_angle (compose T2 (inverse_tf T1)) \<le> pi - 1 / 1000))"
  then have "rotation_angle (compose T2 (inverse_tf T1)) = 0
           \<or> (TOL < rotation_angle (compose T2 (inverse_tf T1))
              \<and> tol < rotation_angle (compose T2 (inverse_tf T1))
              \<and> rotation_angle (compose T2 (inverse_tf T1)) < pi)"
    by auto
  then show "\<exists>d. manifoldMinus False tol T2 T1 = Some d \<and> manifoldPlus False TOL d T1 = T2"
    using a by (intro manifold_round_trip) simp_all
next
  assume a: "0 \<le> TOL \<and> 0 \<le> tol \<and> valid T1 \<and> valid T2
        \<and> rotation_angle (compose T2 (inverse_tf T1)) \<le> 1 / 10"
  then show "\<exists>d. manifoldMinus False tol T2 T1 = Some d
               \<and> (\<forall>x. norm3 (mv3 (rotation (manifoldPlus False TOL d T1) - rotation T2) x)
                         \<le> rotation_angle (compose T2 (inverse_tf T1))
                            * rotation_angle (compose T2 (inverse_tf T1))
                            * rotation_angle (compose T2 (inverse_tf T1)) * norm3 x)
               \<and> norm3 (translation (manifoldPlus False TOL d T1) - translation T2)
                   \<le> rotation_angle (compose T2 (inverse_tf T1))
                        * rotation_angle (compose T2 (inverse_tf T1))
                        * rotation_angle (compose T2 (inverse_tf T1)) * norm3 (translation T1)
                      + rotation_angle (compose T2 (inverse_tf T1))
                        * rotation_angle (compose T2 (inverse_tf T1))
                        * norm3 (translation (compose T2 (inverse_tf T1)))"
    by (intro manifold_round_trip_small) simp_all
qed

theorem manifold_plus_minus_witness:
  "(0::real) \<le> 1 / 100000 \<and> (0::real) \<le> 1 / 10000
   \<and> valid \<lparr>rotation = 1, translation = 0\<rparr>
   \<and> valid \<lparr>rotation = Mat3 (Vec3 0 (- 1) 0) (Vec3 1 0 0) (Vec3 0 0 1), translation = Vec3 1 2 3\<rparr>
   \<and> rotation_angle (compose
         \<lparr>rotation = Mat3 (Vec3 0 (- 1) 0) (Vec3 1 0 0) (Vec3 0 0 1), translation = Vec3 1 2 3\<rparr>
         (inverse_tf \<lparr>rotation = 1, translation = 0\<rparr>)) = pi / 2
   \<and> 1 / 100000 < pi / 2 \<and> 1 / 10000 < pi / 2 \<and> pi / 2 \<le> pi - 1 / 1000
   \<and> (\<exists>d. manifoldMinus False (1 / 10000)
          \<lparr>rotation = Mat3 (Vec3 0 (- 1) 0) (Vec3 1 0 0) (Vec3 0 0 1), translation = Vec3 1 2 3\<rparr>
          \<lparr>rotation = 1, translation = 0\<rparr> = Some d
        \<and> manifoldPlus False (1 / 100000) d \<lparr>rotation = 1, translation = 0\<rparr>
          = \<lparr>rotation = Mat3 (Vec3 0 (- 1) 0) (Vec3 1 0 0) (Vec3 0 0 1), translation = Vec3 1 2 3\<rparr>)
   \<and> valid \<lparr>rotation = AngleAxis_UnitZ (1 / 20000), translation = Vec3 1 2 3\<rparr>
   \<and> rotation_angle (compose
         \<lparr>rotation = AngleAxis_UnitZ (1 / 20000), translation = Vec3 1 2 3\<rparr>
         (inverse_tf \<lparr>rotation = 1, translation = 0\<rparr>)) = 1 / 20000
   \<and> (\<exists>d. manifoldMinus False (1 / 10000)
          \<lparr>rotation = AngleAxis_UnitZ (1 / 20000), translation = Vec3 1 2 3\<rparr>
          \<lparr>rotation = 1, translation = 0\<rparr> = Some d
        \<and> (\<forall>x. norm3 (mv3 (rotation (manifoldPlus False (1 / 100000) d
                                  \<lparr>rotation = 1, translation = 0\<rparr>)
                               - AngleAxis_UnitZ (1 / 20000)) x)
                  \<le> 1 / 20000 * (1 / 20000) * (1 / 20000) * norm3 x)
        \<and> norm3 (translation (manifoldPlus False (1 / 100000) d \<lparr>rotation = 1, translation = 0\<rparr>)
                   - Vec3 1 2 3)
            \<le> 1 / 20000 * (1 / 20000) * norm3 (Vec3 1 2 3))"
proof -
  have v0: "valid \<lparr>rotation = 1, translation = 0\<rparr>"
    by (simp add: valid_def transpose3_one one_mat3_def)
  show ?thesis
    using manifold_plus_minus [of False "1 / 100000" 0 "\<lparr>rotation = 1, translation = 0\<rparr>"
        "1 / 10000" "\<lparr>rotation = 1, translation = 0\<rparr>" "\<lparr>rotation = 1, translation = 0\<rparr>"
        "\<lparr>rotation = 1, translation = 0\<rparr>"
        "\<lparr>rotation = Mat3 (Vec3 0 (- 1) 0) (Vec3 1 0 0) (Vec3 0 0 1), translation = Vec3 1 2 3\<rparr>"]
      manifold_plus_minus [of False "1 / 100000" 0 "\<lparr>rotation = 1, translation = 0\<rparr>"
        "1 / 10000" "\<lparr>rotation = 1, translation = 0\<rparr>" "\<lparr>rotation = 1, translation = 0\<rparr>"
        "\<lparr>rotation = 1, translation = 0\<rparr>"
        "\<lparr>rotation = AngleAxis_UnitZ (1 / 20000), translation = Vec3 1 2 3\<rparr>"]
      pi_bounds pi_margin
    by (simp add: v0 compose_inverse_identity rotZ_valid small_turn_angle quarter_turn_valid
        quarter_turn_angle norm3_zero_vec)
qed



section \<open>The inverse of a 6x6 matrix and the left Jacobians\<close>

lemma fold_pick_range:
  "fold (\<lambda>i p. if P i p then i else p) xs p0 \<in> insert p0 (set xs)"
  by (induction xs arbitrary: p0) auto

lemma pivot_row_range:
  assumes "c < length rows"
  shows "c \<le> pivot_row c rows" "pivot_row c rows < length rows"
proof -
  have "pivot_row c rows \<in> insert c (set [Suc c ..< length rows])"
    unfolding pivot_row_def by (rule fold_pick_range)
  then show "c \<le> pivot_row c rows" "pivot_row c rows < length rows"
    using assms by auto
qed

lemma row_lin_scale:
  assumes "row_lin M r"
  shows "row_lin M (map (\<lambda>x. x / k) r)"
  using assms
  by (simp add: row_lin_def sum_divide_distrib)

lemma row_lin_sub:
  assumes "row_lin M r" "row_lin M q"
  shows "row_lin M (map2 (\<lambda>x y. x - m * y) r q)"
  using assms
  by (simp add: row_lin_def sum_subtractf sum_distrib_left left_diff_distrib mult.assoc)

lemma eliminate_column_ok:
  assumes ok: "aug_ok M rows" and cl: "cleared c rows" and c: "c < 6"
    and e: "eliminate_column c rows = Some rows'"
  shows "aug_ok M rows' \<and> cleared (Suc c) rows'"
proof -
  define p where "p = pivot_row c rows"
  define rows1 where "rows1 = (rows[c := rows ! p])[p := rows ! c]"
  define piv where "piv = map (\<lambda>x. x / (rows1 ! c ! c)) (rows1 ! c)"
  have len: "length rows = 6" using ok by (simp add: aug_ok_def)
  have pr: "c \<le> p" "p < 6"
    using pivot_row_range [of c rows] c len by (simp_all add: p_def)
  have e': "(if rows ! p ! c = 0 then None
      else Some (map (\<lambda>i. if i = c then piv
                          else map2 (\<lambda>x y. x - (rows1 ! i ! c) * y) (rows1 ! i) piv)
                   [0 ..< length rows])) = Some rows'"
    using e unfolding eliminate_column_def Let_def
    unfolding p_def [symmetric] rows1_def [symmetric] piv_def [symmetric] .
  have nz: "rows ! p ! c \<noteq> 0"
    using e' by (cases "rows ! p ! c = 0") simp_all
  have rows': "rows' = map (\<lambda>i. if i = c then piv
                          else map2 (\<lambda>x y. x - (rows1 ! i ! c) * y) (rows1 ! i) piv) [0 ..< 6]"
    using e' nz by (simp add: len)
  have r1: "rows1 ! i = (if i = p then rows ! c else if i = c then rows ! p else rows ! i)"
    if "i < 6" for i
    using that pr c len by (simp add: rows1_def nth_list_update)
  have r1c: "rows1 ! c = rows ! p"
    using r1 [OF c] by simp
  have lin: "row_lin M (rows ! i)" if "i < 6" for i
    using ok that by (simp add: aug_ok_def)
  have lin1: "row_lin M (rows1 ! i)" if "i < 6" for i
    using r1 [OF that] lin that c pr by simp
  have linp: "row_lin M piv"
    unfolding piv_def by (rule row_lin_scale [OF lin1 [OF c]])
  have nth': "rows' ! i = (if i = c then piv
                          else map2 (\<lambda>x y. x - (rows1 ! i ! c) * y) (rows1 ! i) piv)"
    if "i < 6" for i
    using that by (simp add: rows')
  have a: "aug_ok M rows'"
    unfolding aug_ok_def
  proof (intro conjI allI impI)
    show "length rows' = 6" by (simp add: rows')
    fix i :: nat assume i: "i < 6"
    show "row_lin M (rows' ! i)"
      using linp row_lin_sub [OF lin1 [OF i] linp] by (simp add: nth' [OF i])
  qed
  have lp: "length (rows ! p) = 12" using lin [OF pr(2)] by (simp add: row_lin_def)
  have pivj: "piv ! j = (if j = c then 1 else 0)" if "j < Suc c" for j
  proof (cases "j = c")
    case True
    then show ?thesis using nz c lp by (simp add: piv_def r1c)
  next
    case False
    then have "j < c" using that by simp
    then have "rows ! p ! j = 0"
      using cl pr by (simp add: cleared_def)
    then show ?thesis using False c lp \<open>j < c\<close> by (simp add: piv_def r1c)
  qed
  have lenpiv: "length piv = 12" by (simp add: piv_def r1c lp)
  have b: "cleared (Suc c) rows'"
    unfolding cleared_def
  proof (intro allI impI)
    fix i j :: nat assume i: "i < 6" and j: "j < Suc c"
    have l1: "length (rows1 ! i) = 12" using lin1 [OF i] by (simp add: row_lin_def)
    show "rows' ! i ! j = (if i = j then 1 else 0)"
    proof (cases "i = c")
      case True
      have "rows' ! c = piv" using nth' [OF c] by simp
      then show ?thesis using True pivj [OF j] by auto
    next
      case False
      have jl: "j < 12" using j c by simp
      have v: "rows' ! i ! j = rows1 ! i ! j - rows1 ! i ! c * piv ! j"
        using False jl l1 lenpiv by (simp add: nth' [OF i])
      show ?thesis
      proof (cases "j = c")
        case True
        then show ?thesis using False v pivj [OF j] by simp
      next
        case jc: False
        then have jc': "j < c" using j by simp
        have "rows1 ! i ! j = (if i = j then 1 else 0)"
          using r1 [OF i] cl i jc' pr c False by (auto simp: cleared_def)
        then show ?thesis using v pivj [OF j] jc by simp
      qed
    qed
  qed
  show ?thesis using a b by simp
qed

lemma eliminate_ok:
  assumes "aug_ok M rows" "cleared c rows" "c + k \<le> 6" "eliminate k c rows = Some rows'"
  shows "aug_ok M rows' \<and> cleared (c + k) rows'"
  using assms
proof (induction k arbitrary: c rows)
  case 0
  then show ?case by simp
next
  case (Suc k)
  from Suc.prems(4) obtain r1 where r1: "eliminate_column c rows = Some r1"
    and r2: "eliminate k (Suc c) r1 = Some rows'"
    by (auto split: option.splits)
  have c: "c < 6" using Suc.prems(3) by simp
  have s: "aug_ok M r1" "cleared (Suc c) r1"
    using eliminate_column_ok [OF Suc.prems(1,2) c r1] by simp_all
  show ?case
    using Suc.IH [OF s _ r2] Suc.prems(3) by simp
qed

lemma sum6: "(\<Sum>k<6. f k) = f 0 + f 1 + f 2 + f 3 + f 4 + f (5::nat)"
  by (simp add: eval_nat_numeral)

lemma all_less6: "(\<forall>i<6. P i) \<longleftrightarrow> P 0 \<and> P 1 \<and> P 2 \<and> P 3 \<and> P 4 \<and> P (5::nat)"
  by (simp add: eval_nat_numeral All_less_Suc conj_ac)

lemma aug_ok_init: "aug_ok M (map2 (@) (rows_of_mat6 M) (rows_of_mat6 1))"
proof -
  obtain r0 r1 r2 r3 r4 r5 where M: "M = Mat6 r0 r1 r2 r3 r4 r5" by (cases M)
  show ?thesis
    unfolding M
    by (cases r0; cases r1; cases r2; cases r3; cases r4; cases r5)
       (simp add: aug_ok_def row_lin_def one_mat6_def sum6 coeff66_def all_less6)
qed

lemma cleared_init: "cleared 0 rows"
  by (simp add: cleared_def)

lemma vm6_explicit:
  "vm6 (Vec6 a b c d e f) M =
     Vec6 (a * coeff66 M 0 0 + b * coeff66 M 1 0 + c * coeff66 M 2 0 + d * coeff66 M 3 0
             + e * coeff66 M 4 0 + f * coeff66 M 5 0)
          (a * coeff66 M 0 1 + b * coeff66 M 1 1 + c * coeff66 M 2 1 + d * coeff66 M 3 1
             + e * coeff66 M 4 1 + f * coeff66 M 5 1)
          (a * coeff66 M 0 2 + b * coeff66 M 1 2 + c * coeff66 M 2 2 + d * coeff66 M 3 2
             + e * coeff66 M 4 2 + f * coeff66 M 5 2)
          (a * coeff66 M 0 3 + b * coeff66 M 1 3 + c * coeff66 M 2 3 + d * coeff66 M 3 3
             + e * coeff66 M 4 3 + f * coeff66 M 5 3)
          (a * coeff66 M 0 4 + b * coeff66 M 1 4 + c * coeff66 M 2 4 + d * coeff66 M 3 4
             + e * coeff66 M 4 4 + f * coeff66 M 5 4)
          (a * coeff66 M 0 5 + b * coeff66 M 1 5 + c * coeff66 M 2 5 + d * coeff66 M 3 5
             + e * coeff66 M 4 5 + f * coeff66 M 5 5)"
proof -
  obtain r0 r1 r2 r3 r4 r5 where M: "M = Mat6 r0 r1 r2 r3 r4 r5" by (cases M)
  show ?thesis
    unfolding M
    by (cases r0; cases r1; cases r2; cases r3; cases r4; cases r5)
       (simp add: coeff66_def)
qed

lemma row_lin_unit:
  assumes "row_lin M r" "\<forall>j<6. r ! j = (if i = j then 1 else 0)"
  shows "vm6 (vec6_of_list (drop 6 r)) M = vec6_of_list (map (\<lambda>j. if i = j then 1 else 0) [0 ..< 6])"
proof -
  have l: "length r = 12" using assms(1) by (simp add: row_lin_def)
  have e: "(\<Sum>k<6. r ! (6 + k) * coeff66 M k j) = (if i = j then 1 else 0)" if "j < 6" for j
    using assms that by (simp add: row_lin_def)
  show ?thesis
    using e [of 0] e [of 1] e [of 2] e [of 3] e [of 4] e [of 5] l
    by (simp add: vec6_of_list_def vm6_explicit sum6 upt_rec)
qed

lemma mat6_inverse_left:
  assumes "mat6_inverse M = Some J"
  shows "J * M = 1"
proof -
  obtain rows where el: "eliminate 6 0 (map2 (@) (rows_of_mat6 M) (rows_of_mat6 1)) = Some rows"
    and J: "J = mat6_of_rows (map (drop 6) rows)"
    using assms by (auto simp: mat6_inverse_def split: option.splits)
  have ok: "aug_ok M rows" "cleared 6 rows"
    using eliminate_ok [OF aug_ok_init cleared_init _ el] by simp_all
  have len: "length rows = 6" using ok by (simp add: aug_ok_def)
  have u: "vm6 (vec6_of_list (drop 6 (rows ! i))) M
      = vec6_of_list (map (\<lambda>j. if i = j then 1 else 0) [0 ..< 6])" if "i < 6" for i
    using ok that by (intro row_lin_unit) (simp_all add: aug_ok_def cleared_def)
  show ?thesis
    using u [of 0] u [of 1] u [of 2] u [of 3] u [of 4] u [of 5] len
    by (simp add: J mat6_of_rows_def one_mat6_def vec6_of_list_def upt_rec)
qed

lemma SE3ApproxInvLeftJacobian_series:
  "SE3ApproxInvLeftJacobian w =
     1 - (1 / 2) *\<^sub>R skewSymmetric6 w
       + 0.0833333333333333333 *\<^sub>R skewSymmetric6 w * skewSymmetric6 w"
  by (simp add: SE3ApproxInvLeftJacobian_def skewSymmetric6_def Let_def)

lemma manifoldMinusAndJacobian_jacobians:
  "manifoldMinusAndJacobian approximate tol A B =
     (case logMap approximate tol (compose A (inverse_tf B)) of
        None \<Rightarrow> None
      | Some w \<Rightarrow>
         (case (if approximate then Some (SE3ApproxInvLeftJacobian w)
                else mat6_inverse (SE3LeftJacobian w (1 / 10000))) of
            None \<Rightarrow> None
          | Some J \<Rightarrow>
             Some (w, J,
                   J * (snd (snd (composeAndJacobian A (inverse_tf B)))
                        * snd (inverseAndJacobian B)))))
   \<and> (manifoldMinusAndJacobian approximate tol A B = Some (w, Jl, Jr) \<longrightarrow>
        logMap approximate tol (compose A (inverse_tf B)) = Some w
        \<and> (approximate \<longrightarrow>
             Jl = 1 - (1 / 2) *\<^sub>R skewSymmetric6 w
                    + 0.0833333333333333333 *\<^sub>R skewSymmetric6 w * skewSymmetric6 w)
        \<and> (\<not> approximate \<longrightarrow> Jl * SE3LeftJacobian w (1 / 10000) = 1)
        \<and> Jr = Jl * (snd (snd (composeAndJacobian A (inverse_tf B)))
                        * snd (inverseAndJacobian B)))"
proof (intro conjI impI)
  show "manifoldMinusAndJacobian approximate tol A B =
     (case logMap approximate tol (compose A (inverse_tf B)) of
        None \<Rightarrow> None
      | Some w \<Rightarrow>
         (case (if approximate then Some (SE3ApproxInvLeftJacobian w)
                else mat6_inverse (SE3LeftJacobian w (1 / 10000))) of
            None \<Rightarrow> None
          | Some J \<Rightarrow>
             Some (w, J,
                   J * (snd (snd (composeAndJacobian A (inverse_tf B)))
                        * snd (inverseAndJacobian B)))))"
    using manifoldMinusAndJacobian_chain [of approximate tol A B]
    by (simp only: inverseLeftJacobian_def)
next
  assume r: "manifoldMinusAndJacobian approximate tol A B = Some (w, Jl, Jr)"
  have l: "logMap approximate tol (compose A (inverse_tf B)) = Some w"
    and j: "inverseLeftJacobian approximate w = Some Jl"
    and jr: "Jr = Jl * (snd (snd (composeAndJacobian A (inverse_tf B)))
                        * snd (inverseAndJacobian B))"
    using r unfolding manifoldMinusAndJacobian_chain
    by (auto split: option.splits)
  show "logMap approximate tol (compose A (inverse_tf B)) = Some w" by (rule l)
  show "Jr = Jl * (snd (snd (composeAndJacobian A (inverse_tf B)))
                        * snd (inverseAndJacobian B))" by (rule jr)
  {
    assume approximate
    then show "Jl = 1 - (1 / 2) *\<^sub>R skewSymmetric6 w
                    + 0.0833333333333333333 *\<^sub>R skewSymmetric6 w * skewSymmetric6 w"
      using j by (simp add: inverseLeftJacobian_def SE3ApproxInvLeftJacobian_series)
  }
  {
    assume "\<not> approximate"
    then have "mat6_inverse (SE3LeftJacobian w (1 / 10000)) = Some Jl"
      using j by (simp add: inverseLeftJacobian_def)
    then show "Jl * SE3LeftJacobian w (1 / 10000) = 1"
      by (rule mat6_inverse_left)
  }
qed

lemma scaleR_blocks:
  "k *\<^sub>R mat6_of_blocks A B C D = mat6_of_blocks (k *\<^sub>R A) (k *\<^sub>R B) (k *\<^sub>R C) (k *\<^sub>R D)"
  by (cases A rule: mat3_exhaust; cases B rule: mat3_exhaust; cases C rule: mat3_exhaust;
      cases D rule: mat3_exhaust) (simp add: mat6_of_blocks_def)

lemma plus_blocks:
  "mat6_of_blocks A B C D + mat6_of_blocks A' B' C' D' =
     mat6_of_blocks (A + A') (B + B') (C + C') (D + D')"
  by (cases A rule: mat3_exhaust; cases B rule: mat3_exhaust; cases C rule: mat3_exhaust;
      cases D rule: mat3_exhaust; cases A' rule: mat3_exhaust; cases B' rule: mat3_exhaust;
      cases C' rule: mat3_exhaust; cases D' rule: mat3_exhaust)
     (simp add: mat6_of_blocks_def)

lemma skew_cube:
  "skewSymmetric3 v * skewSymmetric3 v * skewSymmetric3 v = (- dot3 v v) *\<^sub>R skewSymmetric3 v"
  by (cases v) (simp add: skewSymmetric3_def algebra_simps)

lemma SE3LeftJacobian_block:
  fixes w :: vec6
  defines "n \<equiv> norm3 (head3 w)"
  assumes "tol < n" "0 < n"
  shows "block33 (SE3LeftJacobian w tol) 0 0 =
           1 + ((1 - cos n) / (n * n)) *\<^sub>R skewSymmetric3 (head3 w)
             + ((1 - sin n / n) / (n * n)) *\<^sub>R skewSymmetric3 (head3 w) * skewSymmetric3 (head3 w)"
proof -
  define K where "K = skewSymmetric3 (head3 w)"
  define L where "L = skewSymmetric3 (tail3 w)"
  define A where "A = (4.0 - n * sin n - 4.0 * cos n) / (2.0 * n * n)"
  define B where "B = (4.0 * n - 5.0 * sin n + n * cos n) / (2.0 * n * n * n)"
  define C where "C = (2.0 - n * sin n - 2.0 * cos n) / (2.0 * n * n * n * n)"
  define D where "D = (2.0 * n - 3.0 * sin n + n * cos n) / (2.0 * n * n * n * n * n)"
  define adj where "adj = mat6_of_blocks K 0 L K"
  have nn: "dot3 (head3 w) (head3 w) = n * n" by (simp add: n_def norm3_mult_self)
  have J: "SE3LeftJacobian w tol = 1 + A *\<^sub>R adj + B *\<^sub>R adj * adj + C *\<^sub>R adj * adj * adj
               + D *\<^sub>R adj * adj * adj * adj"
    using assms(2)
    by (simp add: SE3LeftJacobian_def Let_def n_def [symmetric] zero_blocks set_block33_blocks
        K_def L_def adj_def A_def B_def C_def D_def)
  have K3: "K * K * K = (- (n * n)) *\<^sub>R K"
    unfolding K_def skew_cube nn ..
  have K4: "K * K * K * K = (- (n * n)) *\<^sub>R (K * K)"
    unfolding K3 by simp
  have b: "block33 (SE3LeftJacobian w tol) 0 0
      = 1 + A *\<^sub>R K + B *\<^sub>R K * K + C *\<^sub>R K * K * K + D *\<^sub>R K * K * K * K"
    unfolding J adj_def
    by (simp add: one_blocks scaleR_blocks times_blocks plus_blocks block33_blocks mult.assoc)
  have c1: "A - C * (n * n) = (1 - cos n) / (n * n)"
    using assms(3) by (simp add: A_def C_def field_simps)
  have c2: "B - D * (n * n) = (1 - sin n / n) / (n * n)"
    using assms(3) by (simp add: B_def D_def field_simps)
  have "1 + A *\<^sub>R K + B *\<^sub>R K * K + C *\<^sub>R K * K * K + D *\<^sub>R K * K * K * K
      = 1 + A *\<^sub>R K + B *\<^sub>R (K * K) + C *\<^sub>R (K * K * K) + D *\<^sub>R (K * K * K * K)"
    by simp
  also have "\<dots> = 1 + (A - C * (n * n)) *\<^sub>R K + (B - D * (n * n)) *\<^sub>R (K * K)"
    unfolding K3 K4 by (simp add: algebra_simps)
  finally show ?thesis
    unfolding b c1 c2 K_def by simp
qed

lemma expMap_translation_left_jacobian:
  assumes "1 / 10000 < norm3 (head3 u)" "TOL < norm3 (head3 u)"
  shows "mat4_block31 (expMap False u TOL)
           = mv3 (block33 (SE3LeftJacobian u (1 / 10000)) 0 0) (tail3 u)"
proof -
  have pos: "0 < norm3 (head3 u)" using assms(1) by simp
  show ?thesis
    unfolding expMap_exact(2) [OF assms(2)] SE3LeftJacobian_block [OF assms(1) pos] ..
qed

lemma logMap_translation_approximate:
  "logMap True tol \<lparr>rotation = 1, translation = t\<rparr> = Some (vec6_of_blocks 0 t)"
proof -
  have wn: "logMap_wn \<lparr>rotation = 1, translation = t\<rparr> = Some 0"
    by (simp add: logMap_wn_def std_acos_def trace3_one)
  show ?thesis
    by (simp add: logMap_def wn Let_def transpose3_one coeff33_zero mv3_one Vec3_zero)
qed


text \<open>
  Claim C3.  \<open>manifoldMinusAndJacobian A B\<close> returns the twist \<open>w = log(A * inverse(B))\<close>.
  Its left Jacobian output \<open>J\<^sub>l\<close> is the inverse left Jacobian of the exponential map at
  \<open>w\<close>: in exact mode \<open>J\<^sub>l\<close> times the left Jacobian \<open>SE3LeftJacobian w\<close> is the
  identity, and in the approximate mode \<open>J\<^sub>l\<close> is the series
  \<open>1 - ad(w) / 2 + 0.0833333333333333333 ad(w)\<^sup>2\<close> in the \<open>ad\<close> operator
  \<open>skewSymmetric6\<close>.  Its right Jacobian output is \<open>J\<^sub>l\<close> times the Jacobian of
  \<open>A * inverse(B)\<close> with respect to \<open>B\<close>, which by the chain rule is the Jacobian that
  \<open>composeAndJacobian\<close> gives for the right operand of \<open>A * inverse(B)\<close> times the
  Jacobian that \<open>inverseAndJacobian\<close> gives for \<open>inverse(B)\<close>.  The left Jacobian is
  tied to the exponential map by its upper left block: above the tolerances, the
  translation of \<open>expMap u\<close> is that block of \<open>SE3LeftJacobian u\<close> applied to the second
  half of \<open>u\<close>.  (\<open>None\<close> is returned exactly when \<open>logMap\<close> returns NaNs or the
  elimination finds no pivot.)
\<close>

theorem manifoldMinusAndJacobian_spec:
  "manifoldMinusAndJacobian approximate tol A B =
     (case logMap approximate tol (compose A (inverse_tf B)) of
        None \<Rightarrow> None
      | Some w \<Rightarrow>
         (case (if approximate then Some (SE3ApproxInvLeftJacobian w)
                else mat6_inverse (SE3LeftJacobian w (1 / 10000))) of
            None \<Rightarrow> None
          | Some J \<Rightarrow>
             Some (w, J,
                   J * (snd (snd (composeAndJacobian A (inverse_tf B)))
                        * snd (inverseAndJacobian B)))))
   \<and> (manifoldMinusAndJacobian approximate tol A B = Some (w, Jl, Jr) \<longrightarrow>
        logMap approximate tol (compose A (inverse_tf B)) = Some w
        \<and> (approximate \<longrightarrow>
             Jl = 1 - (1 / 2) *\<^sub>R skewSymmetric6 w
                    + 0.0833333333333333333 *\<^sub>R skewSymmetric6 w * skewSymmetric6 w)
        \<and> (\<not> approximate \<longrightarrow> Jl * SE3LeftJacobian w (1 / 10000) = 1)
        \<and> Jr = Jl * (snd (snd (composeAndJacobian A (inverse_tf B)))
                        * snd (inverseAndJacobian B)))
   \<and> (1 / 10000 < norm3 (head3 u) \<and> TOL < norm3 (head3 u) \<longrightarrow>
        mat4_block31 (expMap False u TOL)
          = mv3 (block33 (SE3LeftJacobian u (1 / 10000)) 0 0) (tail3 u))"
  using manifoldMinusAndJacobian_jacobians [of approximate tol A B w Jl Jr]
    expMap_translation_left_jacobian [of u TOL]
  by blast

theorem manifoldMinusAndJacobian_spec_witness:
  "manifoldMinusAndJacobian False (1 / 10000) \<lparr>rotation = 1, translation = Vec3 1 0 0\<rparr>
       \<lparr>rotation = 1, translation = 0\<rparr>
     = Some (Vec6 0 0 0 1 0 0,
             Mat6 (Vec6 1 0 0 0 0 0) (Vec6 0 1 0 0 0 0) (Vec6 0 0 1 0 0 0)
                  (Vec6 0 0 0 1 0 0) (Vec6 0 0 (1 / 2) 0 1 0) (Vec6 0 (- (1 / 2)) 0 0 0 1),
             Mat6 (Vec6 1 0 0 0 0 0) (Vec6 0 1 0 0 0 0) (Vec6 0 0 1 0 0 0)
                  (Vec6 0 0 0 1 0 0) (Vec6 0 0 (1 / 2) 0 1 0) (Vec6 0 (- (1 / 2)) 0 0 0 1)
               * (snd (snd (composeAndJacobian \<lparr>rotation = 1, translation = Vec3 1 0 0\<rparr>
                              (inverse_tf \<lparr>rotation = 1, translation = 0\<rparr>)))
                  * snd (inverseAndJacobian \<lparr>rotation = 1, translation = 0\<rparr>)))
   \<and> Mat6 (Vec6 1 0 0 0 0 0) (Vec6 0 1 0 0 0 0) (Vec6 0 0 1 0 0 0)
           (Vec6 0 0 0 1 0 0) (Vec6 0 0 (1 / 2) 0 1 0) (Vec6 0 (- (1 / 2)) 0 0 0 1)
       * SE3LeftJacobian (Vec6 0 0 0 1 0 0) (1 / 10000) = 1
   \<and> manifoldMinusAndJacobian True (1 / 10000) \<lparr>rotation = 1, translation = Vec3 1 0 0\<rparr>
       \<lparr>rotation = 1, translation = 0\<rparr>
     = Some (Vec6 0 0 0 1 0 0,
             1 - (1 / 2) *\<^sub>R skewSymmetric6 (Vec6 0 0 0 1 0 0)
               + 0.0833333333333333333 *\<^sub>R skewSymmetric6 (Vec6 0 0 0 1 0 0)
                   * skewSymmetric6 (Vec6 0 0 0 1 0 0),
             (1 - (1 / 2) *\<^sub>R skewSymmetric6 (Vec6 0 0 0 1 0 0)
               + 0.0833333333333333333 *\<^sub>R skewSymmetric6 (Vec6 0 0 0 1 0 0)
                   * skewSymmetric6 (Vec6 0 0 0 1 0 0))
               * (snd (snd (composeAndJacobian \<lparr>rotation = 1, translation = Vec3 1 0 0\<rparr>
                              (inverse_tf \<lparr>rotation = 1, translation = 0\<rparr>)))
                  * snd (inverseAndJacobian \<lparr>rotation = 1, translation = 0\<rparr>)))
   \<and> 1 / 10000 < norm3 (head3 (Vec6 0 0 1 1 2 3))
   \<and> 1 / 100000 < norm3 (head3 (Vec6 0 0 1 1 2 3))
   \<and> mat4_block31 (expMap False (Vec6 0 0 1 1 2 3) (1 / 100000))
        = mv3 (block33 (SE3LeftJacobian (Vec6 0 0 1 1 2 3) (1 / 10000)) 0 0) (Vec3 1 2 3)"
proof -
  have l: "logMap False (1 / 10000)
      (compose \<lparr>rotation = 1, translation = Vec3 1 0 0\<rparr>
         (inverse_tf \<lparr>rotation = 1, translation = 0\<rparr>)) = Some (Vec6 0 0 0 1 0 0)"
    using manifoldMinus_example by (simp add: manifoldMinus_def)
  have la: "logMap True (1 / 10000)
      (compose \<lparr>rotation = 1, translation = Vec3 1 0 0\<rparr>
         (inverse_tf \<lparr>rotation = 1, translation = 0\<rparr>)) = Some (Vec6 0 0 0 1 0 0)"
    unfolding compose_inverse_identity logMap_translation_approximate
    by (simp add: zero_vec3_def)
  have e: "manifoldMinusAndJacobian False (1 / 10000) \<lparr>rotation = 1, translation = Vec3 1 0 0\<rparr>
       \<lparr>rotation = 1, translation = 0\<rparr>
     = Some (Vec6 0 0 0 1 0 0,
             Mat6 (Vec6 1 0 0 0 0 0) (Vec6 0 1 0 0 0 0) (Vec6 0 0 1 0 0 0)
                  (Vec6 0 0 0 1 0 0) (Vec6 0 0 (1 / 2) 0 1 0) (Vec6 0 (- (1 / 2)) 0 0 0 1),
             Mat6 (Vec6 1 0 0 0 0 0) (Vec6 0 1 0 0 0 0) (Vec6 0 0 1 0 0 0)
                  (Vec6 0 0 0 1 0 0) (Vec6 0 0 (1 / 2) 0 1 0) (Vec6 0 (- (1 / 2)) 0 0 0 1)
               * (snd (snd (composeAndJacobian \<lparr>rotation = 1, translation = Vec3 1 0 0\<rparr>
                              (inverse_tf \<lparr>rotation = 1, translation = 0\<rparr>)))
                  * snd (inverseAndJacobian \<lparr>rotation = 1, translation = 0\<rparr>)))"
    using manifoldMinusAndJacobian_spec [THEN conjunct1, of False "1 / 10000"
        "\<lparr>rotation = 1, translation = Vec3 1 0 0\<rparr>" "\<lparr>rotation = 1, translation = 0\<rparr>"]
    by (simp only: l option.case if_False SE3LeftJacobian_example mat6_inverse_example)
  have ea: "manifoldMinusAndJacobian True (1 / 10000) \<lparr>rotation = 1, translation = Vec3 1 0 0\<rparr>
       \<lparr>rotation = 1, translation = 0\<rparr>
     = Some (Vec6 0 0 0 1 0 0, SE3ApproxInvLeftJacobian (Vec6 0 0 0 1 0 0),
             SE3ApproxInvLeftJacobian (Vec6 0 0 0 1 0 0)
               * (snd (snd (composeAndJacobian \<lparr>rotation = 1, translation = Vec3 1 0 0\<rparr>
                              (inverse_tf \<lparr>rotation = 1, translation = 0\<rparr>)))
                  * snd (inverseAndJacobian \<lparr>rotation = 1, translation = 0\<rparr>)))"
    using manifoldMinusAndJacobian_spec [THEN conjunct1, of True "1 / 10000"
        "\<lparr>rotation = 1, translation = Vec3 1 0 0\<rparr>" "\<lparr>rotation = 1, translation = 0\<rparr>"]
    by (simp only: la option.case if_True)
  have n: "norm3 (Vec3 0 0 1) = 1" by (simp add: norm3_axis)
  have j1: "Mat6 (Vec6 1 0 0 0 0 0) (Vec6 0 1 0 0 0 0) (Vec6 0 0 1 0 0 0)
           (Vec6 0 0 0 1 0 0) (Vec6 0 0 (1 / 2) 0 1 0) (Vec6 0 (- (1 / 2)) 0 0 0 1)
       * SE3LeftJacobian (Vec6 0 0 0 1 0 0) (1 / 10000) = 1"
    using manifoldMinusAndJacobian_spec [THEN conjunct2, THEN conjunct1, THEN mp, OF e]
    by blast
  have j2: "SE3ApproxInvLeftJacobian (Vec6 0 0 0 1 0 0)
      = 1 - (1 / 2) *\<^sub>R skewSymmetric6 (Vec6 0 0 0 1 0 0)
               + 0.0833333333333333333 *\<^sub>R skewSymmetric6 (Vec6 0 0 0 1 0 0)
                   * skewSymmetric6 (Vec6 0 0 0 1 0 0)"
    using manifoldMinusAndJacobian_spec [THEN conjunct2, THEN conjunct1, THEN mp, OF ea]
    by blast
  have j3: "mat4_block31 (expMap False (Vec6 0 0 1 1 2 3) (1 / 100000))
        = mv3 (block33 (SE3LeftJacobian (Vec6 0 0 1 1 2 3) (1 / 10000)) 0 0) (tail3 (Vec6 0 0 1 1 2 3))"
    using manifoldMinusAndJacobian_spec [THEN conjunct2, THEN conjunct2,
        of "Vec6 0 0 1 1 2 3" "1 / 100000"]
    by (simp add: n)
  have ea': "manifoldMinusAndJacobian True (1 / 10000) \<lparr>rotation = 1, translation = Vec3 1 0 0\<rparr>
       \<lparr>rotation = 1, translation = 0\<rparr>
     = Some (Vec6 0 0 0 1 0 0,
             1 - (1 / 2) *\<^sub>R skewSymmetric6 (Vec6 0 0 0 1 0 0)
               + 0.0833333333333333333 *\<^sub>R skewSymmetric6 (Vec6 0 0 0 1 0 0)
                   * skewSymmetric6 (Vec6 0 0 0 1 0 0),
             (1 - (1 / 2) *\<^sub>R skewSymmetric6 (Vec6 0 0 0 1 0 0)
               + 0.0833333333333333333 *\<^sub>R skewSymmetric6 (Vec6 0 0 0 1 0 0)
                   * skewSymmetric6 (Vec6 0 0 0 1 0 0))
               * (snd (snd (composeAndJacobian \<lparr>rotation = 1, translation = Vec3 1 0 0\<rparr>
                              (inverse_tf \<lparr>rotation = 1, translation = 0\<rparr>)))
                  * snd (inverseAndJacobian \<lparr>rotation = 1, translation = 0\<rparr>)))"
    using ea unfolding j2 [symmetric] .
  have n1: "1 / 10000 < norm3 (head3 (Vec6 0 0 1 1 2 3))"
    and n2: "1 / 100000 < norm3 (head3 (Vec6 0 0 1 1 2 3))"
    by (simp_all add: n)
  have t3: "tail3 (Vec6 0 0 1 1 2 3) = Vec3 1 2 3" by simp
  show ?thesis
    using e j1 ea' n1 n2 j3 [unfolded t3] by (intro conjI)
qed

end
